theory Spec2Isabelle
  imports Main "HOL-Library.Sublist"
begin

section \<open>Chart scaffolding (pkg/chartutil/create.go)\<close>

text \<open>
  A Go \<open>string\<close> is a byte sequence and so is \<^typ>\<open>string\<close>; \<open>len\<close> is \<^const>\<open>length\<close>.
  An \<open>error\<close> return is an \<open>error option\<close>, \<open>nil\<close> being \<^const>\<open>None\<close>.
\<close>

subsection \<open>Constants\<close>

definition moduleNameTemplate :: string where
  "moduleNameTemplate = ''<MODULE>_''"

definition sep :: string where
  "sep = ''/''"

definition ChartfileName :: string where
  "ChartfileName = ''Chart.yaml''"

definition ValuesfileName :: string where
  "ValuesfileName = ''values.yaml''"

definition TemplatesDir :: string where
  "TemplatesDir = ''templates''"

definition ChartsDir :: string where
  "ChartsDir = ''charts''"

definition TemplatesTestsDir :: string where
  "TemplatesTestsDir = TemplatesDir @ sep @ ''tests''"

definition IgnorefileName :: string where
  "IgnorefileName = ''.helmignore''"

definition IngressFileName :: string where
  "IngressFileName = TemplatesDir @ sep @ moduleNameTemplate @ ''_ingress.yaml''"

definition DeploymentName :: string where
  "DeploymentName = TemplatesDir @ sep @ moduleNameTemplate @ ''_deployment.yaml''"

definition ServiceName :: string where
  "ServiceName = TemplatesDir @ sep @ moduleNameTemplate @ ''_service.yaml''"

definition ServiceAccountName :: string where
  "ServiceAccountName = TemplatesDir @ sep @ moduleNameTemplate @ ''_serviceaccount.yaml''"

definition HorizontalPodAutoscalerName :: string where
  "HorizontalPodAutoscalerName = TemplatesDir @ sep @ moduleNameTemplate @ ''_hpa.yaml''"

definition NotesName :: string where
  "NotesName = TemplatesDir @ sep @ ''NOTES.txt''"

definition HelpersName :: string where
  "HelpersName = TemplatesDir @ sep @ ''_'' @ moduleNameTemplate @ ''_helpers.tpl''"

definition TestConnectionName :: string where
  "TestConnectionName = TemplatesTestsDir @ sep @ moduleNameTemplate @ ''_test-connection.yaml''"

definition maxChartNameLength :: nat where
  "maxChartNameLength = 250"

subsection \<open>Template bodies\<close>

text \<open>Each raw string constant of the source, one list element per source line.\<close>

definition defaultChartfile :: string where
  \<open>defaultChartfile = concat
    [''apiVersion: v2\<newline>'',
     ''name: %s\<newline>'',
     ''description: A Helm chart for Kubernetes\<newline>'',
     ''\<newline>'',
     ''# A chart can be either an 'application' or a 'library' chart.\<newline>'',
     ''#\<newline>'',
     ''# Application charts are a collection of templates that can be packaged into versioned archives\<newline>'',
     ''# to be deployed.\<newline>'',
     ''#\<newline>'',
     ''# Library charts provide useful utilities or functions for the chart developer. They're included as\<newline>'',
     ''# a dependency of application charts to inject those utilities and functions into the rendering\<newline>'',
     ''# pipeline. Library charts do not define any templates and therefore cannot be deployed.\<newline>'',
     ''type: application\<newline>'',
     ''\<newline>'',
     ''# This is the chart version. This version number should be incremented each time you make changes\<newline>'',
     ''# to the chart and its templates, including the app version.\<newline>'',
     ''# Versions are expected to follow Semantic Versioning (https://semver.org/)\<newline>'',
     ''version: 0.1.0\<newline>'',
     ''\<newline>'',
     ''# This is the version number of the application being deployed. This version number should be\<newline>'',
     ''# incremented each time you make changes to the application. Versions are not expected to\<newline>'',
     ''# follow Semantic Versioning. They should reflect the version the application is using.\<newline>'',
     ''# It is recommended to use it with quotes.\<newline>'',
     ''appVersion: "1.16.0"\<newline>'']\<close>

definition defaultValues :: string where
  \<open>defaultValues = concat
    [''# Default values for %s.\<newline>'',
     ''# This is a YAML-formatted file.\<newline>'',
     ''# Declare variables to be passed into your templates.\<newline>'',
     ''\<newline>'',
     ''<MODULE_NAME>:\<newline>'',
     ''  replicaCount: 1\<newline>'',
     ''\<newline>'',
     ''  image:\<newline>'',
     ''    repository: nginx\<newline>'',
     ''    pullPolicy: IfNotPresent\<newline>'',
     ''    # Overrides the image tag whose default is the chart appVersion.\<newline>'',
     ''    tag: ""\<newline>'',
     ''\<newline>'',
     ''  imagePullSecrets: []\<newline>'',
     ''  nameOverride: ""\<newline>'',
     ''  fullnameOverride: ""\<newline>'',
     ''\<newline>'',
     ''  serviceAccount:\<newline>'',
     ''    # Specifies whether a service account should be created\<newline>'',
     ''    create: true\<newline>'',
     ''    # Annotations to add to the service account\<newline>'',
     ''    annotations: {}\<newline>'',
     ''    # The name of the service account to use.\<newline>'',
     ''    # If not set and create is true, a name is generated using the fullname template\<newline>'',
     ''    name: ""\<newline>'',
     ''\<newline>'',
     ''  podAnnotations: {}\<newline>'',
     ''\<newline>'',
     ''  podSecurityContext: {}\<newline>'',
     ''    # fsGroup: 2000\<newline>'',
     ''\<newline>'',
     ''  securityContext: {}\<newline>'',
     ''    # capabilities:\<newline>'',
     ''    #   drop:\<newline>'',
     ''    #   - ALL\<newline>'',
     ''    # readOnlyRootFilesystem: true\<newline>'',
     ''    # runAsNonRoot: true\<newline>'',
     ''    # runAsUser: 1000\<newline>'',
     ''\<newline>'',
     ''  service:\<newline>'',
     ''    type: ClusterIP\<newline>'',
     ''    port: 80\<newline>'',
     ''\<newline>'',
     ''  ingress:\<newline>'',
     ''    enabled: false\<newline>'',
     ''    className: ""\<newline>'',
     ''    annotations: {}\<newline>'',
     ''      # kubernetes.io/ingress.class: nginx\<newline>'',
     ''      # kubernetes.io/tls-acme: "true"\<newline>'',
     ''    hosts:\<newline>'',
     ''      - host: chart-example.local\<newline>'',
     ''        paths:\<newline>'',
     ''          - path: /\<newline>'',
     ''            pathType: ImplementationSpecific\<newline>'',
     ''    tls: []\<newline>'',
     ''    #  - secretName: chart-example-tls\<newline>'',
     ''    #    hosts:\<newline>'',
     ''    #      - chart-example.local\<newline>'',
     ''\<newline>'',
     ''  resources: {}\<newline>'',
     ''    # We usually recommend not to specify default resources and to leave this as a conscious\<newline>'',
     ''    # choice for the user. This also increases chances charts run on environments with little\<newline>'',
     ''    # resources, such as Minikube. If you do want to specify resources, uncomment the following\<newline>'',
     ''    # lines, adjust them as necessary, and remove the curly braces after 'resources:'.\<newline>'',
     ''    # limits:\<newline>'',
     ''    #   cpu: 100m\<newline>'',
     ''    #   memory: 128Mi\<newline>'',
     ''    # requests:\<newline>'',
     ''    #   cpu: 100m\<newline>'',
     ''    #   memory: 128Mi\<newline>'',
     ''\<newline>'',
     ''  autoscaling:\<newline>'',
     ''    enabled: false\<newline>'',
     ''    minReplicas: 1\<newline>'',
     ''    maxReplicas: 100\<newline>'',
     ''    targetCPUUtilizationPercentage: 80\<newline>'',
     ''    # targetMemoryUtilizationPercentage: 80\<newline>'',
     ''\<newline>'',
     ''  nodeSelector: {}\<newline>'',
     ''\<newline>'',
     ''  tolerations: []\<newline>'',
     ''\<newline>'',
     ''  affinity: {}\<newline>'']\<close>

definition defaultIgnore :: string where
  \<open>defaultIgnore = concat
    [''# Patterns to ignore when building packages.\<newline>'',
     ''# This supports shell glob matching, relative path matching, and\<newline>'',
     ''# negation (prefixed with !). Only one pattern per line.\<newline>'',
     ''.DS_Store\<newline>'',
     ''# Common VCS dirs\<newline>'',
     ''.git/\<newline>'',
     ''.gitignore\<newline>'',
     ''.bzr/\<newline>'',
     ''.bzrignore\<newline>'',
     ''.hg/\<newline>'',
     ''.hgignore\<newline>'',
     ''.svn/\<newline>'',
     ''# Common backup files\<newline>'',
     ''*.swp\<newline>'',
     ''*.bak\<newline>'',
     ''*.tmp\<newline>'',
     ''*.orig\<newline>'',
     ''*~\<newline>'',
     ''# Various IDEs\<newline>'',
     ''.project\<newline>'',
     ''.idea/\<newline>'',
     ''*.tmproj\<newline>'',
     ''.vscode/\<newline>'']\<close>

definition defaultIngress :: string where
  \<open>defaultIngress = concat
    [''{{- if .Values.<MODULE_NAME>.ingress.enabled -}}\<newline>'',
     ''{{- $fullName := include "<MODULE_NAME>.fullname" . -}}\<newline>'',
     ''{{- $svcPort := .Values.<MODULE_NAME>.service.port -}}\<newline>'',
     ''{{- if and .Values.<MODULE_NAME>.ingress.className (not (semverCompare ">=1.18-0" .Capabilities.KubeVersion.GitVersion)) }}\<newline>'',
     ''  {{- if not (hasKey .Values.<MODULE_NAME>.ingress.annotations "kubernetes.io/ingress.class") }}\<newline>'',
     ''  {{- $_ := set .Values.<MODULE_NAME>.ingress.annotations "kubernetes.io/ingress.class" .Values.<MODULE_NAME>.ingress.className}}\<newline>'',
     ''  {{- end }}\<newline>'',
     ''{{- end }}\<newline>'',
     ''{{- if semverCompare ">=1.19-0" .Capabilities.KubeVersion.GitVersion -}}\<newline>'',
     ''apiVersion: networking.k8s.io/v1\<newline>'',
     ''{{- else if semverCompare ">=1.14-0" .Capabilities.KubeVersion.GitVersion -}}\<newline>'',
     ''apiVersion: networking.k8s.io/v1beta1\<newline>'',
     ''{{- else -}}\<newline>'',
     ''apiVersion: extensions/v1beta1\<newline>'',
     ''{{- end }}\<newline>'',
     ''kind: Ingress\<newline>'',
     ''metadata:\<newline>'',
     ''  name: {{ $fullName }}\<newline>'',
     ''  labels:\<newline>'',
     ''    {{- include "<MODULE_NAME>.labels" . | nindent 4 }}\<newline>'',
     ''  {{- with .Values.<MODULE_NAME>.ingress.annotations }}\<newline>'',
     ''  annotations:\<newline>'',
     ''    {{- toYaml . | nindent 4 }}\<newline>'',
     ''  {{- end }}\<newline>'',
     ''spec:\<newline>'',
     ''  {{- if and .Values.<MODULE_NAME>.ingress.className (semverCompare ">=1.18-0" .Capabilities.KubeVersion.GitVersion) }}\<newline>'',
     ''  ingressClassName: {{ .Values.<MODULE_NAME>.ingress.className }}\<newline>'',
     ''  {{- end }}\<newline>'',
     ''  {{- if .Values.<MODULE_NAME>.ingress.tls }}\<newline>'',
     ''  tls:\<newline>'',
     ''    {{- range .Values.<MODULE_NAME>.ingress.tls }}\<newline>'',
     ''    - hosts:\<newline>'',
     ''        {{- range .hosts }}\<newline>'',
     ''        - {{ . | quote }}\<newline>'',
     ''        {{- end }}\<newline>'',
     ''      secretName: {{ .secretName }}\<newline>'',
     ''    {{- end }}\<newline>'',
     ''  {{- end }}\<newline>'',
     ''  rules:\<newline>'',
     ''    {{- range .Values.<MODULE_NAME>.ingress.hosts }}\<newline>'',
     ''    - host: {{ .host | quote }}\<newline>'',
     ''      http:\<newline>'',
     ''        paths:\<newline>'',
     ''          {{- range .paths }}\<newline>'',
     ''          - path: {{ .path }}\<newline>'',
     ''            {{- if and .pathType (semverCompare ">=1.18-0" $.Capabilities.KubeVersion.GitVersion) }}\<newline>'',
     ''            pathType: {{ .pathType }}\<newline>'',
     ''            {{- end }}\<newline>'',
     ''            backend:\<newline>'',
     ''              {{- if semverCompare ">=1.19-0" $.Capabilities.KubeVersion.GitVersion }}\<newline>'',
     ''              service:\<newline>'',
     ''                name: {{ $fullName }}\<newline>'',
     ''                port:\<newline>'',
     ''                  number: {{ $svcPort }}\<newline>'',
     ''              {{- else }}\<newline>'',
     ''              serviceName: {{ $fullName }}\<newline>'',
     ''              servicePort: {{ $svcPort }}\<newline>'',
     ''              {{- end }}\<newline>'',
     ''          {{- end }}\<newline>'',
     ''    {{- end }}\<newline>'',
     ''{{- end }}\<newline>'']\<close>

definition defaultDeployment :: string where
  \<open>defaultDeployment = concat
    [''apiVersion: apps/v1\<newline>'',
     ''kind: Deployment\<newline>'',
     ''metadata:\<newline>'',
     ''  name: {{ include "<MODULE_NAME>.fullname" . }}\<newline>'',
     ''  labels:\<newline>'',
     ''    {{- include "<MODULE_NAME>.labels" . | nindent 4 }}\<newline>'',
     ''spec:\<newline>'',
     ''  {{- if not .Values.<MODULE_NAME>.autoscaling.enabled }}\<newline>'',
     ''  replicas: {{ .Values.<MODULE_NAME>.replicaCount }}\<newline>'',
     ''  {{- end }}\<newline>'',
     ''  selector:\<newline>'',
     ''    matchLabels:\<newline>'',
     ''      app.kubernetes.io/name: {{ include "<MODULE_NAME>.name" . }}\<newline>'',
     ''      app.kubernetes.io/instance: {{ .Release.Name }}\<newline>'',
     ''  template:\<newline>'',
     ''    metadata:\<newline>'',
     ''      {{- with .Values.<MODULE_NAME>.podAnnotations }}\<newline>'',
     ''      annotations:\<newline>'',
     ''        {{- toYaml . | nindent 8 }}\<newline>'',
     ''      {{- end }}\<newline>'',
     ''      labels:\<newline>'',
     ''        app.kubernetes.io/name: {{ include "<MODULE_NAME>.name" . }}\<newline>'',
     ''        app.kubernetes.io/instance: {{ .Release.Name }}\<newline>'',
     ''    spec:\<newline>'',
     ''      {{- with .Values.<MODULE_NAME>.imagePullSecrets }}\<newline>'',
     ''      imagePullSecrets:\<newline>'',
     ''        {{- toYaml . | nindent 8 }}\<newline>'',
     ''      {{- end }}\<newline>'',
     ''      serviceAccountName: {{ include "<MODULE_NAME>.serviceAccountName" . }}\<newline>'',
     ''      securityContext:\<newline>'',
     ''        {{- toYaml .Values.<MODULE_NAME>.podSecurityContext | nindent 8 }}\<newline>'',
     ''      containers:\<newline>'',
     ''        - name: {{ .Chart.Name }}\<newline>'',
     ''          securityContext:\<newline>'',
     ''            {{- toYaml .Values.<MODULE_NAME>.securityContext | nindent 12 }}\<newline>'',
     ''          image: "{{ .Values.<MODULE_NAME>.image.repository }}:{{ .Values.<MODULE_NAME>.image.tag | default .Chart.AppVersion }}"\<newline>'',
     ''          imagePullPolicy: {{ .Values.<MODULE_NAME>.image.pullPolicy }}\<newline>'',
     ''          ports:\<newline>'',
     ''            - name: http\<newline>'',
     ''              containerPort: 80\<newline>'',
     ''              protocol: TCP\<newline>'',
     ''          livenessProbe:\<newline>'',
     ''            httpGet:\<newline>'',
     ''              path: /\<newline>'',
     ''              port: http\<newline>'',
     ''          readinessProbe:\<newline>'',
     ''            httpGet:\<newline>'',
     ''              path: /\<newline>'',
     ''              port: http\<newline>'',
     ''          resources:\<newline>'',
     ''            {{- toYaml .Values.<MODULE_NAME>.resources | nindent 12 }}\<newline>'',
     ''      {{- with .Values.<MODULE_NAME>.nodeSelector }}\<newline>'',
     ''      nodeSelector:\<newline>'',
     ''        {{- toYaml . | nindent 8 }}\<newline>'',
     ''      {{- end }}\<newline>'',
     ''      {{- with .Values.<MODULE_NAME>.affinity }}\<newline>'',
     ''      affinity:\<newline>'',
     ''        {{- toYaml . | nindent 8 }}\<newline>'',
     ''      {{- end }}\<newline>'',
     ''      {{- with .Values.<MODULE_NAME>.tolerations }}\<newline>'',
     ''      tolerations:\<newline>'',
     ''        {{- toYaml . | nindent 8 }}\<newline>'',
     ''      {{- end }}\<newline>'']\<close>

definition defaultService :: string where
  \<open>defaultService = concat
    [''apiVersion: v1\<newline>'',
     ''kind: Service\<newline>'',
     ''metadata:\<newline>'',
     ''  name: {{ include "<MODULE_NAME>.fullname" . }}\<newline>'',
     ''  labels:\<newline>'',
     ''    {{- include "<MODULE_NAME>.labels" . | nindent 4 }}\<newline>'',
     ''spec:\<newline>'',
     ''  type: {{ .Values.<MODULE_NAME>.service.type }}\<newline>'',
     ''  ports:\<newline>'',
     ''    - port: {{ .Values.<MODULE_NAME>.service.port }}\<newline>'',
     ''      targetPort: http\<newline>'',
     ''      protocol: TCP\<newline>'',
     ''      name: http\<newline>'',
     ''  selector:\<newline>'',
     ''    app.kubernetes.io/name: {{ include "<MODULE_NAME>.name" . }}\<newline>'',
     ''    app.kubernetes.io/instance: {{ .Release.Name }}\<newline>'']\<close>

definition defaultServiceAccount :: string where
  \<open>defaultServiceAccount = concat
    [''{{- if .Values.<MODULE_NAME>.serviceAccount.create -}}\<newline>'',
     ''apiVersion: v1\<newline>'',
     ''kind: ServiceAccount\<newline>'',
     ''metadata:\<newline>'',
     ''  name: {{ include "<MODULE_NAME>.serviceAccountName" . }}\<newline>'',
     ''  labels:\<newline>'',
     ''    {{- include "<MODULE_NAME>.labels" . | nindent 4 }}\<newline>'',
     ''  {{- with .Values.<MODULE_NAME>.serviceAccount.annotations }}\<newline>'',
     ''  annotations:\<newline>'',
     ''    {{- toYaml . | nindent 4 }}\<newline>'',
     ''  {{- end }}\<newline>'',
     ''{{- end }}\<newline>'']\<close>

definition defaultHorizontalPodAutoscaler :: string where
  \<open>defaultHorizontalPodAutoscaler = concat
    [''{{- if .Values.<MODULE_NAME>.autoscaling.enabled }}\<newline>'',
     ''apiVersion: autoscaling/v2beta1\<newline>'',
     ''kind: HorizontalPodAutoscaler\<newline>'',
     ''metadata:\<newline>'',
     ''  name: {{ include "<MODULE_NAME>.fullname" . }}\<newline>'',
     ''  labels:\<newline>'',
     ''    {{- include "<MODULE_NAME>.labels" . | nindent 4 }}\<newline>'',
     ''spec:\<newline>'',
     ''  scaleTargetRef:\<newline>'',
     ''    apiVersion: apps/v1\<newline>'',
     ''    kind: Deployment\<newline>'',
     ''    name: {{ include "<MODULE_NAME>.fullname" . }}\<newline>'',
     ''  minReplicas: {{ .Values.<MODULE_NAME>.autoscaling.minReplicas }}\<newline>'',
     ''  maxReplicas: {{ .Values.<MODULE_NAME>.autoscaling.maxReplicas }}\<newline>'',
     ''  metrics:\<newline>'',
     ''    {{- if .Values.<MODULE_NAME>.autoscaling.targetCPUUtilizationPercentage }}\<newline>'',
     ''    - type: Resource\<newline>'',
     ''      resource:\<newline>'',
     ''        name: cpu\<newline>'',
     ''        targetAverageUtilization: {{ .Values.<MODULE_NAME>.autoscaling.targetCPUUtilizationPercentage }}\<newline>'',
     ''    {{- end }}\<newline>'',
     ''    {{- if .Values.<MODULE_NAME>.autoscaling.targetMemoryUtilizationPercentage }}\<newline>'',
     ''    - type: Resource\<newline>'',
     ''      resource:\<newline>'',
     ''        name: memory\<newline>'',
     ''        targetAverageUtilization: {{ .Values.<MODULE_NAME>.autoscaling.targetMemoryUtilizationPercentage }}\<newline>'',
     ''    {{- end }}\<newline>'',
     ''{{- end }}\<newline>'']\<close>

definition defaultNotes :: string where
  \<open>defaultNotes = concat
    [''1. Get the application URL by running these commands:\<newline>'',
     ''{{- if .Values.<MODULE_NAME>.ingress.enabled }}\<newline>'',
     ''{{- range $host := .Values.<MODULE_NAME>.ingress.hosts }}\<newline>'',
     ''  {{- range .paths }}\<newline>'',
     ''  http{{ if $.Values.<MODULE_NAME>.ingress.tls }}s{{ end }}://{{ $host.host }}{{ .path }}\<newline>'',
     ''  {{- end }}\<newline>'',
     ''{{- end }}\<newline>'',
     ''{{- else if contains "NodePort" .Values.<MODULE_NAME>.service.type }}\<newline>'',
     ''  export NODE_PORT=$(kubectl get --namespace {{ .Release.Namespace }} -o jsonpath="{.spec.ports[0].nodePort}" services {{ include "<MODULE_NAME>.fullname" . }})\<newline>'',
     ''  export NODE_IP=$(kubectl get nodes --namespace {{ .Release.Namespace }} -o jsonpath="{.items[0].status.addresses[0].address}")\<newline>'',
     ''  echo http://$NODE_IP:$NODE_PORT\<newline>'',
     ''{{- else if contains "LoadBalancer" .Values.<MODULE_NAME>.service.type }}\<newline>'',
     ''     NOTE: It may take a few minutes for the LoadBalancer IP to be available.\<newline>'',
     ''           You can watch the status of by running 'kubectl get --namespace {{ .Release.Namespace }} svc -w {{ include "<MODULE_NAME>.fullname" . }}'\<newline>'',
     ''  export SERVICE_IP=$(kubectl get svc --namespace {{ .Release.Namespace }} {{ include "<MODULE_NAME>.fullname" . }} --template "{{"{{ range (index .status.loadBalancer.ingress 0) }}{{.}}{{ end }}"}}")\<newline>'',
     ''  echo http://$SERVICE_IP:{{ .Values.<MODULE_NAME>.service.port }}\<newline>'',
     ''{{- else if contains "ClusterIP" .Values.<MODULE_NAME>.service.type }}\<newline>'',
     ''  export POD_NAME=$(kubectl get pods --namespace {{ .Release.Namespace }} -l "app.kubernetes.io/name={{ include "<MODULE_NAME>.name" . }},app.kubernetes.io/instance={{ .Release.Name }}" -o jsonpath="{.items[0].metadata.name}")\<newline>'',
     ''  export CONTAINER_PORT=$(kubectl get pod --namespace {{ .Release.Namespace }} $POD_NAME -o jsonpath="{.spec.containers[0].ports[0].containerPort}")\<newline>'',
     ''  echo "Visit http://127.0.0.1:8080 to use your application"\<newline>'',
     ''  kubectl --namespace {{ .Release.Namespace }} port-forward $POD_NAME 8080:$CONTAINER_PORT\<newline>'',
     ''{{- end }}\<newline>'']\<close>

definition defaultHelpers :: string where
  \<open>defaultHelpers = concat
    [''{{/*\<newline>'',
     ''Expand the name of the chart.\<newline>'',
     ''*/}}\<newline>'',
     ''{{- define "<MODULE_NAME>.name" -}}\<newline>'',
     ''{{- default .Chart.Name .Values.<MODULE_NAME>.nameOverride | trunc 63 | trimSuffix "-" }}\<newline>'',
     ''{{- end }}\<newline>'',
     ''\<newline>'',
     ''{{/*\<newline>'',
     ''Create a default fully qualified app name.\<newline>'',
     ''We truncate at 63 chars because some Kubernetes name fields are limited to this (by the DNS naming spec).\<newline>'',
     ''If release name contains chart name it will be used as a full name.\<newline>'',
     ''*/}}\<newline>'',
     ''{{- define "<MODULE_NAME>.fullname" -}}\<newline>'',
     ''{{- if .Values.<MODULE_NAME>.fullnameOverride }}\<newline>'',
     ''{{- .Values.<MODULE_NAME>.fullnameOverride | trunc 63 | trimSuffix "-" }}\<newline>'',
     ''{{- else }}\<newline>'',
     ''{{- $name := default .Chart.Name .Values.<MODULE_NAME>.nameOverride }}\<newline>'',
     ''{{- if contains $name .Release.Name }}\<newline>'',
     ''{{- .Release.Name | trunc 63 | trimSuffix "-" }}\<newline>'',
     ''{{- else }}\<newline>'',
     ''{{- printf "%s-%s-%s" .Release.Name $name "<MODULE_NAME>" | trunc 63 | trimSuffix "-" }}\<newline>'',
     ''{{- end }}\<newline>'',
     ''{{- end }}\<newline>'',
     ''{{- end }}\<newline>'',
     ''\<newline>'',
     ''{{/*\<newline>'',
     ''Create chart name and version as used by the chart label.\<newline>'',
     ''*/}}\<newline>'',
     ''{{- define "<MODULE_NAME>.chart" -}}\<newline>'',
     ''{{- printf "%s-%s" .Chart.Name .Chart.Version | replace "+" "_" | trunc 63 | trimSuffix "-" }}\<newline>'',
     ''{{- end }}\<newline>'',
     ''\<newline>'',
     ''{{/*\<newline>'',
     ''Common labels\<newline>'',
     ''*/}}\<newline>'',
     ''{{- define "<MODULE_NAME>.labels" -}}\<newline>'',
     ''helm.sh/chart: {{ include "<MODULE_NAME>.chart" . }}\<newline>'',
     ''{{ include "<MODULE_NAME>.selectorLabels" . }}\<newline>'',
     ''{{- if .Chart.AppVersion }}\<newline>'',
     ''app.kubernetes.io/version: {{ .Chart.AppVersion | quote }}\<newline>'',
     ''{{- end }}\<newline>'',
     ''app.kubernetes.io/managed-by: {{ .Release.Service }}\<newline>'',
     ''{{- end }}\<newline>'',
     ''\<newline>'',
     ''{{/*\<newline>'',
     ''Selector labels\<newline>'',
     ''*/}}\<newline>'',
     ''{{- define "<MODULE_NAME>.selectorLabels" -}}\<newline>'',
     ''app.kubernetes.io/name: {{ include "<MODULE_NAME>.name" . }}-<MODULE_NAME>\<newline>'',
     ''app.kubernetes.io/instance: {{ .Release.Name }}\<newline>'',
     ''{{- end }}\<newline>'',
     ''\<newline>'',
     ''{{/*\<newline>'',
     ''Create the name of the service account to use\<newline>'',
     ''*/}}\<newline>'',
     ''{{- define "<MODULE_NAME>.serviceAccountName" -}}\<newline>'',
     ''{{- if .Values.<MODULE_NAME>.serviceAccount.create }}\<newline>'',
     ''{{- default (include "<MODULE_NAME>.fullname" .) .Values.<MODULE_NAME>.serviceAccount.name }}\<newline>'',
     ''{{- else }}\<newline>'',
     ''{{- default "default" .Values.<MODULE_NAME>.serviceAccount.name }}\<newline>'',
     ''{{- end }}\<newline>'',
     ''{{- end }}\<newline>'']\<close>

definition defaultTestConnection :: string where
  \<open>defaultTestConnection = concat
    [''apiVersion: v1\<newline>'',
     ''kind: Pod\<newline>'',
     ''metadata:\<newline>'',
     ''  name: "{{ include "<MODULE_NAME>.fullname" . }}-test-connection"\<newline>'',
     ''  labels:\<newline>'',
     ''    {{- include "<MODULE_NAME>.labels" . | nindent 4 }}\<newline>'',
     ''  annotations:\<newline>'',
     ''    "helm.sh/hook": test\<newline>'',
     ''spec:\<newline>'',
     ''  containers:\<newline>'',
     ''    - name: wget\<newline>'',
     ''      image: busybox\<newline>'',
     ''      command: ['wget']\<newline>'',
     ''      args: ['{{ include "<MODULE_NAME>.fullname" . }}:{{ .Values.<MODULE_NAME>.service.port }}']\<newline>'',
     ''  restartPolicy: Never\<newline>'']\<close>

subsection \<open>Name validation\<close>

datatype errno = ENOENT | ENOTDIR | EISDIR | EACCES | EINVAL

datatype error =
    EmptyOrTooLong
  | InvalidCharacters
  | NoSuchDirectory string
  | ExistsNotDirectory string
  | IOError errno
  | LoadError
  | MarshalError
  | UnmarshalError

text \<open>
  The regular expression \<open>^[a-zA-Z0-9._-]+$\<close>. Go's \<open>$\<close> without the multi-line flag is
  the end of the text, and every byte of a non-ASCII or invalid UTF-8 sequence is at least
  \<open>0x80\<close>, outside the class, so the match is decided byte by byte.
\<close>

definition chartName_class :: "char \<Rightarrow> bool" where
  "chartName_class c =
     (let n = (of_char c :: nat) in
        (97 \<le> n \<and> n \<le> 122) \<or> (65 \<le> n \<and> n \<le> 90) \<or> (48 \<le> n \<and> n \<le> 57)
        \<or> c = CHR ''.'' \<or> c = CHR ''_'' \<or> c = CHR ''-'')"

definition chartName_MatchString :: "string \<Rightarrow> bool" where
  "chartName_MatchString name = (name \<noteq> [] \<and> list_all chartName_class name)"

definition validateChartName :: "string \<Rightarrow> error option" where
  "validateChartName name =
     (if name = [] \<or> length name > maxChartNameLength then Some EmptyOrTooLong
      else if \<not> chartName_MatchString name then Some InvalidCharacters
      else None)"

subsection \<open>Placeholder substitution\<close>

text \<open>
  \<open>strings.ReplaceAll s old new\<close>: the non-overlapping occurrences of \<open>old\<close>, found from
  the left, are replaced. Every call in the source has a non-empty constant \<open>old\<close>; for an
  empty \<open>old\<close> Go inserts \<open>new\<close> before every character and at the end.
\<close>

function ReplaceAll :: "string \<Rightarrow> string \<Rightarrow> string \<Rightarrow> string" where
  "ReplaceAll [] old new = (if old = [] then new else [])"
| "ReplaceAll (c # cs) old new =
     (if old = [] then new @ c # ReplaceAll cs old new
      else if prefix old (c # cs) then new @ ReplaceAll (drop (length old) (c # cs)) old new
      else c # ReplaceAll cs old new)"
  by pat_completeness auto
termination
  by (relation "measure (\<lambda>(s, old, new). length s)") auto

definition transform :: "string \<Rightarrow> string \<Rightarrow> string" where
  "transform src module = ReplaceAll src ''<MODULE_NAME>'' module"

definition transformModuleName :: "string \<Rightarrow> string \<Rightarrow> string" where
  "transformModuleName src moduleName = ReplaceAll src moduleNameTemplate (moduleName @ ''_'')"

text \<open>
  \<open>fmt.Sprintf format a\<close> for a format whose only verb is one \<open>%s\<close>, as
  \<open>defaultChartfile\<close> is: the verb is replaced by the argument.
\<close>

fun Sprintf :: "string \<Rightarrow> string \<Rightarrow> string" where
  "Sprintf (c # d # cs) a =
     (if c = CHR ''%'' \<and> d = CHR ''s'' then a @ cs else c # Sprintf (d # cs) a)"
| "Sprintf cs a = cs"

subsection \<open>Paths (path/filepath on Unix)\<close>

text \<open>
  The standard library's lexical path functions, after their documentation: \<open>Clean\<close>
  drops empty and \<open>.\<close> elements, cancels an inner \<open>..\<close> against the element before it,
  drops \<open>..\<close> at the root and keeps it at the start of a relative path.
\<close>

fun split_sep :: "string \<Rightarrow> string list" where
  "split_sep [] = [[]]"
| "split_sep (c # cs) =
     (if c = CHR ''/'' then [] # split_sep cs
      else (case split_sep cs of [] \<Rightarrow> [[c]] | e # es \<Rightarrow> (c # e) # es))"

fun join_sep :: "string list \<Rightarrow> string" where
  "join_sep [] = []"
| "join_sep [e] = e"
| "join_sep (e # es) = e @ CHR ''/'' # join_sep es"

fun clean_elems :: "bool \<Rightarrow> string list \<Rightarrow> string list \<Rightarrow> string list" where
  "clean_elems rooted st [] = rev st"
| "clean_elems rooted st (e # es) =
     (if e = [] \<or> e = ''.'' then clean_elems rooted st es
      else if e = ''..'' then
        (case st of
           [] \<Rightarrow> if rooted then clean_elems rooted [] es else clean_elems rooted [''..''] es
         | t # ts \<Rightarrow> if t = ''..'' then clean_elems rooted (''..'' # t # ts) es
                     else clean_elems rooted ts es)
      else clean_elems rooted (e # st) es)"

definition IsAbs :: "string \<Rightarrow> bool" where
  "IsAbs p = prefix ''/'' p"

definition Clean :: "string \<Rightarrow> string" where
  "Clean p =
     (if p = [] then ''.''
      else let es = clean_elems (IsAbs p) [] (split_sep p) in
        if IsAbs p then CHR ''/'' # join_sep es
        else if es = [] then ''.'' else join_sep es)"

definition Join :: "string list \<Rightarrow> string" where
  "Join elem =
     (case dropWhile (\<lambda>e. e = []) elem of [] \<Rightarrow> [] | e # es \<Rightarrow> Clean (join_sep (e # es)))"

text \<open>\<open>filepath.Dir\<close>: everything up to the last separator, cleaned.\<close>

definition Dir :: "string \<Rightarrow> string" where
  "Dir p = Clean (rev (dropWhile (\<lambda>c. c \<noteq> CHR ''/'') (rev p)))"

subsection \<open>The planned files\<close>

record ManifestFile =
  path :: string
  content :: string

definition getFiles :: "string \<Rightarrow> string \<Rightarrow> ManifestFile list" where
  "getFiles cdir module =
     [\<lparr>path = Join [cdir, transformModuleName IngressFileName module],
       content = transform defaultIngress module\<rparr>,
      \<lparr>path = Join [cdir, transformModuleName DeploymentName module],
       content = transform defaultDeployment module\<rparr>,
      \<lparr>path = Join [cdir, transformModuleName ServiceName module],
       content = transform defaultService module\<rparr>,
      \<lparr>path = Join [cdir, transformModuleName ServiceAccountName module],
       content = transform defaultServiceAccount module\<rparr>,
      \<lparr>path = Join [cdir, transformModuleName HorizontalPodAutoscalerName module],
       content = transform defaultHorizontalPodAutoscaler module\<rparr>,
      \<lparr>path = Join [cdir, transformModuleName HelpersName module],
       content = transform defaultHelpers module\<rparr>,
      \<lparr>path = Join [cdir, transformModuleName TestConnectionName module],
       content = transform defaultTestConnection module\<rparr>]"

definition getBasefiles :: "string \<Rightarrow> string \<Rightarrow> string \<Rightarrow> ManifestFile list" where
  "getBasefiles cdir module chartname =
     [\<lparr>path = Join [cdir, ValuesfileName],
       content = transform defaultValues module\<rparr>,
      \<lparr>path = Join [cdir, ChartfileName],
       content = Sprintf defaultChartfile chartname\<rparr>,
      \<lparr>path = Join [cdir, IgnorefileName],
       content = defaultIgnore\<rparr>,
      \<lparr>path = Join [cdir, transformModuleName NotesName module],
       content = transform defaultNotes module\<rparr>]"

subsection \<open>The file system and the diagnostic stream\<close>

text \<open>
  The operating system behind the \<open>os\<close> and \<open>ioutil\<close> calls. A path is resolved against
  the working directory to its list of elements; \<open>nodes\<close> maps a resolved path to what is
  there, the root always being a directory. \<open>deny\<close> holds the resolved paths the process may
  neither create nor open for writing. \<open>calls\<close> records every call made, in order, with
  the bytes a write was given.
  \<open>Stderr\<close> is the package variable of that name: one entry per \<open>Fprintf\<close>, holding the
  path the \<open>%q\<close> verb prints. \<open>Log\<close> is the standard logger, one entry per \<open>log.Println\<close>.
\<close>

datatype node = RegularFile string | Directory

datatype call =
    Stat_call string
  | MkdirAll_call string
  | WriteFile_call string string
  | OpenFile_call string
  | Write_call string

datatype diag =
    Warning_exists string
  | Error_opening string
  | Error_writing string

record world =
  nodes :: "string list \<rightharpoonup> node"
  cwd :: string
  deny :: "string list set"
  Stderr :: "diag list"
  Log :: "errno list"
  calls :: "call list"

definition resolve :: "world \<Rightarrow> string \<Rightarrow> string list" where
  "resolve w p = clean_elems True [] (split_sep (if IsAbs p then p else cwd w @ ''/'' @ p))"

definition node_at :: "world \<Rightarrow> string list \<Rightarrow> node option" where
  "node_at w q = (if q = [] then Some Directory else nodes w q)"

definition called :: "call \<Rightarrow> world \<Rightarrow> world" where
  "called c w = w\<lparr>calls := calls w @ [c]\<rparr>"

text \<open>\<open>filepath.Abs\<close>; the working directory is taken to be known.\<close>

definition Abs :: "world \<Rightarrow> string \<Rightarrow> string" where
  "Abs w p = (if IsAbs p then Clean p else Join [cwd w, p])"

text \<open>\<open>os.Stat\<close>: the error, or whether the node is a directory.\<close>

definition os_Stat :: "string \<Rightarrow> world \<Rightarrow> (errno + bool) \<times> world" where
  "os_Stat p w =
     (if p = [] then Inl ENOENT
      else case node_at w (resolve w p) of
             None \<Rightarrow> Inl ENOENT
           | Some Directory \<Rightarrow> Inr True
           | Some (RegularFile d) \<Rightarrow> Inr False,
      called (Stat_call p) w)"

text \<open>
  \<open>os.MkdirAll\<close>: nothing to do at a directory, an error at a file; otherwise the parent is
  made first and then the directory itself, unless the process may not create it.
\<close>

function mkdir_all :: "string list \<Rightarrow> world \<Rightarrow> errno option \<times> world" where
  "mkdir_all q w =
     (case node_at w q of
        Some Directory \<Rightarrow> (None, w)
      | Some (RegularFile d) \<Rightarrow> (Some ENOTDIR, w)
      | None \<Rightarrow>
          (case mkdir_all (butlast q) w of
             (Some e, w1) \<Rightarrow> (Some e, w1)
           | (None, w1) \<Rightarrow>
               if q \<in> deny w1 then (Some EACCES, w1)
               else (None, w1\<lparr>nodes := (nodes w1)(q \<mapsto> Directory)\<rparr>)))"
  by pat_completeness auto
termination
  by (relation "measure (\<lambda>(q, w). length q)") (auto simp: node_at_def split: if_splits)

declare mkdir_all.simps [simp del]

definition os_MkdirAll :: "string \<Rightarrow> world \<Rightarrow> errno option \<times> world" where
  "os_MkdirAll p w =
     (if p = [] then (Some ENOENT, called (MkdirAll_call p) w)
      else mkdir_all (resolve w p) (called (MkdirAll_call p) w))"

text \<open>
  Opening a path for writing with \<open>O_CREATE\<close>: the parent must be a directory, the path
  itself must not be one, and the process must be allowed to.
\<close>

definition open_for_write :: "world \<Rightarrow> string \<Rightarrow> errno option" where
  "open_for_write w p =
     (if p = [] then Some ENOENT
      else let q = resolve w p in
        if q = [] then Some EISDIR
        else case node_at w (butlast q) of
               None \<Rightarrow> Some ENOENT
             | Some (RegularFile d) \<Rightarrow> Some ENOTDIR
             | Some Directory \<Rightarrow>
                 (case nodes w q of
                    Some Directory \<Rightarrow> Some EISDIR
                  | Some (RegularFile d) \<Rightarrow> if q \<in> deny w then Some EACCES else None
                  | None \<Rightarrow> if q \<in> deny w then Some EACCES else None))"

text \<open>\<open>ioutil.WriteFile\<close>: create or truncate, then write.\<close>

definition ioutil_WriteFile :: "string \<Rightarrow> string \<Rightarrow> world \<Rightarrow> errno option \<times> world" where
  "ioutil_WriteFile name data w =
     (case open_for_write w name of
        Some e \<Rightarrow> (Some e, called (WriteFile_call name data) w)
      | None \<Rightarrow> (None, called (WriteFile_call name data) (w\<lparr>nodes := (nodes w)(resolve w name \<mapsto> RegularFile data)\<rparr>)))"

text \<open>
  \<open>os.OpenFile\<close> with \<open>O_APPEND|O_CREATE|O_WRONLY\<close>: the file handle is the resolved path,
  \<open>None\<close> being the nil handle returned with an error. A missing file is created empty.
\<close>

definition os_OpenFile_append :: "string \<Rightarrow> world \<Rightarrow> (string list option \<times> errno option) \<times> world" where
  "os_OpenFile_append name w =
     (case open_for_write w name of
        Some e \<Rightarrow> ((None, Some e), called (OpenFile_call name) w)
      | None \<Rightarrow>
          ((Some (resolve w name), None),
           called (OpenFile_call name)
             (case nodes w (resolve w name) of
                None \<Rightarrow> w\<lparr>nodes := (nodes w)(resolve w name \<mapsto> RegularFile [])\<rparr>
              | Some n \<Rightarrow> w)))"

text \<open>\<open>(*os.File).Write\<close> on such a handle; on the nil handle it returns \<open>ErrInvalid\<close>.\<close>

definition File_Write :: "string list option \<Rightarrow> string \<Rightarrow> world \<Rightarrow> errno option \<times> world" where
  "File_Write f data w =
     (case f of
        None \<Rightarrow> (Some EINVAL, w)
      | Some q \<Rightarrow>
          (None,
           called (Write_call data)
             (w\<lparr>nodes := (nodes w)(q \<mapsto> RegularFile ((case nodes w q of Some (RegularFile d) \<Rightarrow> d | _ \<Rightarrow> []) @ data))\<rparr>)))"

subsection \<open>Writing\<close>

definition writeFile :: "string \<Rightarrow> string \<Rightarrow> world \<Rightarrow> errno option \<times> world" where
  "writeFile name body w =
     (case os_MkdirAll (Dir name) w of
        (Some e, w1) \<Rightarrow> (Some e, w1)
      | (None, w1) \<Rightarrow> ioutil_WriteFile name body w1)"

fun writeFiles :: "ManifestFile list \<Rightarrow> world \<Rightarrow> error option \<times> world" where
  "writeFiles [] w = (None, w)"
| "writeFiles (file # files) w =
     (case os_Stat (path file) w of
        (st, w1) \<Rightarrow>
          let w2 = (if \<not> isl st then w1\<lparr>Stderr := Stderr w1 @ [Warning_exists (path file)]\<rparr> else w1) in
          (case writeFile (path file) (content file) w2 of
             (Some e, w3) \<Rightarrow> (Some (IOError e), w3)
           | (None, w3) \<Rightarrow> writeFiles files w3))"

text \<open>
  \<open>appendToValuesFile\<close> does not return after a failed open: the write on the nil handle
  fails as well and is reported too.
\<close>

definition appendToValuesFile :: "string \<Rightarrow> world \<Rightarrow> world" where
  "appendToValuesFile module w =
     (case os_OpenFile_append ValuesfileName w of
        ((f, err), w1) \<Rightarrow>
          let w2 = (if err \<noteq> None then w1\<lparr>Stderr := Stderr w1 @ [Error_opening ValuesfileName]\<rparr> else w1) in
          (case File_Write f (transform defaultValues module) w2 of
             (Some e, w3) \<Rightarrow> w3\<lparr>Stderr := Stderr w3 @ [Error_writing ValuesfileName]\<rparr>
           | (None, w3) \<Rightarrow> w3))"

subsection \<open>Create\<close>

text \<open>The results of both \<open>writeFiles\<close> calls are discarded, as in the source.\<close>

definition Create :: "string \<Rightarrow> string \<Rightarrow> world \<Rightarrow> (string \<times> error option) \<times> world" where
  "Create chartname dir w =
     (case validateChartName chartname of
        Some err \<Rightarrow> (([], Some err), w)
      | None \<Rightarrow>
          (let abspath = Abs w dir in
           (case os_Stat abspath w of
              (Inl e, w1) \<Rightarrow> ((abspath, Some (IOError e)), w1)
            | (Inr isdir, w1) \<Rightarrow>
                (if \<not> isdir then ((abspath, Some (NoSuchDirectory abspath)), w1)
                 else
                   (let cdir = Join [abspath, chartname] in
                    (case os_Stat cdir w1 of
                       (fi, w2) \<Rightarrow>
                         (if fi = Inr False then ((cdir, Some (ExistsNotDirectory cdir)), w2)
                          else
                            (case os_Stat ValuesfileName w2 of
                               (Inr v, w3) \<Rightarrow>
                                 (let module = chartname;
                                      w4 = snd (writeFiles (getFiles [] module) w3);
                                      w5 = appendToValuesFile module w4
                                  in ((cdir, None), w5))
                             | (Inl v, w3) \<Rightarrow>
                                 (let module = ''main'';
                                      w4 = snd (writeFiles (getBasefiles cdir module chartname) w3);
                                      w5 = snd (writeFiles (getFiles cdir module) w4)
                                  in (case os_MkdirAll (Join [cdir, ChartsDir]) w5 of
                                        (Some e, w6) \<Rightarrow> ((cdir, Some (IOError e)), w6)
                                      | (None, w6) \<Rightarrow> ((cdir, None), w6)))))))))))"

subsection \<open>CreateFrom\<close>

text \<open>
  The chart loader, the YAML encoder and decoder and \<open>SaveDir\<close> are functions of other
  packages and are parameters here. \<open>CreateFrom_chart\<close> is the body of \<open>CreateFrom\<close> up to
  its last statement: the chart that \<open>SaveDir\<close> receives.
\<close>

datatype wrapped =
    CouldNotLoad string error
  | ReadingValuesFile error
  | TransformingValuesFile error
  | SaveError error

record chart_File =
  Name :: string
  Data :: string

record ('m, 'v) Chart =
  Metadata :: 'm
  Templates :: "chart_File list"
  Raw :: "chart_File list"
  Values :: 'v

definition CreateFrom_chart ::
  "(string \<Rightarrow> error + ('m, 'v) Chart) \<Rightarrow> ('v \<Rightarrow> error + string) \<Rightarrow> (string \<Rightarrow> error + 'v)
   \<Rightarrow> 'm \<Rightarrow> string \<Rightarrow> wrapped + ('m, 'v) Chart" where
  "CreateFrom_chart load marshal unmarshal chartfile src =
     (case load src of
        Inl err \<Rightarrow> Inl (CouldNotLoad src err)
      | Inr loaded \<Rightarrow>
          (let schart = loaded\<lparr>Metadata := chartfile\<rparr>;
               updatedTemplates =
                 map (\<lambda>t. \<lparr>Name = Name t, Data = transform (Data t) ''main''\<rparr>) (Templates schart);
               schart = schart\<lparr>Templates := updatedTemplates\<rparr>
           in (case marshal (Values schart) of
                 Inl err \<Rightarrow> Inl (ReadingValuesFile err)
               | Inr b \<Rightarrow>
                   (case unmarshal (transform b ''main'') of
                      Inl err \<Rightarrow> Inl (TransformingValuesFile err)
                    | Inr m \<Rightarrow>
                        Inr (schart\<lparr>Values := m,
                               Raw := map (\<lambda>f. if Name f = ValuesfileName
                                               then f\<lparr>Data := transform (Data f) ''main''\<rparr> else f)
                                        (Raw schart)\<rparr>)))))"

definition CreateFrom ::
  "(string \<Rightarrow> error + ('m, 'v) Chart) \<Rightarrow> ('v \<Rightarrow> error + string) \<Rightarrow> (string \<Rightarrow> error + 'v)
   \<Rightarrow> (('m, 'v) Chart \<Rightarrow> string \<Rightarrow> error option) \<Rightarrow> 'm \<Rightarrow> string \<Rightarrow> string \<Rightarrow> wrapped option" where
  "CreateFrom load marshal unmarshal SaveDir chartfile dest src =
     (case CreateFrom_chart load marshal unmarshal chartfile src of
        Inl err \<Rightarrow> Some err
      | Inr schart \<Rightarrow> map_option SaveError (SaveDir schart dest))"

subsection \<open>CreateManifest\<close>

text \<open>The manifest templates and their values fragments.\<close>

definition ingressValues :: string where
  \<open>ingressValues = concat
    [''\<newline>'',
     ''<MANIFEST_NAME>_ingress:\<newline>'',
     ''  enabled: false\<newline>'',
     ''  className: ""\<newline>'',
     ''  annotations: {}\<newline>'',
     ''    # kubernetes.io/ingress.class: nginx\<newline>'',
     ''    # kubernetes.io/tls-acme: "true"\<newline>'',
     ''  hosts:\<newline>'',
     ''    - host: chart-example.local\<newline>'',
     ''      paths:\<newline>'',
     ''        - path: /\<newline>'',
     ''          pathType: ImplementationSpecific\<newline>'',
     ''  tls: []\<newline>'',
     ''  #  - secretName: chart-example-tls\<newline>'',
     ''  #    hosts:\<newline>'',
     ''  #      - chart-example.local\<newline>'']\<close>

definition ingress :: string where
  \<open>ingress = concat
    [''{{- if .Values.<MANIFEST_NAME>_ingress.enabled -}}\<newline>'',
     ''{{- $fullName := include "<CHARTNAME>.fullname" . -}}\<newline>'',
     ''{{- $svcPort := .Values.<MANIFEST_NAME>_service.port -}}\<newline>'',
     ''{{- if and .Values.<MANIFEST_NAME>_ingress.className (not (semverCompare ">=1.18-0" .Capabilities.KubeVersion.GitVersion)) }}\<newline>'',
     ''  {{- if not (hasKey .Values.<MANIFEST_NAME>_ingress.annotations "kubernetes.io/ingress.class") }}\<newline>'',
     ''  {{- $_ := set .Values.<MANIFEST_NAME>_ingress.annotations "kubernetes.io/ingress.class" .Values.<MANIFEST_NAME>_ingress.className}}\<newline>'',
     ''  {{- end }}\<newline>'',
     ''{{- end }}\<newline>'',
     ''{{- if semverCompare ">=1.19-0" .Capabilities.KubeVersion.GitVersion -}}\<newline>'',
     ''apiVersion: networking.k8s.io/v1\<newline>'',
     ''{{- else if semverCompare ">=1.14-0" .Capabilities.KubeVersion.GitVersion -}}\<newline>'',
     ''apiVersion: networking.k8s.io/v1beta1\<newline>'',
     ''{{- else -}}\<newline>'',
     ''apiVersion: extensions/v1beta1\<newline>'',
     ''{{- end }}\<newline>'',
     ''kind: Ingress\<newline>'',
     ''metadata:\<newline>'',
     ''  name: {{ $fullName }}\<newline>'',
     ''  labels:\<newline>'',
     ''    {{- include "<CHARTNAME>.labels" . | nindent 4 }}\<newline>'',
     ''  {{- with .Values.<MANIFEST_NAME>_ingress.annotations }}\<newline>'',
     ''  annotations:\<newline>'',
     ''    {{- toYaml . | nindent 4 }}\<newline>'',
     ''  {{- end }}\<newline>'',
     ''spec:\<newline>'',
     ''  {{- if and .Values.<MANIFEST_NAME>_ingress.className (semverCompare ">=1.18-0" .Capabilities.KubeVersion.GitVersion) }}\<newline>'',
     ''  ingressClassName: {{ .Values.<MANIFEST_NAME>_ingress.className }}\<newline>'',
     ''  {{- end }}\<newline>'',
     ''  {{- if .Values.<MANIFEST_NAME>_ingress.tls }}\<newline>'',
     ''  tls:\<newline>'',
     ''    {{- range .Values.<MANIFEST_NAME>_ingress.tls }}\<newline>'',
     ''    - hosts:\<newline>'',
     ''        {{- range .hosts }}\<newline>'',
     ''        - {{ . | quote }}\<newline>'',
     ''        {{- end }}\<newline>'',
     ''      secretName: {{ .secretName }}\<newline>'',
     ''    {{- end }}\<newline>'',
     ''  {{- end }}\<newline>'',
     ''  rules:\<newline>'',
     ''    {{- range .Values.<MANIFEST_NAME>_ingress.hosts }}\<newline>'',
     ''    - host: {{ .host | quote }}\<newline>'',
     ''      http:\<newline>'',
     ''        paths:\<newline>'',
     ''          {{- range .paths }}\<newline>'',
     ''          - path: {{ .path }}\<newline>'',
     ''            {{- if and .pathType (semverCompare ">=1.18-0" $.Capabilities.KubeVersion.GitVersion) }}\<newline>'',
     ''            pathType: {{ .pathType }}\<newline>'',
     ''            {{- end }}\<newline>'',
     ''            backend:\<newline>'',
     ''              {{- if semverCompare ">=1.19-0" $.Capabilities.KubeVersion.GitVersion }}\<newline>'',
     ''              service:\<newline>'',
     ''                name: {{ $fullName }}-<MANIFEST_NAME>\<newline>'',
     ''                port:\<newline>'',
     ''                  number: {{ $svcPort }}\<newline>'',
     ''              {{- else }}\<newline>'',
     ''              serviceName: {{ $fullName }}-<MANIFEST_NAME>\<newline>'',
     ''              servicePort: {{ $svcPort }}\<newline>'',
     ''              {{- end }}\<newline>'',
     ''          {{- end }}\<newline>'',
     ''    {{- end }}\<newline>'',
     ''{{- end }}\<newline>'']\<close>

definition serviceValues :: string where
  \<open>serviceValues = concat
    [''\<newline>'',
     ''<MANIFEST_NAME>_service:\<newline>'',
     ''  type: ClusterIP\<newline>'',
     ''  port: 80\<newline>'']\<close>

definition service :: string where
  \<open>service = concat
    [''apiVersion: v1\<newline>'',
     ''kind: Service\<newline>'',
     ''metadata:\<newline>'',
     ''  name: {{ include "<CHARTNAME>.fullname" . }}-<MANIFEST_NAME>\<newline>'',
     ''  labels:\<newline>'',
     ''    {{- include "<CHARTNAME>.labels" . | nindent 4 }}\<newline>'',
     ''spec:\<newline>'',
     ''  type: {{ .Values.service.type }}\<newline>'',
     ''  ports:\<newline>'',
     ''    - port: {{ .Values.service.port }}\<newline>'',
     ''      targetPort: http\<newline>'',
     ''      protocol: TCP\<newline>'',
     ''      name: http\<newline>'',
     ''  selector:\<newline>'',
     ''    app.kubernetes.io/name: {{ include "<CHARTNAME>.name" . }}-<MANIFEST_NAME>\<newline>'',
     ''    app.kubernetes.io/instance: {{ .Release.Name }}\<newline>'']\<close>

definition deploymentValues :: string where
  \<open>deploymentValues = concat
    [''\<newline>'',
     ''<MANIFEST_NAME>_deployment:\<newline>'',
     ''  replicaCount: 1\<newline>'',
     ''\<newline>'',
     ''  image:\<newline>'',
     ''    repository: nginx\<newline>'',
     ''    pullPolicy: IfNotPresent\<newline>'',
     ''    # Overrides the image tag whose default is the chart appVersion.\<newline>'',
     ''    tag: ""\<newline>'',
     ''\<newline>'',
     ''  imagePullSecrets: []\<newline>'',
     ''  nameOverride: ""\<newline>'',
     ''  fullnameOverride: ""\<newline>'',
     ''\<newline>'',
     ''  serviceAccount:\<newline>'',
     ''    # Specifies whether a service account should be created\<newline>'',
     ''    create: true\<newline>'',
     ''    # Annotations to add to the service account\<newline>'',
     ''    annotations: {}\<newline>'',
     ''    # The name of the service account to use.\<newline>'',
     ''    # If not set and create is true, a name is generated using the fullname template\<newline>'',
     ''    name: ""\<newline>'',
     ''\<newline>'',
     ''  podAnnotations: {}\<newline>'',
     ''\<newline>'',
     ''  podSecurityContext: {}\<newline>'',
     ''    # fsGroup: 2000\<newline>'',
     ''\<newline>'',
     ''  securityContext: {}\<newline>'',
     ''    # capabilities:\<newline>'',
     ''    #   drop:\<newline>'',
     ''    #   - ALL\<newline>'',
     ''    # readOnlyRootFilesystem: true\<newline>'',
     ''    # runAsNonRoot: true\<newline>'',
     ''    # runAsUser: 1000\<newline>'',
     ''  resources: {}\<newline>'',
     ''    # We usually recommend not to specify default resources and to leave this as a conscious\<newline>'',
     ''    # choice for the user. This also increases chances charts run on environments with little\<newline>'',
     ''    # resources, such as Minikube. If you do want to specify resources, uncomment the following\<newline>'',
     ''    # lines, adjust them as necessary, and remove the curly braces after 'resources:'.\<newline>'',
     ''    # limits:\<newline>'',
     ''    #   cpu: 100m\<newline>'',
     ''    #   memory: 128Mi\<newline>'',
     ''    # requests:\<newline>'',
     ''    #   cpu: 100m\<newline>'',
     ''    #   memory: 128Mi\<newline>'',
     ''\<newline>'',
     ''  nodeSelector: {}\<newline>'',
     ''\<newline>'',
     ''  tolerations: []\<newline>'',
     ''\<newline>'',
     ''  affinity: {}\<newline>'']\<close>

definition deployment :: string where
  \<open>deployment = concat
    [''apiVersion: apps/v1\<newline>'',
     ''kind: Deployment\<newline>'',
     ''metadata:\<newline>'',
     ''  name: {{ include "<CHARTNAME>.fullname" . }}-<MANIFEST_NAME>\<newline>'',
     ''  labels:\<newline>'',
     ''    {{- include "<CHARTNAME>.labels" . | nindent 4 }}\<newline>'',
     ''spec:\<newline>'',
     ''  {{- if not .Values.<MANIFEST_NAME>_deployment.autoscaling.enabled }}\<newline>'',
     ''  replicas: {{ .Values.<MANIFEST_NAME>_deployment.replicaCount }}\<newline>'',
     ''  {{- end }}\<newline>'',
     ''  selector:\<newline>'',
     ''    matchLabels:\<newline>'',
     ''      app.kubernetes.io/name: {{ include "<CHARTNAME>.name" . }}-<MANIFEST_NAME>\<newline>'',
     ''      app.kubernetes.io/instance: {{ .Release.Name }}\<newline>'',
     ''  template:\<newline>'',
     ''    metadata:\<newline>'',
     ''      {{- with .Values.<MANIFEST_NAME>_deployment.podAnnotations }}\<newline>'',
     ''      annotations:\<newline>'',
     ''        {{- toYaml . | nindent 8 }}\<newline>'',
     ''      {{- end }}\<newline>'',
     ''      labels:\<newline>'',
     ''        app.kubernetes.io/name: {{ include "<CHARTNAME>.name" . }}-<MANIFEST_NAME>\<newline>'',
     ''        app.kubernetes.io/instance: {{ .Release.Name }}\<newline>'',
     ''    spec:\<newline>'',
     ''      {{- with .Values.<MANIFEST_NAME>_deployment.imagePullSecrets }}\<newline>'',
     ''      imagePullSecrets:\<newline>'',
     ''        {{- toYaml . | nindent 8 }}\<newline>'',
     ''      {{- end }}\<newline>'',
     ''      serviceAccountName: {{ include "<CHARTNAME>.serviceAccountName" . }}\<newline>'',
     ''      securityContext:\<newline>'',
     ''        {{- toYaml .Values.<MANIFEST_NAME>_deployment.podSecurityContext | nindent 8 }}\<newline>'',
     ''      containers:\<newline>'',
     ''        - name: {{ .Chart.Name }}\<newline>'',
     ''          securityContext:\<newline>'',
     ''            {{- toYaml .Values.<MANIFEST_NAME>_deployment.securityContext | nindent 12 }}\<newline>'',
     ''          image: "{{ .Values.<MANIFEST_NAME>_deployment.image.repository }}:{{ .Values.<MANIFEST_NAME>_deployment.image.tag | default .Chart.AppVersion }}"\<newline>'',
     ''          imagePullPolicy: {{ .Values.<MANIFEST_NAME>_deployment.image.pullPolicy }}\<newline>'',
     ''          ports:\<newline>'',
     ''            - name: http\<newline>'',
     ''              containerPort: 80\<newline>'',
     ''              protocol: TCP\<newline>'',
     ''          livenessProbe:\<newline>'',
     ''            httpGet:\<newline>'',
     ''              path: /\<newline>'',
     ''              port: http\<newline>'',
     ''          readinessProbe:\<newline>'',
     ''            httpGet:\<newline>'',
     ''              path: /\<newline>'',
     ''              port: http\<newline>'',
     ''          resources:\<newline>'',
     ''            {{- toYaml .Values.<MANIFEST_NAME>_deployment.resources | nindent 12 }}\<newline>'',
     ''      {{- with .Values.<MANIFEST_NAME>_deployment.nodeSelector }}\<newline>'',
     ''      nodeSelector:\<newline>'',
     ''        {{- toYaml . | nindent 8 }}\<newline>'',
     ''      {{- end }}\<newline>'',
     ''      {{- with .Values.<MANIFEST_NAME>_deployment.affinity }}\<newline>'',
     ''      affinity:\<newline>'',
     ''        {{- toYaml . | nindent 8 }}\<newline>'',
     ''      {{- end }}\<newline>'',
     ''      {{- with .Values.<MANIFEST_NAME>_deployment.tolerations }}\<newline>'',
     ''      tolerations:\<newline>'',
     ''        {{- toYaml . | nindent 8 }}\<newline>'',
     ''      {{- end }}\<newline>'']\<close>

datatype Manifest = Manifest (content_of: string) (values_of: string)

definition manifests :: "string \<rightharpoonup> Manifest" where
  "manifests =
     [''ingress'' \<mapsto> Manifest ingress ingressValues,
      ''service'' \<mapsto> Manifest service serviceValues,
      ''deployment'' \<mapsto> Manifest deployment deploymentValues]"

text \<open>Indexing a Go map with a key it does not hold gives the zero value.\<close>

definition manifests_index :: "string \<Rightarrow> Manifest" where
  "manifests_index manifest = (case manifests manifest of None \<Rightarrow> Manifest [] [] | Some m \<Rightarrow> m)"

definition transformManifestName :: "string \<Rightarrow> string \<Rightarrow> string \<Rightarrow> string" where
  "transformManifestName src chartname manifestName =
     ReplaceAll (ReplaceAll src ''<MANIFEST_NAME>'' manifestName) ''<CHARTNAME>'' chartname"

text \<open>
  \<open>load\<close> stands for \<open>loader.Load\<close> followed by \<open>Name()\<close>. The working directory is taken
  to be known. The loop over \<open>files\<close> is the loop of \<open>writeFiles\<close>.
\<close>

definition CreateManifest ::
  "(string \<Rightarrow> world \<Rightarrow> error + string) \<Rightarrow> string \<Rightarrow> string \<Rightarrow> world
   \<Rightarrow> (string \<times> (error + wrapped) option) \<times> world" where
  "CreateManifest load manifest name w =
     (let wd = cwd w in
      (case load wd w of
         Inl err \<Rightarrow> (([], Some (Inr (CouldNotLoad wd err))), w)
       | Inr chartName \<Rightarrow>
           (case validateChartName chartName of
              Some err \<Rightarrow> (([], Some (Inl err)), w)
            | None \<Rightarrow>
                (case os_Stat wd w of
                   (Inl e, w1) \<Rightarrow> ((wd, Some (Inl (IOError e))), w1)
                 | (Inr isdir, w1) \<Rightarrow>
                     (if \<not> isdir then ((wd, Some (Inl (NoSuchDirectory wd))), w1)
                      else
                        (let cdir = Join [wd] in
                         (case os_Stat cdir w1 of
                            (fi, w2) \<Rightarrow>
                              (if fi = Inr False
                               then ((cdir, Some (Inl (ExistsNotDirectory cdir))), w2)
                               else
                                 (let files =
                                        [\<lparr>path = Join [cdir, TemplatesDir @ sep @ name @ ''_'' @ manifest @ ''.yaml''],
                                          content = transformManifestName
                                                      (content_of (manifests_index manifest)) chartName name\<rparr>]
                                  in (case writeFiles files w2 of
                                        (Some err, w3) \<Rightarrow> ((cdir, Some (Inl err)), w3)
                                      | (None, w3) \<Rightarrow>
                                          (case os_OpenFile_append (Join [cdir, ValuesfileName]) w3 of
                                             ((f, err), w4) \<Rightarrow>
                                               (let w5 = (case err of None \<Rightarrow> w4
                                                          | Some e \<Rightarrow> w4\<lparr>Log := Log w4 @ [e]\<rparr>)
                                                in (case File_Write f
                                                          (transformManifestName
                                                             (values_of (manifests_index manifest)) chartName name) w5 of
                                                      (Some e, w6) \<Rightarrow> ((cdir, None), w6\<lparr>Log := Log w6 @ [e]\<rparr>)
                                                    | (None, w6) \<Rightarrow> ((cdir, None), w6))))))))))))))"

section \<open>Auxiliary notions\<close>

text \<open>\<open>occurs sub s\<close>: the text \<open>sub\<close> occurs in \<open>s\<close>.\<close>

fun occurs :: "string \<Rightarrow> string \<Rightarrow> bool" where
  "occurs sub [] = (sub = [])"
| "occurs sub (c # cs) = (prefix sub (c # cs) \<or> occurs sub cs)"

text \<open>\<open>marked s\<close>: every \<open><\<close> of \<open>s\<close> starts the module-name marker.\<close>

fun marked :: "string \<Rightarrow> bool" where
  "marked [] = True"
| "marked (c # cs) = (if c = CHR ''<'' then prefix ''MODULE_NAME>'' cs \<and> marked cs else marked cs)"

text \<open>The bytes a call hands to the file system.\<close>

fun call_data :: "call \<Rightarrow> string option" where
  "call_data (WriteFile_call p d) = Some d"
| "call_data (Write_call d) = Some d"
| "call_data c = None"

text \<open>The template bodies that \<open>getFiles\<close>, \<open>getBasefiles\<close> and \<open>appendToValuesFile\<close> transform.\<close>

definition templateBodies :: "string list" where
  "templateBodies =
     [defaultValues, defaultIngress, defaultDeployment, defaultService, defaultServiceAccount,
      defaultHorizontalPodAutoscaler, defaultNotes, defaultHelpers, defaultTestConnection]"

text \<open>Notions the statements below are written in.\<close>

definition regular :: "string \<Rightarrow> bool" where
  "regular e = (e \<noteq> [] \<and> CHR ''/'' \<notin> set e \<and> e \<noteq> ''.'' \<and> e \<noteq> ''..'')"

definition passable :: "world \<Rightarrow> string list \<Rightarrow> bool" where
  "passable w p =
     list_all (\<lambda>r. node_at w r = Some Directory \<or> (node_at w r = None \<and> r \<notin> deny w))
       (prefixes p)"

definition writable :: "world \<Rightarrow> string list \<Rightarrow> bool" where
  "writable w q = (q \<noteq> [] \<and> q \<notin> deny w \<and> nodes w q \<noteq> Some Directory \<and> passable w (butlast q))"

definition placed :: "world \<Rightarrow> ManifestFile \<Rightarrow> bool" where
  "placed w f =
     (path f \<noteq> [] \<and> Dir (path f) \<noteq> [] \<and> resolve w (Dir (path f)) = butlast (resolve w (path f)))"

definition cwd_elems :: "world \<Rightarrow> string list" where
  "cwd_elems w = clean_elems True [] (split_sep (cwd w))"

definition base_elems :: "string list list" where
  "base_elems = [[''values.yaml''], [''Chart.yaml''], [''.helmignore''], [''templates'', ''NOTES.txt'']]"

definition module_elems :: "string \<Rightarrow> string list list" where
  "module_elems m =
     [[''templates'', m @ ''__ingress.yaml''],
      [''templates'', m @ ''__deployment.yaml''],
      [''templates'', m @ ''__service.yaml''],
      [''templates'', m @ ''__serviceaccount.yaml''],
      [''templates'', m @ ''__hpa.yaml''],
      [''templates'', ''_'' @ m @ ''__helpers.tpl''],
      [''templates'', ''tests'', m @ ''__test-connection.yaml'']]"

definition unobstructed :: "world \<Rightarrow> string list \<Rightarrow> bool" where
  "unobstructed w D =
     (passable w (D @ [''charts''])
      \<and> list_all (\<lambda>rs. writable w (D @ rs)) (base_elems @ module_elems ''main''))"

definition scaffolded :: "world \<Rightarrow> string \<Rightarrow> string \<Rightarrow> bool" where
  "scaffolded w cdir chartname =
     (list_all (\<lambda>f. nodes w (resolve w (path f)) = Some (RegularFile (content f))
                  \<and> node_at w (butlast (resolve w (path f))) = Some Directory
                  \<and> resolve w (path f) \<noteq> [] \<and> resolve w (path f) \<notin> deny w)
        (getBasefiles cdir ''main'' chartname @ getFiles cdir ''main'')
      \<and> node_at w (resolve w (Join [cdir, ChartsDir])) = Some Directory)"

text \<open>A file system holding the directory \<open>/work\<close>, which is the working directory.\<close>

definition work_world :: world where
  "work_world =
     \<lparr>nodes = [[''work''] \<mapsto> Directory], cwd = ''/work'', deny = {}, Stderr = [], Log = [], calls = []\<rparr>"

definition calls_only :: "(call \<Rightarrow> bool) \<Rightarrow> world \<Rightarrow> world \<Rightarrow> bool" where
  "calls_only P w w' = (\<exists>cs. calls w' = calls w @ cs \<and> list_all P cs)"

definition data_only :: "(string \<Rightarrow> bool) \<Rightarrow> call \<Rightarrow> bool" where
  "data_only Q c = (case call_data c of None \<Rightarrow> True | Some d \<Rightarrow> Q d)"

fun values_write :: "string \<Rightarrow> call \<Rightarrow> bool" where
  "values_write vp (Write_call d) = prefix ''# Default values for %s.'' d"
| "values_write vp (WriteFile_call p d) = (p = vp \<longrightarrow> prefix ''# Default values for %s.'' d)"
| "values_write vp c = True"

definition chart_world :: world where
  "chart_world =
     \<lparr>nodes = [[''work''] \<mapsto> Directory, [''work'', ''values.yaml''] \<mapsto> RegularFile ''main: {}''],
      cwd = ''/work'', deny = {}, Stderr = [], Log = [], calls = []\<rparr>"

definition demo_blocked_world :: world where
  "demo_blocked_world =
     \<lparr>nodes = [[''work''] \<mapsto> Directory, [''work'', ''demo''] \<mapsto> Directory,
               [''work'', ''demo'', ''Chart.yaml''] \<mapsto> Directory],
      cwd = ''/work'', deny = {}, Stderr = [], Log = [], calls = []\<rparr>"

definition starter_chart :: "(unit, string) Chart" where
  "starter_chart =
     \<lparr>Metadata = (),
      Templates = [\<lparr>Name = ''templates/svc.yaml'', Data = ''name: <CHARTNAME>-<MODULE_NAME>''\<rparr>],
      Raw = [\<lparr>Name = ''values.yaml'', Data = ''<MODULE_NAME>: <CHARTNAME>''\<rparr>],
      Values = ''<MODULE_NAME>: <CHARTNAME>''\<rparr>"

definition module_layout :: "string list \<Rightarrow> string \<Rightarrow> (string list \<times> string) list" where
  "module_layout B m =
     [(B @ [''templates'', m @ ''__ingress.yaml''], transform defaultIngress m),
      (B @ [''templates'', m @ ''__deployment.yaml''], transform defaultDeployment m),
      (B @ [''templates'', m @ ''__service.yaml''], transform defaultService m),
      (B @ [''templates'', m @ ''__serviceaccount.yaml''], transform defaultServiceAccount m),
      (B @ [''templates'', m @ ''__hpa.yaml''], transform defaultHorizontalPodAutoscaler m),
      (B @ [''templates'', ''_'' @ m @ ''__helpers.tpl''], transform defaultHelpers m),
      (B @ [''templates'', ''tests'', m @ ''__test-connection.yaml''], transform defaultTestConnection m)]"

definition new_unit_layout :: "string list \<Rightarrow> string \<Rightarrow> (string list \<times> string) list" where
  "new_unit_layout B chartname =
     [(B @ [''values.yaml''], transform defaultValues ''main''),
      (B @ [''Chart.yaml''], Sprintf defaultChartfile chartname),
      (B @ [''.helmignore''], defaultIgnore),
      (B @ [''templates'', ''NOTES.txt''], transform defaultNotes ''main'')]
     @ module_layout B ''main''"

section \<open>Properties\<close>

subsection \<open>Name validation\<close>

lemma chartName_class_slash: "\<not> chartName_class (CHR ''/'')"
  by (simp add: chartName_class_def)

lemma chartName_class_lt: "\<not> chartName_class (CHR ''<'')"
  by (simp add: chartName_class_def)

text \<open>
  C3, as stated, asks for the character-class error for every name that holds a character
  outside the class. A name of 251 slashes holds one, and the length check, which comes
  first, answers.
\<close>

theorem validateChartName_length_first:
  "CHR ''/'' \<in> set (replicate 251 (CHR ''/'')) \<and> \<not> chartName_class (CHR ''/'')
   \<and> validateChartName (replicate 251 (CHR ''/'')) = Some EmptyOrTooLong
   \<and> validateChartName (replicate 251 (CHR ''/'')) \<noteq> Some InvalidCharacters"
  by (simp add: validateChartName_def maxChartNameLength_def chartName_class_def)

text \<open>
  C3, amended: \<open>validateChartName\<close> gives the length error for every name that is empty or
  longer than 250 bytes, the character-class error for every name of 1 to 250 bytes that
  holds a byte outside \<open>[A-Za-z0-9._-]\<close>, and no error for every name of 1 to 250 bytes all
  in the class; when it gives an error, \<open>Create\<close> returns the empty path and that error, and
  the world is as it was: no call was made, nothing was written.
\<close>

theorem validateChartName_Create:
  "(name = [] \<or> 250 < length name \<longrightarrow> validateChartName name = Some EmptyOrTooLong)
   \<and> (name \<noteq> [] \<and> length name \<le> 250 \<and> (\<exists>c \<in> set name. \<not> chartName_class c)
        \<longrightarrow> validateChartName name = Some InvalidCharacters)
   \<and> (name \<noteq> [] \<and> length name \<le> 250 \<and> (\<forall>c \<in> set name. chartName_class c)
        \<longrightarrow> validateChartName name = None)
   \<and> (\<forall>e. validateChartName name = Some e \<longrightarrow> Create name dir w = (([], Some e), w))"
  by (auto simp: validateChartName_def maxChartNameLength_def chartName_MatchString_def
        list_all_iff Create_def)

theorem validateChartName_Create_witness:
  "validateChartName [] = Some EmptyOrTooLong
   \<and> validateChartName ''a/b'' = Some InvalidCharacters
   \<and> validateChartName ''demo'' = None
   \<and> Create ''a/b'' ''/work'' work_world = (([], Some InvalidCharacters), work_world)"
  using validateChartName_Create [of "[]"]
    validateChartName_Create [of "''a/b''" "''/work''" work_world]
    validateChartName_Create [of "''demo''"]
  by (simp add: chartName_class_def)

subsection \<open>Substitution, paths and the file system\<close>

lemma marked_append: "marked a \<Longrightarrow> marked b \<Longrightarrow> marked (a @ b)"
  by (induction a) (auto simp: prefix_def)

lemma marked_concat: "list_all marked ls \<Longrightarrow> marked (concat ls)"
  by (induction ls) (auto simp: marked_append)

lemma marked_drop: "marked s \<Longrightarrow> marked (drop n s)"
proof (induction s arbitrary: n)
  case Nil
  then show ?case by simp
next
  case (Cons c cs)
  then show ?case by (cases n) (auto split: if_splits)
qed

lemma ReplaceAll_marked:
  "marked s \<Longrightarrow> CHR ''<'' \<notin> set new \<Longrightarrow> CHR ''<'' \<notin> set (ReplaceAll s ''<MODULE_NAME>'' new)"
proof (induction s "''<MODULE_NAME>''" new rule: ReplaceAll.induct)
  case (1 new)
  then show ?case by simp
next
  case (2 c cs new)
  show ?case
  proof (cases "prefix ''<MODULE_NAME>'' (c # cs)")
    case True
    have "marked (drop (length ''<MODULE_NAME>'') (c # cs))"
      using "2.prems"(1) by (rule marked_drop)
    with 2 True show ?thesis by simp
  next
    case False
    with "2.prems"(1) have "c \<noteq> CHR ''<''" and "marked cs"
      by (auto split: if_splits)
    with 2 False show ?thesis by simp
  qed
qed

lemma occurs_set: "occurs sub s \<Longrightarrow> set sub \<subseteq> set s"
proof (induction s)
  case Nil
  then show ?case by simp
next
  case (Cons a s)
  from Cons.prems have "prefix sub (a # s) \<or> occurs sub s" by simp
  then show ?case
  proof
    assume "prefix sub (a # s)"
    then show ?thesis by (rule set_mono_prefix)
  next
    assume "occurs sub s"
    then have "set sub \<subseteq> set s" by (rule Cons.IH)
    then show ?thesis by auto
  qed
qed

lemma no_lt_no_marker: "CHR ''<'' \<notin> set s \<Longrightarrow> \<not> occurs ''<MODULE_NAME>'' s"
  using occurs_set [of "''<MODULE_NAME>''" s] by auto

lemma valid_no_lt: "list_all chartName_class m \<Longrightarrow> CHR ''<'' \<notin> set m"
  using chartName_class_lt by (auto simp: list_all_iff)

lemma transform_marked:
  "marked body \<Longrightarrow> list_all chartName_class m \<Longrightarrow> \<not> occurs ''<MODULE_NAME>'' (transform body m)"
  unfolding transform_def by (intro no_lt_no_marker ReplaceAll_marked valid_no_lt)

lemma ReplaceAll_copy:
  "old \<noteq> [] \<Longrightarrow> hd old \<notin> set p \<Longrightarrow> ReplaceAll (p @ s) old new = p @ ReplaceAll s old new"
proof (induction p)
  case Nil
  then show ?case by simp
next
  case (Cons c p)
  then have "\<not> prefix old (c # p @ s)"
    by (cases old) auto
  with Cons show ?case by simp
qed

text \<open>A replacement that shares no character with the marker cannot rebuild it.\<close>

lemma ReplaceAll_prefix_back:
  "new \<noteq> [] \<Longrightarrow> set u \<inter> set new = {} \<Longrightarrow> old \<noteq> [] \<Longrightarrow> prefix u (ReplaceAll s old new) \<Longrightarrow> prefix u s"
proof (induction s old new arbitrary: u rule: ReplaceAll.induct)
  case (1 old new)
  then show ?case by simp
next
  case (2 c cs old new)
  show ?case
  proof (cases "prefix old (c # cs)")
    case True
    with 2 have p: "prefix u (new @ ReplaceAll (drop (length old) (c # cs)) old new)" by simp
    show ?thesis
    proof (cases u)
      case Nil
      then show ?thesis by simp
    next
      case (Cons x xs)
      with p "2.prems"(1) have "x = hd new" by (cases new) (auto)
      with Cons "2.prems"(1,2) show ?thesis by (cases new) auto
    qed
  next
    case False
    with 2 have p: "prefix u (c # ReplaceAll cs old new)" by simp
    show ?thesis
    proof (cases u)
      case Nil
      then show ?thesis by simp
    next
      case (Cons x xs)
      with p have "x = c" and "prefix xs (ReplaceAll cs old new)" by auto
      moreover have "set xs \<inter> set new = {}" using Cons "2.prems"(2) by auto
      ultimately have "prefix xs cs" using "2.IH"(3) [of xs] "2.prems" False by simp
      with \<open>x = c\<close> Cons show ?thesis by simp
    qed
  qed
qed

lemma occurs_append_right: "occurs sub t \<Longrightarrow> occurs sub (n @ t)"
  by (induction n) auto

lemma occurs_append_disjoint:
  "sub \<noteq> [] \<Longrightarrow> set sub \<inter> set n = {} \<Longrightarrow> occurs sub (n @ t) \<Longrightarrow> occurs sub t"
proof (induction n)
  case Nil
  then show ?case by simp
next
  case (Cons a n)
  then have "\<not> prefix sub (a # n @ t)" by (cases sub) auto
  with Cons show ?case by auto
qed

lemma ReplaceAll_disjoint:
  "new \<noteq> [] \<Longrightarrow> set old \<inter> set new = {} \<Longrightarrow> old \<noteq> [] \<Longrightarrow> \<not> occurs old (ReplaceAll s old new)"
proof (induction s old new rule: ReplaceAll.induct)
  case (1 old new)
  then show ?case by simp
next
  case (2 c cs old new)
  show ?case
  proof (cases "prefix old (c # cs)")
    case True
    have eq: "ReplaceAll (c # cs) old new = new @ ReplaceAll (drop (length old) (c # cs)) old new"
      using True "2.prems"(3) by simp
    have "\<not> occurs old (ReplaceAll (drop (length old) (c # cs)) old new)"
      using "2.IH"(2) [OF "2.prems"(3) True "2.prems"] .
    then have "\<not> occurs old (new @ ReplaceAll (drop (length old) (c # cs)) old new)"
      using occurs_append_disjoint [OF "2.prems"(3,2)] by blast
    then show ?thesis unfolding eq .
  next
    case False
    have eq: "ReplaceAll (c # cs) old new = c # ReplaceAll cs old new"
      using False "2.prems"(3) by simp
    have ih: "\<not> occurs old (ReplaceAll cs old new)"
      using "2.IH"(3) [OF "2.prems"(3) False "2.prems"] .
    have "\<not> prefix old (c # ReplaceAll cs old new)"
    proof
      assume "prefix old (c # ReplaceAll cs old new)"
      then have "prefix old (ReplaceAll (c # cs) old new)" unfolding eq .
      then have "prefix old (c # cs)"
        using ReplaceAll_prefix_back [OF "2.prems"(1,2,3)] by blast
      with False show False by simp
    qed
    with ih show ?thesis unfolding eq by simp
  qed
qed

lemma transform_main_no_marker: "\<not> occurs ''<MODULE_NAME>'' (transform s ''main'')"
  unfolding transform_def by (rule ReplaceAll_disjoint) simp_all

lemma split_sep_nonempty: "split_sep p \<noteq> []"
  by (induction p) (auto split: list.splits)

lemma split_sep_append: "split_sep (a @ CHR ''/'' # b) = split_sep a @ split_sep b"
proof (induction a)
  case Nil
  then show ?case by simp
next
  case (Cons c a)
  obtain e es where "split_sep a = e # es"
    using split_sep_nonempty [of a] by (cases "split_sep a") auto
  with Cons show ?case by simp
qed

lemma split_sep_noslash: "CHR ''/'' \<notin> set e \<Longrightarrow> split_sep e = [e]"
  by (induction e) auto

lemma split_sep_elems: "e \<in> set (split_sep p) \<Longrightarrow> CHR ''/'' \<notin> set e"
proof (induction p arbitrary: e)
  case Nil
  then show ?case by simp
next
  case (Cons c p)
  obtain x xs where x: "split_sep p = x # xs"
    using split_sep_nonempty [of p] by (cases "split_sep p") auto
  with Cons show ?case by (auto split: if_splits)
qed

lemma join_split: "join_sep (split_sep p) = p"
proof (induction p)
  case Nil
  then show ?case by simp
next
  case (Cons c p)
  obtain x xs where x: "split_sep p = x # xs"
    using split_sep_nonempty [of p] by (cases "split_sep p") auto
  with Cons show ?case by (cases xs) auto
qed

lemma split_join:
  "es \<noteq> [] \<Longrightarrow> \<forall>e \<in> set es. CHR ''/'' \<notin> set e \<Longrightarrow> split_sep (join_sep es) = es"
proof (induction es rule: join_sep.induct)
  case 1
  then show ?case by simp
next
  case (2 e)
  then show ?case by (simp add: split_sep_noslash)
next
  case (3 e v va)
  then show ?case by (simp add: split_sep_append split_sep_noslash)
qed

lemma clean_elems_regular: "list_all regular rs \<Longrightarrow> clean_elems r st rs = rev st @ rs"
  by (induction rs arbitrary: st) (auto simp: regular_def)

lemma clean_elems_append:
  "clean_elems r st (xs @ ys) = clean_elems r (rev (clean_elems r st xs)) ys"
  by (induction r st xs rule: clean_elems.induct) (auto split: list.splits)

lemma clean_elems_rooted_regular:
  "\<forall>e \<in> set xs. CHR ''/'' \<notin> set e \<Longrightarrow> list_all regular st
   \<Longrightarrow> list_all regular (clean_elems True st xs)"
proof (induction xs arbitrary: st)
  case Nil
  then show ?case by simp
next
  case (Cons e xs)
  then show ?case by (cases st) (auto simp: regular_def)
qed

lemma resolve_regular: "list_all regular (resolve w p)"
  unfolding resolve_def by (rule clean_elems_rooted_regular) (auto dest: split_sep_elems)

lemma regular_noslash: "list_all regular es \<Longrightarrow> \<forall>e \<in> set es. CHR ''/'' \<notin> set e"
  by (auto simp: list_all_iff regular_def)

lemma resolve_abs_join:
  assumes "list_all regular es"
  shows "resolve w (CHR ''/'' # join_sep es) = es"
proof (cases "es = []")
  case True
  then show ?thesis by (simp add: resolve_def IsAbs_def)
next
  case False
  with assms have "split_sep (join_sep es) = es"
    by (intro split_join regular_noslash)
  with assms show ?thesis
    by (simp add: resolve_def IsAbs_def clean_elems_regular)
qed

lemma Clean_abs: "IsAbs p \<Longrightarrow> Clean p = CHR ''/'' # join_sep (resolve w p)"
  by (auto simp: Clean_def resolve_def IsAbs_def)

lemma IsAbs_Clean: "IsAbs p \<Longrightarrow> IsAbs (Clean p)"
  by (auto simp: Clean_def IsAbs_def)

text \<open>Joining an absolute clean directory and a relative path of regular elements.\<close>

lemma Join_abs:
  assumes "list_all regular cs" and "split_sep r = rs" and "list_all regular rs"
  shows "Join [CHR ''/'' # join_sep cs, r] = CHR ''/'' # join_sep (cs @ rs)"
proof -
  have "clean_elems True [] (split_sep (CHR ''/'' # join_sep cs)) = cs"
    using resolve_abs_join [OF assms(1)] by (simp add: resolve_def IsAbs_def)
  then have "clean_elems True [] (split_sep ((CHR ''/'' # join_sep cs) @ CHR ''/'' # r)) = cs @ rs"
    using assms(2,3) by (simp only: split_sep_append clean_elems_append) (simp add: clean_elems_regular)
  then show ?thesis
    by (simp add: Join_def Clean_def IsAbs_def)
qed

lemma cut_last_elem:
  "CHR ''/'' \<notin> set e \<Longrightarrow> rev (dropWhile (\<lambda>c. c \<noteq> CHR ''/'') (rev (a @ CHR ''/'' # e))) = a @ ''/''"
proof -
  assume "CHR ''/'' \<notin> set e"
  then have "dropWhile (\<lambda>c. c \<noteq> CHR ''/'') (rev e @ CHR ''/'' # rev a) = CHR ''/'' # rev a"
    by (subst dropWhile_append2) auto
  then show ?thesis by simp
qed

lemma join_sep_snoc: "es \<noteq> [] \<Longrightarrow> join_sep (es @ [e]) = join_sep es @ CHR ''/'' # e"
  by (induction es rule: join_sep.induct) auto

lemma Dir_abs:
  assumes "list_all regular es" and "es \<noteq> []"
  shows "Dir (CHR ''/'' # join_sep es) = CHR ''/'' # join_sep (butlast es)"
proof -
  obtain bs e where es: "es = bs @ [e]"
    using assms(2) by (metis append_butlast_last_id)
  with assms(1) have e: "CHR ''/'' \<notin> set e" and bs: "list_all regular bs"
    by (auto simp: regular_def)
  show ?thesis
  proof (cases "bs = []")
    case True
    with es e have "rev (dropWhile (\<lambda>c. c \<noteq> CHR ''/'') (rev (CHR ''/'' # join_sep es))) = ''/''"
      using cut_last_elem [of e "[]"] by simp
    with True es show ?thesis by (simp add: Dir_def Clean_def IsAbs_def)
  next
    case False
    with es e have cut: "rev (dropWhile (\<lambda>c. c \<noteq> CHR ''/'') (rev (CHR ''/'' # join_sep es)))
        = (CHR ''/'' # join_sep bs) @ ''/''"
      using cut_last_elem [of e "CHR ''/'' # join_sep bs"] by (simp add: join_sep_snoc)
    have "clean_elems True [] (split_sep (CHR ''/'' # join_sep bs)) = bs"
      using resolve_abs_join [OF bs] by (simp add: resolve_def IsAbs_def)
    then have "clean_elems True [] (split_sep ((CHR ''/'' # join_sep bs) @ ''/'')) = bs"
      by (simp only: split_sep_append clean_elems_append) simp
    with cut es show ?thesis by (simp add: Dir_def Clean_def IsAbs_def)
  qed
qed

lemma passable_iff:
  "passable w p \<longleftrightarrow>
     (\<forall>r. prefix r p \<longrightarrow> node_at w r = Some Directory \<or> (node_at w r = None \<and> r \<notin> deny w))"
  by (auto simp: passable_def list_all_iff)

lemma passable_butlast: "passable w p \<Longrightarrow> passable w (butlast p)"
  unfolding passable_iff using prefix_order.trans [OF _ prefixeq_butlast] by blast

lemma called_simps [simp]:
  "nodes (called c w) = nodes w" "cwd (called c w) = cwd w" "deny (called c w) = deny w"
  "Stderr (called c w) = Stderr w" "Log (called c w) = Log w" "calls (called c w) = calls w @ [c]"
  "node_at (called c w) = node_at w" "resolve (called c w) = resolve w"
  by (auto simp: called_def node_at_def resolve_def fun_eq_iff)

lemma mkdir_all_unfold:
  "mkdir_all (butlast q) w = (r1, w1) \<Longrightarrow> node_at w q = None \<Longrightarrow>
     mkdir_all q w =
       (case r1 of Some e \<Rightarrow> (Some e, w1)
        | None \<Rightarrow> if q \<in> deny w1 then (Some EACCES, w1)
                  else (None, w1\<lparr>nodes := (nodes w1)(q \<mapsto> Directory)\<rparr>))"
  by (subst mkdir_all.simps) (simp split: option.splits)

lemma mkdir_all_frame:
  "mkdir_all q w = (r, w') \<Longrightarrow>
     cwd w' = cwd w \<and> deny w' = deny w \<and> Stderr w' = Stderr w \<and> Log w' = Log w \<and> calls w' = calls w"
proof (induction q w arbitrary: r w' rule: mkdir_all.induct)
  case (1 q w)
  show ?case
  proof (cases "node_at w q")
    case None
    obtain r1 w1 where rec: "mkdir_all (butlast q) w = (r1, w1)"
      by (cases "mkdir_all (butlast q) w")
    from "1.IH" [OF None rec] have fr: "cwd w1 = cwd w \<and> deny w1 = deny w \<and> Stderr w1 = Stderr w
        \<and> Log w1 = Log w \<and> calls w1 = calls w" .
    from "1.prems" have "(r, w') =
       (case r1 of Some e \<Rightarrow> (Some e, w1)
        | None \<Rightarrow> if q \<in> deny w1 then (Some EACCES, w1)
                  else (None, w1\<lparr>nodes := (nodes w1)(q \<mapsto> Directory)\<rparr>))"
      unfolding mkdir_all_unfold [OF rec None] by simp
    with fr show ?thesis by (cases r1) (auto split: if_splits)
  next
    case (Some n)
    have "mkdir_all q w = (case n of Directory \<Rightarrow> (None, w) | RegularFile d \<Rightarrow> (Some ENOTDIR, w))"
      using Some by (subst mkdir_all.simps) simp
    with "1.prems" show ?thesis by (cases n) auto
  qed
qed

lemma mkdir_all_passable:
  "passable w q \<Longrightarrow>
     \<exists>w'. mkdir_all q w = (None, w') \<and> node_at w' q = Some Directory
       \<and> (\<forall>r. nodes w' r = nodes w r \<or> (nodes w r = None \<and> nodes w' r = Some Directory \<and> prefix r q))"
proof (induction q w rule: mkdir_all.induct)
  case (1 q w)
  show ?case
  proof (cases "node_at w q")
    case None
    then have q: "q \<noteq> []" and nq: "nodes w q = None" by (auto simp: node_at_def split: if_splits)
    from "1.prems" have "passable w (butlast q)" by (rule passable_butlast)
    from "1.IH" [OF None this] obtain w1 where
      rec: "mkdir_all (butlast q) w = (None, w1)" and
      par: "node_at w1 (butlast q) = Some Directory" and
      ch: "\<forall>r. nodes w1 r = nodes w r \<or> (nodes w r = None \<and> nodes w1 r = Some Directory \<and> prefix r (butlast q))"
      by blast
    from mkdir_all_frame [OF rec] have dn: "deny w1 = deny w" by simp
    from "1.prems" None have "q \<notin> deny w" by (auto simp: passable_iff)
    with dn have eq: "mkdir_all q w = (None, w1\<lparr>nodes := (nodes w1)(q \<mapsto> Directory)\<rparr>)"
      unfolding mkdir_all_unfold [OF rec None] by simp
    have "\<forall>r. nodes (w1\<lparr>nodes := (nodes w1)(q \<mapsto> Directory)\<rparr>) r = nodes w r
          \<or> (nodes w r = None \<and> nodes (w1\<lparr>nodes := (nodes w1)(q \<mapsto> Directory)\<rparr>) r = Some Directory \<and> prefix r q)"
    proof
      fix r
      show "nodes (w1\<lparr>nodes := (nodes w1)(q \<mapsto> Directory)\<rparr>) r = nodes w r
          \<or> (nodes w r = None \<and> nodes (w1\<lparr>nodes := (nodes w1)(q \<mapsto> Directory)\<rparr>) r = Some Directory \<and> prefix r q)"
      proof (cases "r = q")
        case True
        with nq show ?thesis by simp
      next
        case False
        with ch [rule_format, of r] show ?thesis
          by (auto intro: prefix_order.trans [OF _ prefixeq_butlast])
      qed
    qed
    with eq q show ?thesis by (auto simp: node_at_def)
  next
    case (Some n)
    show ?thesis
    proof (cases n)
      case (RegularFile d)
      with Some "1.prems" show ?thesis by (auto simp: passable_iff)
    next
      case Directory
      with Some show ?thesis by (subst mkdir_all.simps) simp
    qed
  qed
qed

lemma mkdir_all_Directory: "node_at w q = Some Directory \<Longrightarrow> mkdir_all q w = (None, w)"
  by (subst mkdir_all.simps) simp

lemma resolve_cwd: "cwd w' = cwd w \<Longrightarrow> resolve w' = resolve w"
  by (auto simp: resolve_def fun_eq_iff)

lemma passable_cong: "node_at w' = node_at w \<Longrightarrow> deny w' = deny w \<Longrightarrow> passable w' p = passable w p"
  by (simp add: passable_def)

lemma not_prefix_butlast: "q \<noteq> [] \<Longrightarrow> \<not> prefix q (butlast q)"
proof
  assume q: "q \<noteq> []" and "prefix q (butlast q)"
  then have "length q \<le> length (butlast q)"
    by (intro prefix_length_le)
  with q show False by (cases q rule: rev_cases) auto
qed

lemma os_Stat_exists:
  "p \<noteq> [] \<Longrightarrow> os_Stat p w = (st, w') \<Longrightarrow>
     w' = called (Stat_call p) w \<and> (\<not> isl st \<longleftrightarrow> node_at w (resolve w p) \<noteq> None)"
  by (auto simp: os_Stat_def split: option.splits node.splits)

lemma writeFile_ok:
  assumes name: "name \<noteq> []" and dname: "Dir name \<noteq> []"
    and par: "resolve w (Dir name) = butlast (resolve w name)"
    and wr: "writable w (resolve w name)"
  shows "\<exists>w'. writeFile name body w = (None, w')
      \<and> nodes w' (resolve w name) = Some (RegularFile body)
      \<and> node_at w' (butlast (resolve w name)) = Some Directory
      \<and> (\<forall>r. r \<noteq> resolve w name \<longrightarrow> nodes w' r = nodes w r
            \<or> (nodes w r = None \<and> nodes w' r = Some Directory \<and> prefix r (butlast (resolve w name))))
      \<and> cwd w' = cwd w \<and> deny w' = deny w \<and> Stderr w' = Stderr w \<and> Log w' = Log w
      \<and> calls w' = calls w @ [MkdirAll_call (Dir name), WriteFile_call name body]"
proof -
  define q where "q = resolve w name"
  define w0 where "w0 = called (MkdirAll_call (Dir name)) w"
  from wr have q: "q \<noteq> []" and dq: "q \<notin> deny w" and nd: "nodes w q \<noteq> Some Directory"
    and pass: "passable w (butlast q)"
    by (auto simp: writable_def q_def)
  have "passable w0 (butlast q)"
    using pass passable_cong [of w0 w "butlast q"] by (simp add: w0_def)
  from mkdir_all_passable [OF this] obtain w1 where
    mk: "mkdir_all (butlast q) w0 = (None, w1)" and
    pd: "node_at w1 (butlast q) = Some Directory" and
    ch: "\<forall>r. nodes w1 r = nodes w0 r \<or> (nodes w0 r = None \<and> nodes w1 r = Some Directory \<and> prefix r (butlast q))"
    by blast
  from mkdir_all_frame [OF mk] have fr: "cwd w1 = cwd w" "deny w1 = deny w" "Stderr w1 = Stderr w"
    "Log w1 = Log w" "calls w1 = calls w @ [MkdirAll_call (Dir name)]"
    by (simp_all add: w0_def)
  have res1: "resolve w1 name = q"
    using resolve_cwd [OF fr(1)] by (simp add: q_def)
  have mkd: "os_MkdirAll (Dir name) w = (None, w1)"
    using dname par mk by (simp add: os_MkdirAll_def w0_def q_def)
  have nq: "nodes w1 q = nodes w q"
    using ch [rule_format, of q] not_prefix_butlast [OF q] by (auto simp: w0_def)
  have "open_for_write w1 name = None"
    using name res1 q pd nq nd dq fr(2)
    by (auto simp: open_for_write_def split: option.splits node.splits)
  then have wf: "writeFile name body w =
      (None, called (WriteFile_call name body) (w1\<lparr>nodes := (nodes w1)(q \<mapsto> RegularFile body)\<rparr>))"
    using mkd res1 by (simp add: writeFile_def ioutil_WriteFile_def)
  have "\<forall>r. r \<noteq> q \<longrightarrow> ((nodes w1)(q \<mapsto> RegularFile body)) r = nodes w r
      \<or> (nodes w r = None \<and> ((nodes w1)(q \<mapsto> RegularFile body)) r = Some Directory \<and> prefix r (butlast q))"
    using ch by (auto simp: w0_def)
  with wf pd q fr show ?thesis
    unfolding q_def [symmetric]
    by (auto simp: node_at_def dest: not_prefix_butlast split: if_splits)
qed

lemma writable_step:
  assumes ch: "\<forall>r. r \<noteq> q \<longrightarrow> nodes w3 r = nodes w r
        \<or> (nodes w r = None \<and> nodes w3 r = Some Directory \<and> prefix r (butlast q))"
    and dn: "deny w3 = deny w" and wr: "writable w p"
    and npq: "\<not> prefix p q" and nqp: "\<not> prefix q p"
  shows "writable w3 p \<and> nodes w3 p = nodes w p"
proof -
  have pq: "p \<noteq> q" using npq by auto
  have bl: "\<And>r. prefix r (butlast q) \<Longrightarrow> prefix r q"
    using prefix_order.trans [OF _ prefixeq_butlast] by blast
  have same: "nodes w3 p = nodes w p"
    using ch [rule_format, OF pq] npq bl by auto
  have "passable w3 (butlast p)"
    unfolding passable_iff
  proof (intro allI impI)
    fix r assume r: "prefix r (butlast p)"
    then have "prefix r p" using prefix_order.trans [OF _ prefixeq_butlast] by blast
    with nqp have rq: "r \<noteq> q" by auto
    from wr r have old: "node_at w r = Some Directory \<or> (node_at w r = None \<and> r \<notin> deny w)"
      by (simp add: writable_def passable_iff)
    from ch [rule_format, OF rq] old dn
    show "node_at w3 r = Some Directory \<or> (node_at w3 r = None \<and> r \<notin> deny w3)"
      by (auto simp: node_at_def split: if_splits)
  qed
  with wr same dn show ?thesis by (simp add: writable_def)
qed

lemma writeFiles_ok:
  assumes "\<forall>f \<in> set fs. placed w f \<and> writable w (resolve w (path f))"
    and "distinct (map (\<lambda>f. resolve w (path f)) fs)"
    and "\<forall>f \<in> set fs. \<forall>g \<in> set fs. prefix (resolve w (path f)) (resolve w (path g))
           \<longrightarrow> resolve w (path f) = resolve w (path g)"
  shows "\<exists>w'. writeFiles fs w = (None, w')
      \<and> (\<forall>f \<in> set fs. nodes w' (resolve w (path f)) = Some (RegularFile (content f))
            \<and> node_at w' (butlast (resolve w (path f))) = Some Directory)
      \<and> (\<forall>r. r \<notin> (\<lambda>f. resolve w (path f)) ` set fs \<longrightarrow> nodes w' r = nodes w r
            \<or> (nodes w r = None \<and> nodes w' r = Some Directory
                \<and> (\<exists>f \<in> set fs. prefix r (butlast (resolve w (path f))))))
      \<and> cwd w' = cwd w \<and> deny w' = deny w \<and> Log w' = Log w
      \<and> Stderr w' = Stderr w @ map (\<lambda>f. Warning_exists (path f))
                                  (filter (\<lambda>f. node_at w (resolve w (path f)) \<noteq> None) fs)
      \<and> calls w' = calls w @ concat (map (\<lambda>f. [Stat_call (path f), MkdirAll_call (Dir (path f)),
                                              WriteFile_call (path f) (content f)]) fs)"
  using assms
proof (induction fs arbitrary: w)
  case Nil
  then show ?case by simp
next
  case (Cons f fs)
  define q where "q = resolve w (path f)"
  define w2 where "w2 = (if node_at w q \<noteq> None
      then (called (Stat_call (path f)) w)\<lparr>Stderr := Stderr w @ [Warning_exists (path f)]\<rparr>
      else called (Stat_call (path f)) w)"
  from Cons.prems(1) have pl: "placed w f" and wr: "writable w q"
    by (simp_all add: q_def)
  have w2: "nodes w2 = nodes w" "deny w2 = deny w" "cwd w2 = cwd w" "Log w2 = Log w"
    "node_at w2 = node_at w" "resolve w2 = resolve w"
    "calls w2 = calls w @ [Stat_call (path f)]"
    "Stderr w2 = Stderr w @ (if node_at w q \<noteq> None then [Warning_exists (path f)] else [])"
    by (auto simp: w2_def node_at_def resolve_def fun_eq_iff)
  have unf: "writeFiles (f # fs) w =
      (case writeFile (path f) (content f) w2 of
         (Some e, w3) \<Rightarrow> (Some (IOError e), w3)
       | (None, w3) \<Rightarrow> writeFiles fs w3)"
    using pl by (auto simp: w2_def q_def os_Stat_def placed_def Let_def split: option.splits node.splits)
  have "writable w2 (resolve w2 (path f))"
    using wr w2 by (simp add: writable_def q_def passable_def)
  with pl w2 have "\<exists>w'. writeFile (path f) (content f) w2 = (None, w')
      \<and> nodes w' (resolve w2 (path f)) = Some (RegularFile (content f))
      \<and> node_at w' (butlast (resolve w2 (path f))) = Some Directory
      \<and> (\<forall>r. r \<noteq> resolve w2 (path f) \<longrightarrow> nodes w' r = nodes w2 r
            \<or> (nodes w2 r = None \<and> nodes w' r = Some Directory \<and> prefix r (butlast (resolve w2 (path f)))))
      \<and> cwd w' = cwd w2 \<and> deny w' = deny w2 \<and> Stderr w' = Stderr w2 \<and> Log w' = Log w2
      \<and> calls w' = calls w2 @ [MkdirAll_call (Dir (path f)), WriteFile_call (path f) (content f)]"
    by (intro writeFile_ok) (simp_all add: placed_def)
  then obtain w3 where
    wf: "writeFile (path f) (content f) w2 = (None, w3)" and
    nq: "nodes w3 q = Some (RegularFile (content f))" and
    pd: "node_at w3 (butlast q) = Some Directory" and
    ch: "\<forall>r. r \<noteq> q \<longrightarrow> nodes w3 r = nodes w r
          \<or> (nodes w r = None \<and> nodes w3 r = Some Directory \<and> prefix r (butlast q))" and
    fr: "cwd w3 = cwd w" "deny w3 = deny w" "Log w3 = Log w" and
    se: "Stderr w3 = Stderr w @ (if node_at w q \<noteq> None then [Warning_exists (path f)] else [])" and
    ca: "calls w3 = calls w @ [Stat_call (path f), MkdirAll_call (Dir (path f)),
                               WriteFile_call (path f) (content f)]"
    unfolding w2 q_def [symmetric] by auto
  have res3: "resolve w3 = resolve w" using fr(1) by (rule resolve_cwd)
  have apart: "\<And>g. g \<in> set fs \<Longrightarrow> \<not> prefix (resolve w (path g)) q \<and> \<not> prefix q (resolve w (path g))"
    using Cons.prems(2,3) unfolding q_def by (auto simp: image_iff) metis+
  have keep: "\<And>g. g \<in> set fs \<Longrightarrow>
      writable w3 (resolve w (path g)) \<and> nodes w3 (resolve w (path g)) = nodes w (resolve w (path g))"
    using writable_step [OF ch fr(2)] Cons.prems(1) apart by simp
  have "\<forall>g \<in> set fs. placed w3 g \<and> writable w3 (resolve w3 (path g))"
    using Cons.prems(1) keep by (simp add: res3 placed_def)
  moreover have "distinct (map (\<lambda>f. resolve w3 (path f)) fs)"
    using Cons.prems(2) by (simp add: res3)
  moreover have "\<forall>f \<in> set fs. \<forall>g \<in> set fs. prefix (resolve w3 (path f)) (resolve w3 (path g))
           \<longrightarrow> resolve w3 (path f) = resolve w3 (path g)"
    using Cons.prems(3) by (simp add: res3)
  ultimately obtain w' where
    r1: "writeFiles fs w3 = (None, w')" and
    r2: "\<forall>g \<in> set fs. nodes w' (resolve w (path g)) = Some (RegularFile (content g))
            \<and> node_at w' (butlast (resolve w (path g))) = Some Directory" and
    r3: "\<forall>r. r \<notin> (\<lambda>f. resolve w (path f)) ` set fs \<longrightarrow> nodes w' r = nodes w3 r
            \<or> (nodes w3 r = None \<and> nodes w' r = Some Directory
                \<and> (\<exists>f \<in> set fs. prefix r (butlast (resolve w (path f)))))" and
    r4: "cwd w' = cwd w3" "deny w' = deny w3" "Log w' = Log w3" and
    r5: "Stderr w' = Stderr w3 @ map (\<lambda>f. Warning_exists (path f))
                                  (filter (\<lambda>f. node_at w3 (resolve w (path f)) \<noteq> None) fs)" and
    r6: "calls w' = calls w3 @ concat (map (\<lambda>f. [Stat_call (path f), MkdirAll_call (Dir (path f)),
                                              WriteFile_call (path f) (content f)]) fs)"
    using Cons.IH [of w3] unfolding res3 by blast
  have qnot: "q \<notin> (\<lambda>f. resolve w (path f)) ` set fs"
    using Cons.prems(2) by (auto simp: q_def)
  have bqnot: "butlast q \<notin> (\<lambda>f. resolve w (path f)) ` set fs"
  proof
    assume "butlast q \<in> (\<lambda>f. resolve w (path f)) ` set fs"
    then obtain g where "g \<in> set fs" and "resolve w (path g) = butlast q" by auto
    with apart [of g] show False by (simp add: prefixeq_butlast)
  qed
  have h1: "nodes w' q = Some (RegularFile (content f))"
    using r3 [rule_format, OF qnot] nq by auto
  have h2: "node_at w' (butlast q) = Some Directory"
    using r3 [rule_format, OF bqnot] pd by (auto simp: node_at_def split: if_splits)
  have h3: "\<forall>r. r \<notin> (\<lambda>f. resolve w (path f)) ` set (f # fs) \<longrightarrow> nodes w' r = nodes w r
            \<or> (nodes w r = None \<and> nodes w' r = Some Directory
                \<and> (\<exists>g \<in> set (f # fs). prefix r (butlast (resolve w (path g)))))"
  proof (intro allI impI)
    fix r assume "r \<notin> (\<lambda>f. resolve w (path f)) ` set (f # fs)"
    then have rq: "r \<noteq> q" and rn: "r \<notin> (\<lambda>f. resolve w (path f)) ` set fs"
      by (auto simp: q_def)
    from ch [rule_format, OF rq] r3 [rule_format, OF rn]
    show "nodes w' r = nodes w r
            \<or> (nodes w r = None \<and> nodes w' r = Some Directory
                \<and> (\<exists>g \<in> set (f # fs). prefix r (butlast (resolve w (path g)))))"
      unfolding q_def by auto
  qed
  have same_exists: "filter (\<lambda>f. node_at w3 (resolve w (path f)) \<noteq> None) fs
      = filter (\<lambda>f. node_at w (resolve w (path f)) \<noteq> None) fs"
    using keep by (intro filter_cong) (auto simp: node_at_def)
  have h5: "Stderr w' = Stderr w @ map (\<lambda>f. Warning_exists (path f))
                                  (filter (\<lambda>f. node_at w (resolve w (path f)) \<noteq> None) (f # fs))"
    using r5 se same_exists by (simp add: q_def)
  have "writeFiles (f # fs) w = (None, w')"
    using unf wf r1 by simp
  with h1 h2 h3 h5 r2 r4 r6 fr ca show ?case
    unfolding q_def by (intro exI [of _ w']) simp
qed

lemma writeFile_overwrite:
  assumes "name \<noteq> []" "Dir name \<noteq> []" "resolve w (Dir name) = butlast (resolve w name)"
    "resolve w name \<noteq> []" "node_at w (butlast (resolve w name)) = Some Directory"
    "nodes w (resolve w name) = Some (RegularFile body)" "resolve w name \<notin> deny w"
  shows "writeFile name body w =
           (None, w\<lparr>calls := calls w @ [MkdirAll_call (Dir name), WriteFile_call name body]\<rparr>)"
proof -
  have "os_MkdirAll (Dir name) w = (None, called (MkdirAll_call (Dir name)) w)"
    using assms by (simp add: os_MkdirAll_def mkdir_all_Directory)
  moreover have "open_for_write (called (MkdirAll_call (Dir name)) w) name = None"
    using assms by (simp add: open_for_write_def)
  moreover have "(nodes w)(resolve w name \<mapsto> RegularFile body) = nodes w"
    using assms(6) by (rule map_upd_triv)
  ultimately have "writeFile name body w =
      (None, called (WriteFile_call name body) ((called (MkdirAll_call (Dir name)) w)\<lparr>nodes := nodes w\<rparr>))"
    by (simp add: writeFile_def ioutil_WriteFile_def)
  then show ?thesis
    by (simp add: called_def)
qed

lemma writeFiles_overwrite:
  assumes "\<forall>f \<in> set fs. placed w f \<and> resolve w (path f) \<noteq> []
        \<and> node_at w (butlast (resolve w (path f))) = Some Directory
        \<and> nodes w (resolve w (path f)) = Some (RegularFile (content f))
        \<and> resolve w (path f) \<notin> deny w"
  shows "\<exists>w'. writeFiles fs w = (None, w') \<and> nodes w' = nodes w \<and> cwd w' = cwd w
      \<and> deny w' = deny w \<and> Log w' = Log w
      \<and> Stderr w' = Stderr w @ map (\<lambda>f. Warning_exists (path f)) fs
      \<and> calls w' = calls w @ concat (map (\<lambda>f. [Stat_call (path f), MkdirAll_call (Dir (path f)),
                                              WriteFile_call (path f) (content f)]) fs)"
  using assms
proof (induction fs arbitrary: w)
  case Nil
  then show ?case by simp
next
  case (Cons f fs)
  define w2 where "w2 = (called (Stat_call (path f)) w)\<lparr>Stderr := Stderr w @ [Warning_exists (path f)]\<rparr>"
  define w3 where "w3 = w2\<lparr>calls := calls w2 @ [MkdirAll_call (Dir (path f)), WriteFile_call (path f) (content f)]\<rparr>"
  have w3: "nodes w3 = nodes w" "deny w3 = deny w" "cwd w3 = cwd w" "Log w3 = Log w"
    "node_at w3 = node_at w" "resolve w3 = resolve w"
    "calls w3 = calls w @ [Stat_call (path f), MkdirAll_call (Dir (path f)), WriteFile_call (path f) (content f)]"
    "Stderr w3 = Stderr w @ [Warning_exists (path f)]"
    by (auto simp: w3_def w2_def node_at_def resolve_def fun_eq_iff)
  have w2: "nodes w2 = nodes w" "deny w2 = deny w" "node_at w2 = node_at w" "resolve w2 = resolve w"
    by (auto simp: w2_def node_at_def resolve_def fun_eq_iff)
  from Cons.prems have f: "placed w f" "resolve w (path f) \<noteq> []"
      "node_at w (butlast (resolve w (path f))) = Some Directory"
      "nodes w (resolve w (path f)) = Some (RegularFile (content f))"
      "resolve w (path f) \<notin> deny w"
    by simp_all
  have "writeFile (path f) (content f) w2 = (None, w3)"
    unfolding w3_def using f w2 by (intro writeFile_overwrite) (simp_all add: placed_def)
  then have unf: "writeFiles (f # fs) w = writeFiles fs w3"
    using f by (auto simp: w2_def os_Stat_def placed_def Let_def node_at_def split: if_splits)
  have "\<forall>f \<in> set fs. placed w3 f \<and> resolve w3 (path f) \<noteq> []
        \<and> node_at w3 (butlast (resolve w3 (path f))) = Some Directory
        \<and> nodes w3 (resolve w3 (path f)) = Some (RegularFile (content f))
        \<and> resolve w3 (path f) \<notin> deny w3"
    using Cons.prems by (simp add: w3 placed_def)
  from Cons.IH [OF this] unf show ?case
    by (auto simp: w3)
qed

lemma regular_long: "CHR ''/'' \<notin> set e \<Longrightarrow> 2 < length e \<Longrightarrow> regular e"
  by (auto simp: regular_def)

lemma abs_file:
  assumes D: "list_all regular D" and rs: "list_all regular (split_sep r)"
  shows "Join [CHR ''/'' # join_sep D, r] = CHR ''/'' # join_sep (D @ split_sep r)"
    and "resolve w (Join [CHR ''/'' # join_sep D, r]) = D @ split_sep r"
    and "Dir (Join [CHR ''/'' # join_sep D, r]) = CHR ''/'' # join_sep (butlast (D @ split_sep r))"
    and "resolve w (Dir (Join [CHR ''/'' # join_sep D, r])) = butlast (D @ split_sep r)"
    and "Join [CHR ''/'' # join_sep D, r] \<noteq> []"
    and "Dir (Join [CHR ''/'' # join_sep D, r]) \<noteq> []"
proof -
  have ne: "D @ split_sep r \<noteq> []" using split_sep_nonempty by simp
  have reg: "list_all regular (D @ split_sep r)" using D rs by simp
  then have regb: "list_all regular (butlast (D @ split_sep r))"
    by (auto simp: list_all_iff dest: in_set_butlastD)
  show j: "Join [CHR ''/'' # join_sep D, r] = CHR ''/'' # join_sep (D @ split_sep r)"
    using Join_abs [OF D refl rs] .
  show "resolve w (Join [CHR ''/'' # join_sep D, r]) = D @ split_sep r"
    unfolding j using reg by (rule resolve_abs_join)
  show d: "Dir (Join [CHR ''/'' # join_sep D, r]) = CHR ''/'' # join_sep (butlast (D @ split_sep r))"
    unfolding j using reg ne by (rule Dir_abs)
  show "resolve w (Dir (Join [CHR ''/'' # join_sep D, r])) = butlast (D @ split_sep r)"
    unfolding d using regb by (rule resolve_abs_join)
  show "Join [CHR ''/'' # join_sep D, r] \<noteq> []" unfolding j by simp
  show "Dir (Join [CHR ''/'' # join_sep D, r]) \<noteq> []" unfolding d by simp
qed

lemma regular_not_abs: "list_all regular (split_sep r) \<Longrightarrow> \<not> IsAbs r \<and> r \<noteq> []"
  by (cases r) (auto simp: IsAbs_def regular_def split: list.splits)

lemma resolve_rel:
  assumes "list_all regular (split_sep r)"
  shows "resolve w r = cwd_elems w @ split_sep r"
proof -
  have "clean_elems True [] (split_sep (cwd w @ CHR ''/'' # r)) = cwd_elems w @ split_sep r"
    using assms by (simp only: split_sep_append clean_elems_append cwd_elems_def) (simp add: clean_elems_regular)
  with regular_not_abs [OF assms] show ?thesis by (simp add: resolve_def)
qed

lemma rel_file:
  assumes rs: "list_all regular (split_sep r)" and two: "2 \<le> length (split_sep r)"
  shows "Join [[], r] = r"
    and "Dir r = join_sep (butlast (split_sep r))"
    and "Dir r \<noteq> []"
    and "resolve w (Dir r) = cwd_elems w @ butlast (split_sep r)"
proof -
  from regular_not_abs [OF rs] have na: "\<not> IsAbs r" and ne: "r \<noteq> []" by simp_all
  have "clean_elems False [] (split_sep r) = split_sep r"
    using rs by (simp add: clean_elems_regular)
  with na ne split_sep_nonempty [of r] show "Join [[], r] = r"
    by (simp add: Join_def Clean_def join_split)
  obtain bs e where sp: "split_sep r = bs @ [e]"
    using split_sep_nonempty [of r] by (metis append_butlast_last_id)
  with two have bs: "bs \<noteq> []" by auto
  from rs sp have regbs: "list_all regular bs" and e: "CHR ''/'' \<notin> set e"
    by (auto simp: regular_def)
  have r: "r = join_sep bs @ CHR ''/'' # e"
    using join_split [of r] sp bs by (simp add: join_sep_snoc)
  have spb: "split_sep (join_sep bs) = bs"
    using bs regbs by (intro split_join regular_noslash)
  then have regj: "list_all regular (split_sep (join_sep bs))" using regbs by simp
  from regular_not_abs [OF regj] have nab: "\<not> IsAbs (join_sep bs)" and neb: "join_sep bs \<noteq> []"
    by simp_all
  have cut: "rev (dropWhile (\<lambda>c. c \<noteq> CHR ''/'') (rev r)) = join_sep bs @ ''/''"
    by (subst r) (rule cut_last_elem [OF e])
  have "clean_elems False [] (split_sep (join_sep bs @ ''/'')) = bs"
    using regbs by (simp only: split_sep_append clean_elems_append spb) (simp add: clean_elems_regular)
  moreover have "\<not> IsAbs (join_sep bs @ ''/'')"
    using nab neb by (cases "join_sep bs") (auto simp: IsAbs_def)
  ultimately have d: "Dir r = join_sep bs"
    using bs by (simp add: Dir_def cut Clean_def)
  with sp show "Dir r = join_sep (butlast (split_sep r))" by simp
  from d neb show "Dir r \<noteq> []" by simp
  show "resolve w (Dir r) = cwd_elems w @ butlast (split_sep r)"
    unfolding d using resolve_rel [OF regj] spb sp by simp
qed

lemma transformModuleName_names:
  "transformModuleName IngressFileName m = ''templates/'' @ m @ ''__ingress.yaml''"
  "transformModuleName DeploymentName m = ''templates/'' @ m @ ''__deployment.yaml''"
  "transformModuleName ServiceName m = ''templates/'' @ m @ ''__service.yaml''"
  "transformModuleName ServiceAccountName m = ''templates/'' @ m @ ''__serviceaccount.yaml''"
  "transformModuleName HorizontalPodAutoscalerName m = ''templates/'' @ m @ ''__hpa.yaml''"
  "transformModuleName HelpersName m = ''templates/_'' @ m @ ''__helpers.tpl''"
  "transformModuleName TestConnectionName m = ''templates/tests/'' @ m @ ''__test-connection.yaml''"
  "transformModuleName NotesName m = ''templates/NOTES.txt''"
  by (simp_all add: transformModuleName_def moduleNameTemplate_def IngressFileName_def
      DeploymentName_def ServiceName_def ServiceAccountName_def HorizontalPodAutoscalerName_def
      HelpersName_def TestConnectionName_def NotesName_def TemplatesTestsDir_def TemplatesDir_def sep_def)

lemma split_names:
  assumes "CHR ''/'' \<notin> set m"
  shows "split_sep (transformModuleName IngressFileName m) = [''templates'', m @ ''__ingress.yaml'']"
    "split_sep (transformModuleName DeploymentName m) = [''templates'', m @ ''__deployment.yaml'']"
    "split_sep (transformModuleName ServiceName m) = [''templates'', m @ ''__service.yaml'']"
    "split_sep (transformModuleName ServiceAccountName m) = [''templates'', m @ ''__serviceaccount.yaml'']"
    "split_sep (transformModuleName HorizontalPodAutoscalerName m) = [''templates'', m @ ''__hpa.yaml'']"
    "split_sep (transformModuleName HelpersName m) = [''templates'', ''_'' @ m @ ''__helpers.tpl'']"
    "split_sep (transformModuleName TestConnectionName m)
       = [''templates'', ''tests'', m @ ''__test-connection.yaml'']"
    "split_sep (transformModuleName NotesName m) = [''templates'', ''NOTES.txt'']"
    "split_sep ValuesfileName = [''values.yaml'']"
    "split_sep ChartfileName = [''Chart.yaml'']"
    "split_sep IgnorefileName = [''.helmignore'']"
  using assms
  by (simp_all add: transformModuleName_names split_sep_noslash
      ValuesfileName_def ChartfileName_def IgnorefileName_def)

lemma module_elems_regular:
  "CHR ''/'' \<notin> set m \<Longrightarrow> list_all (list_all regular) (module_elems m)"
  by (simp add: module_elems_def regular_long)

lemma base_elems_regular: "list_all (list_all regular) base_elems"
  by (simp add: base_elems_def regular_def)

lemma planned_abs:
  assumes D: "list_all regular D" and m: "CHR ''/'' \<notin> set m"
  shows "map (\<lambda>f. resolve w (path f))
           (getBasefiles (CHR ''/'' # join_sep D) m n @ getFiles (CHR ''/'' # join_sep D) m)
         = map ((@) D) (base_elems @ module_elems m)"
    and "\<forall>f \<in> set (getBasefiles (CHR ''/'' # join_sep D) m n @ getFiles (CHR ''/'' # join_sep D) m).
           placed w f"
  using D m
  by (simp_all add: getBasefiles_def getFiles_def placed_def abs_file(2,4,5,6) split_names regular_long
      base_elems_def module_elems_def butlast_append)

lemma planned_rel:
  assumes m: "CHR ''/'' \<notin> set m"
  shows "map (\<lambda>f. resolve w (path f)) (getFiles [] m) = map ((@) (cwd_elems w)) (module_elems m)"
    and "\<forall>f \<in> set (getFiles [] m). placed w f"
    and "map path (getFiles [] m) =
           [''templates/'' @ m @ ''__ingress.yaml'', ''templates/'' @ m @ ''__deployment.yaml'',
            ''templates/'' @ m @ ''__service.yaml'', ''templates/'' @ m @ ''__serviceaccount.yaml'',
            ''templates/'' @ m @ ''__hpa.yaml'', ''templates/_'' @ m @ ''__helpers.tpl'',
            ''templates/tests/'' @ m @ ''__test-connection.yaml'']"
  using m
  by (simp_all add: getFiles_def placed_def rel_file resolve_rel split_names regular_long
      module_elems_def butlast_append) (simp_all add: transformModuleName_names)

lemma IsAbs_Abs: "IsAbs (cwd w) \<Longrightarrow> IsAbs (Abs w dir)"
proof -
  assume a: "IsAbs (cwd w)"
  then have "IsAbs (cwd w @ CHR ''/'' # dir)" and "cwd w \<noteq> []"
    by (auto simp: IsAbs_def prefix_def)
  then have "IsAbs (Join [cwd w, dir])"
    by (simp add: Join_def IsAbs_Clean)
  then show ?thesis by (simp add: Abs_def IsAbs_Clean)
qed

lemma Join_onto_abs:
  assumes "IsAbs a"
  shows "Join [a, n] = CHR ''/'' # join_sep (resolve w (Join [a, n]))"
proof -
  from assms have ne: "a \<noteq> []" and ab: "IsAbs (a @ CHR ''/'' # n)"
    by (auto simp: IsAbs_def prefix_def)
  then have j: "Join [a, n] = Clean (a @ CHR ''/'' # n)" by (simp add: Join_def)
  have "Clean (a @ CHR ''/'' # n) = CHR ''/'' # join_sep (resolve w (a @ CHR ''/'' # n))"
    using ab by (rule Clean_abs)
  moreover have "resolve w (CHR ''/'' # join_sep (resolve w (a @ CHR ''/'' # n))) = resolve w (a @ CHR ''/'' # n)"
    by (rule resolve_abs_join) (rule resolve_regular)
  ultimately show ?thesis unfolding j by simp
qed

lemma writeFiles_append:
  "writeFiles (a @ b) w =
     (case writeFiles a w of (None, w1) \<Rightarrow> writeFiles b w1 | (Some e, w1) \<Rightarrow> (Some e, w1))"
proof (induction a arbitrary: w)
  case Nil
  then show ?case by simp
next
  case (Cons f a)
  show ?case
    by (cases "os_Stat (path f) w") (auto simp: Let_def Cons split: prod.splits option.splits)
qed

lemma writable_called [simp]: "writable (called c w) q = writable w q"
  by (simp add: writable_def passable_def)

lemma passable_called [simp]: "passable (called c w) q = passable w q"
  by (simp add: passable_def)

lemma elems_apart_main:
  "distinct (base_elems @ module_elems ''main'')"
  "\<forall>a \<in> set (base_elems @ module_elems ''main''). \<forall>b \<in> set (base_elems @ module_elems ''main'').
      prefix a b \<longrightarrow> a = b"
  by (simp_all add: base_elems_def module_elems_def)

lemma main_noslash: "CHR ''/'' \<notin> set ''main''"
  by simp

lemma charts_place:
  assumes "list_all regular D"
  shows "resolve w (Join [CHR ''/'' # join_sep D, ChartsDir]) = D @ [''charts'']"
    and "Join [CHR ''/'' # join_sep D, ChartsDir] \<noteq> []"
  using assms by (simp_all add: abs_file(2,5) ChartsDir_def regular_def)

lemma new_unit_steps:
  assumes valid: "validateChartName chartname = None"
    and abs: "IsAbs (cwd w)"
    and dirok: "node_at w (resolve w (Abs w dir)) = Some Directory"
    and novalues: "node_at w (resolve w ValuesfileName) = None"
    and nofile: "\<forall>d. node_at w (resolve w (Join [Abs w dir, chartname])) \<noteq> Some (RegularFile d)"
  shows "Create chartname dir w =
      (let cdir = Join [Abs w dir, chartname];
           w3 = called (Stat_call ValuesfileName) (called (Stat_call cdir) (called (Stat_call (Abs w dir)) w));
           w5 = snd (writeFiles (getFiles cdir ''main'') (snd (writeFiles (getBasefiles cdir ''main'' chartname) w3)))
       in (case os_MkdirAll (Join [cdir, ChartsDir]) w5 of
             (Some e, w6) \<Rightarrow> ((cdir, Some (IOError e)), w6)
           | (None, w6) \<Rightarrow> ((cdir, None), w6)))"
proof -
  have a: "Abs w dir \<noteq> []" using IsAbs_Abs [OF abs, of dir] by (auto simp: IsAbs_def)
  have c: "Join [Abs w dir, chartname] \<noteq> []"
    using Join_onto_abs [OF IsAbs_Abs [OF abs], of dir chartname w] by auto
  have v: "ValuesfileName \<noteq> []" by (simp add: ValuesfileName_def)
  have s1: "os_Stat (Abs w dir) w = (Inr True, called (Stat_call (Abs w dir)) w)"
    using a dirok by (simp add: os_Stat_def)
  obtain fi where s2: "os_Stat (Join [Abs w dir, chartname]) (called (Stat_call (Abs w dir)) w)
       = (fi, called (Stat_call (Join [Abs w dir, chartname])) (called (Stat_call (Abs w dir)) w))"
    and fi: "fi \<noteq> Inr False"
    using c nofile by (auto simp: os_Stat_def split: option.splits node.splits)
  have s3: "os_Stat ValuesfileName (called (Stat_call (Join [Abs w dir, chartname])) (called (Stat_call (Abs w dir)) w))
      = (Inl ENOENT, called (Stat_call ValuesfileName) (called (Stat_call (Join [Abs w dir, chartname])) (called (Stat_call (Abs w dir)) w)))"
    using v novalues by (simp add: os_Stat_def)
  show ?thesis
    by (simp add: Create_def Let_def valid s1 s2 fi s3)
qed

lemma elems_main_facts:
  "\<forall>rs \<in> set (base_elems @ module_elems ''main''). prefix (butlast rs) [''templates'', ''tests'']"
  "\<forall>rs \<in> set (base_elems @ module_elems ''main''). \<not> prefix rs [''charts''] \<and> rs \<noteq> []"
  by (simp_all add: base_elems_def module_elems_def)

lemma prefix_snoc_cases: "prefix r (D @ [e]) \<Longrightarrow> r = D @ [e] \<or> prefix r D"
  by auto

lemma new_unit_scaffolds:
  assumes valid: "validateChartName chartname = None"
    and abs: "IsAbs (cwd w)"
    and dirok: "node_at w (resolve w (Abs w dir)) = Some Directory"
    and novalues: "node_at w (resolve w ValuesfileName) = None"
    and free: "unobstructed w (resolve w (Join [Abs w dir, chartname]))"
  shows "\<exists>w'. Create chartname dir w = ((Join [Abs w dir, chartname], None), w')
      \<and> scaffolded w' (Join [Abs w dir, chartname]) chartname
      \<and> (\<forall>r. nodes w' r = nodes w r
            \<or> r \<in> (@) (resolve w (Join [Abs w dir, chartname])) ` set (base_elems @ module_elems ''main'')
            \<or> (nodes w r = None \<and> nodes w' r = Some Directory
                \<and> (r = resolve w (Join [Abs w dir, chartname]) @ [''charts'']
                    \<or> prefix r (resolve w (Join [Abs w dir, chartname]) @ [''templates'', ''tests'']))))
      \<and> cwd w' = cwd w \<and> deny w' = deny w \<and> Log w' = Log w
      \<and> Stderr w' = Stderr w @ map (\<lambda>f. Warning_exists (path f))
            (filter (\<lambda>f. node_at w (resolve w (path f)) \<noteq> None)
               (getBasefiles (Join [Abs w dir, chartname]) ''main'' chartname
                @ getFiles (Join [Abs w dir, chartname]) ''main''))"
proof -
  define cdir where "cdir = Join [Abs w dir, chartname]"
  define D where "D = resolve w cdir"
  define elems where "elems = base_elems @ module_elems ''main''"
  define files where "files = getBasefiles cdir ''main'' chartname @ getFiles cdir ''main''"
  define w3 where "w3 = called (Stat_call ValuesfileName) (called (Stat_call cdir) (called (Stat_call (Abs w dir)) w))"
  have cd: "cdir = CHR ''/'' # join_sep D"
    unfolding cdir_def D_def by (rule Join_onto_abs) (rule IsAbs_Abs [OF abs])
  have regD: "list_all regular D" unfolding D_def by (rule resolve_regular)
  from free have pc: "passable w (D @ [''charts''])" and wr: "\<forall>rs \<in> set elems. writable w (D @ rs)"
    by (simp_all add: unobstructed_def D_def cdir_def elems_def list_all_iff)
  from pc have "node_at w D = Some Directory \<or> node_at w D = None"
    unfolding passable_iff by auto
  then have nofile: "\<forall>d. node_at w (resolve w (Join [Abs w dir, chartname])) \<noteq> Some (RegularFile d)"
    unfolding D_def cdir_def by auto
  have w3: "nodes w3 = nodes w" "deny w3 = deny w" "cwd w3 = cwd w" "Log w3 = Log w"
    "Stderr w3 = Stderr w" "node_at w3 = node_at w" "resolve w3 = resolve w"
    by (simp_all add: w3_def)
  have loc: "map (\<lambda>f. resolve w (path f)) files = map ((@) D) elems"
    and pl: "\<forall>f \<in> set files. placed w f"
    unfolding files_def elems_def cd using planned_abs [OF regD main_noslash] by blast+
  have tg: "(\<lambda>f. resolve w (path f)) ` set files = (@) D ` set elems"
    using arg_cong [OF loc, of set] by simp
  have pre1: "\<forall>f \<in> set files. placed w3 f \<and> writable w3 (resolve w3 (path f))"
  proof
    fix f assume f: "f \<in> set files"
    then have "resolve w (path f) \<in> (@) D ` set elems" using tg by blast
    with wr have "writable w (resolve w (path f))" by auto
    with pl f show "placed w3 f \<and> writable w3 (resolve w3 (path f))"
      by (simp add: w3 placed_def writable_def passable_def)
  qed
  have "distinct elems" unfolding elems_def by (rule elems_apart_main(1))
  then have pre2: "distinct (map (\<lambda>f. resolve w3 (path f)) files)"
    unfolding w3 loc by (simp add: distinct_map inj_on_def)
  have pre3: "\<forall>f \<in> set files. \<forall>g \<in> set files. prefix (resolve w3 (path f)) (resolve w3 (path g))
           \<longrightarrow> resolve w3 (path f) = resolve w3 (path g)"
  proof (intro ballI impI)
    fix f g assume "f \<in> set files" "g \<in> set files"
      and p: "prefix (resolve w3 (path f)) (resolve w3 (path g))"
    then obtain a b where "a \<in> set elems" "b \<in> set elems"
      "resolve w (path f) = D @ a" "resolve w (path g) = D @ b"
      using tg by blast
    with p elems_apart_main(2) show "resolve w3 (path f) = resolve w3 (path g)"
      by (simp add: w3 elems_def)
  qed
  from writeFiles_ok [OF pre1 pre2 pre3] obtain w5 where
    r1: "writeFiles files w3 = (None, w5)" and
    r2: "\<forall>f \<in> set files. nodes w5 (resolve w (path f)) = Some (RegularFile (content f))
            \<and> node_at w5 (butlast (resolve w (path f))) = Some Directory" and
    r3: "\<forall>r. r \<notin> (\<lambda>f. resolve w (path f)) ` set files \<longrightarrow> nodes w5 r = nodes w r
            \<or> (nodes w r = None \<and> nodes w5 r = Some Directory
                \<and> (\<exists>f \<in> set files. prefix r (butlast (resolve w (path f)))))" and
    r4: "cwd w5 = cwd w" "deny w5 = deny w" "Log w5 = Log w" and
    r5: "Stderr w5 = Stderr w @ map (\<lambda>f. Warning_exists (path f))
                                  (filter (\<lambda>f. node_at w (resolve w (path f)) \<noteq> None) files)"
    unfolding w3 by blast
  have w5: "snd (writeFiles (getFiles cdir ''main'') (snd (writeFiles (getBasefiles cdir ''main'' chartname) w3))) = w5"
    using r1 unfolding files_def writeFiles_append
    by (cases "writeFiles (getBasefiles cdir ''main'' chartname) w3") (auto split: option.splits)
  have res5: "resolve w5 = resolve w" using r4(1) by (rule resolve_cwd)
  have deep: "\<And>r. (\<exists>f \<in> set files. prefix r (butlast (resolve w (path f))))
      \<Longrightarrow> prefix r (D @ [''templates'', ''tests''])"
  proof -
    fix r assume "\<exists>f \<in> set files. prefix r (butlast (resolve w (path f)))"
    then obtain f where f: "f \<in> set files" and p: "prefix r (butlast (resolve w (path f)))" by blast
    from f tg obtain rs where rs: "rs \<in> set elems" and q: "resolve w (path f) = D @ rs" by blast
    from rs elems_main_facts have "rs \<noteq> []" and "prefix (butlast rs) [''templates'', ''tests'']"
      by (simp_all add: elems_def)
    with p q have "prefix r (D @ butlast rs)" and "prefix (D @ butlast rs) (D @ [''templates'', ''tests''])"
      by (simp_all add: butlast_append)
    then show "prefix r (D @ [''templates'', ''tests''])" by (rule prefix_order.trans)
  qed
  have pc5: "passable w5 (D @ [''charts''])"
    unfolding passable_iff
  proof (intro allI impI)
    fix r assume r: "prefix r (D @ [''charts''])"
    have "r \<notin> (\<lambda>f. resolve w (path f)) ` set files"
    proof
      assume "r \<in> (\<lambda>f. resolve w (path f)) ` set files"
      then obtain rs where rs: "rs \<in> set elems" and rr: "r = D @ rs" using tg by blast
      from rs have "\<not> prefix rs [''charts'']"
        using elems_main_facts(2) unfolding elems_def by blast
      moreover have "prefix rs [''charts'']"
        using r unfolding rr by (simp only: same_prefix_prefix)
      ultimately show False by blast
    qed
    from r3 [rule_format, OF this] pc r r4
    show "node_at w5 r = Some Directory \<or> (node_at w5 r = None \<and> r \<notin> deny w5)"
      unfolding passable_iff by (auto simp: node_at_def split: if_splits)
  qed
  then have "passable (called (MkdirAll_call (Join [cdir, ChartsDir])) w5) (D @ [''charts''])"
    by simp
  from mkdir_all_passable [OF this] obtain w6 where
    m1: "mkdir_all (D @ [''charts'']) (called (MkdirAll_call (Join [cdir, ChartsDir])) w5) = (None, w6)" and
    m2: "node_at w6 (D @ [''charts'']) = Some Directory" and
    m3: "\<forall>r. nodes w6 r = nodes w5 r \<or> (nodes w5 r = None \<and> nodes w6 r = Some Directory \<and> prefix r (D @ [''charts'']))"
    by auto
  from mkdir_all_frame [OF m1] have fr6: "cwd w6 = cwd w" "deny w6 = deny w" "Log w6 = Log w"
    "Stderr w6 = Stderr w5"
    using r4 by simp_all
  have res6: "resolve w6 = resolve w" using fr6(1) by (rule resolve_cwd)
  have mk: "os_MkdirAll (Join [cdir, ChartsDir]) w5 = (None, w6)"
    using m1 charts_place(1) [OF regD, of w5] charts_place(2) [OF regD] unfolding cd
    by (simp add: os_MkdirAll_def)
  have result: "Create chartname dir w = ((cdir, None), w6)"
    unfolding new_unit_steps [OF valid abs dirok novalues nofile]
    using mk w5 by (simp add: Let_def cdir_def w3_def)
  have keep: "\<And>r n. nodes w5 r = Some n \<Longrightarrow> nodes w6 r = Some n"
    using m3 by (metis option.distinct(1))
  have sc: "scaffolded w6 cdir chartname"
    unfolding scaffolded_def files_def [symmetric] list_all_iff res6
  proof (intro conjI ballI)
    fix f assume f: "f \<in> set files"
    from r2 f keep show "nodes w6 (resolve w (path f)) = Some (RegularFile (content f))" by blast
    from pre1 f have wq: "writable w (resolve w (path f))" by (simp add: w3 writable_def passable_def)
    then show "resolve w (path f) \<noteq> []" and "resolve w (path f) \<notin> deny w6"
      by (simp_all add: writable_def fr6)
    from r2 f have "node_at w5 (butlast (resolve w (path f))) = Some Directory" by blast
    with keep show "node_at w6 (butlast (resolve w (path f))) = Some Directory"
      by (auto simp: node_at_def split: if_splits)
  next
    show "node_at w6 (resolve w (Join [cdir, ChartsDir])) = Some Directory"
      using m2 charts_place(1) [OF regD, of w] unfolding cd by simp
  qed
  have ch: "\<forall>r. nodes w6 r = nodes w r \<or> r \<in> (@) D ` set elems
            \<or> (nodes w r = None \<and> nodes w6 r = Some Directory
                \<and> (r = D @ [''charts''] \<or> prefix r (D @ [''templates'', ''tests''])))"
  proof
    fix r
    show "nodes w6 r = nodes w r \<or> r \<in> (@) D ` set elems
            \<or> (nodes w r = None \<and> nodes w6 r = Some Directory
                \<and> (r = D @ [''charts''] \<or> prefix r (D @ [''templates'', ''tests''])))"
    proof (cases "r \<in> (@) D ` set elems")
      case True
      then show ?thesis by simp
    next
      case False
      then have nt: "r \<notin> (\<lambda>f. resolve w (path f)) ` set files" using tg by simp
      have up: "prefix r (D @ [''charts'']) \<Longrightarrow> r = D @ [''charts''] \<or> prefix r (D @ [''templates'', ''tests''])"
        using prefix_snoc_cases [of r D] by (auto intro: prefix_order.trans)
      from r3 [rule_format, OF nt] m3 [rule_format, of r] deep [of r] up
      show ?thesis by auto
    qed
  qed
  from result sc ch fr6 r5 show ?thesis
    unfolding cdir_def [symmetric] D_def [symmetric] elems_def [symmetric] files_def [symmetric]
    by (intro exI [of _ w6]) simp
qed

lemma rerun_scaffolded:
  assumes valid: "validateChartName chartname = None"
    and abs: "IsAbs (cwd w)"
    and dirok: "node_at w (resolve w (Abs w dir)) = Some Directory"
    and novalues: "node_at w (resolve w ValuesfileName) = None"
    and sc: "scaffolded w (Join [Abs w dir, chartname]) chartname"
  shows "\<exists>w'. Create chartname dir w = ((Join [Abs w dir, chartname], None), w')
      \<and> nodes w' = nodes w \<and> cwd w' = cwd w \<and> deny w' = deny w \<and> Log w' = Log w
      \<and> Stderr w' = Stderr w @ map (\<lambda>f. Warning_exists (path f))
            (getBasefiles (Join [Abs w dir, chartname]) ''main'' chartname
             @ getFiles (Join [Abs w dir, chartname]) ''main'')"
proof -
  define cdir where "cdir = Join [Abs w dir, chartname]"
  define D where "D = resolve w cdir"
  define files where "files = getBasefiles cdir ''main'' chartname @ getFiles cdir ''main''"
  define w3 where "w3 = called (Stat_call ValuesfileName) (called (Stat_call cdir) (called (Stat_call (Abs w dir)) w))"
  have cd: "cdir = CHR ''/'' # join_sep D"
    unfolding cdir_def D_def by (rule Join_onto_abs) (rule IsAbs_Abs [OF abs])
  have regD: "list_all regular D" unfolding D_def by (rule resolve_regular)
  have w3: "nodes w3 = nodes w" "deny w3 = deny w" "cwd w3 = cwd w" "Log w3 = Log w"
    "Stderr w3 = Stderr w" "node_at w3 = node_at w" "resolve w3 = resolve w"
    by (simp_all add: w3_def)
  have pl: "\<forall>f \<in> set files. placed w f"
    unfolding files_def cd using planned_abs(2) [OF regD main_noslash] by blast
  from sc have present: "\<forall>f \<in> set files. nodes w (resolve w (path f)) = Some (RegularFile (content f))
                  \<and> node_at w (butlast (resolve w (path f))) = Some Directory
                  \<and> resolve w (path f) \<noteq> [] \<and> resolve w (path f) \<notin> deny w"
    and charts: "node_at w (resolve w (Join [cdir, ChartsDir])) = Some Directory"
    by (simp_all add: scaffolded_def files_def cdir_def list_all_iff)
  have "\<lparr>path = Join [cdir, ValuesfileName], content = transform defaultValues ''main''\<rparr> \<in> set files"
    by (simp add: files_def getBasefiles_def)
  from present [rule_format, OF this] have "node_at w (butlast (resolve w (Join [cdir, ValuesfileName]))) = Some Directory"
    by simp
  moreover have "resolve w (Join [cdir, ValuesfileName]) = D @ [''values.yaml'']"
    unfolding cd using regD by (simp add: abs_file(2) split_names(9) [OF main_noslash] regular_def)
  ultimately have "node_at w D = Some Directory" by simp
  then have nofile: "\<forall>d. node_at w (resolve w (Join [Abs w dir, chartname])) \<noteq> Some (RegularFile d)"
    by (simp add: D_def cdir_def)
  have "\<forall>f \<in> set files. placed w3 f \<and> resolve w3 (path f) \<noteq> []
        \<and> node_at w3 (butlast (resolve w3 (path f))) = Some Directory
        \<and> nodes w3 (resolve w3 (path f)) = Some (RegularFile (content f))
        \<and> resolve w3 (path f) \<notin> deny w3"
    using pl present by (simp add: w3 placed_def)
  from writeFiles_overwrite [OF this] obtain w5 where
    r1: "writeFiles files w3 = (None, w5)" and
    r2: "nodes w5 = nodes w" "cwd w5 = cwd w" "deny w5 = deny w" "Log w5 = Log w" and
    r3: "Stderr w5 = Stderr w @ map (\<lambda>f. Warning_exists (path f)) files"
    unfolding w3 by blast
  have w5: "snd (writeFiles (getFiles cdir ''main'') (snd (writeFiles (getBasefiles cdir ''main'' chartname) w3))) = w5"
    using r1 unfolding files_def writeFiles_append
    by (cases "writeFiles (getBasefiles cdir ''main'' chartname) w3") (auto split: option.splits)
  have res5: "resolve w5 = resolve w" using r2(2) by (rule resolve_cwd)
  have na5: "node_at w5 = node_at w" using r2(1) by (simp add: node_at_def fun_eq_iff)
  have mk: "os_MkdirAll (Join [cdir, ChartsDir]) w5 = (None, called (MkdirAll_call (Join [cdir, ChartsDir])) w5)"
    using charts charts_place(2) [OF regD] unfolding cd
    by (simp add: os_MkdirAll_def mkdir_all_Directory res5 na5)
  have "Create chartname dir w = ((cdir, None), called (MkdirAll_call (Join [cdir, ChartsDir])) w5)"
    unfolding new_unit_steps [OF valid abs dirok novalues nofile]
    using mk w5 by (simp add: Let_def cdir_def w3_def)
  with r2 r3 show ?thesis
    unfolding cdir_def [symmetric] files_def [symmetric]
    by (intro exI [of _ "called (MkdirAll_call (Join [cdir, ChartsDir])) w5"]) simp
qed

lemma valid_noslash: "validateChartName m = None \<Longrightarrow> CHR ''/'' \<notin> set m"
  using chartName_class_slash
  by (auto simp: validateChartName_def chartName_MatchString_def list_all_iff split: if_splits)

lemma valid_class: "validateChartName m = None \<Longrightarrow> list_all chartName_class m"
  by (auto simp: validateChartName_def chartName_MatchString_def split: if_splits)

lemma neq_by_rev: "rev a \<noteq> rev b \<Longrightarrow> a \<noteq> b"
  by auto

lemma module_names_distinct:
  "distinct [m @ ''__ingress.yaml'', m @ ''__deployment.yaml'', m @ ''__service.yaml'',
             m @ ''__serviceaccount.yaml'', m @ ''__hpa.yaml'', ''_'' @ m @ ''__helpers.tpl'']"
proof -
  have "\<And>s. CHR ''_'' # m @ ''__helpers.tpl'' \<noteq> m @ CHR ''_'' # CHR ''_'' # s @ ''.yaml''"
    by (rule neq_by_rev) simp
  from this [of "''ingress''"] this [of "''deployment''"] this [of "''service''"]
    this [of "''serviceaccount''"] this [of "''hpa''"]
  show ?thesis by simp
qed

lemma module_names_not_tests:
  "m @ ''__ingress.yaml'' \<noteq> ''tests''" "m @ ''__deployment.yaml'' \<noteq> ''tests''"
  "m @ ''__service.yaml'' \<noteq> ''tests''" "m @ ''__serviceaccount.yaml'' \<noteq> ''tests''"
  "m @ ''__hpa.yaml'' \<noteq> ''tests''" "CHR ''_'' # m @ ''__helpers.tpl'' \<noteq> ''tests''"
  by (rule neq_by_rev, simp)+

lemma elems_apart_module:
  "distinct (module_elems m)"
  "\<forall>a \<in> set (module_elems m). \<forall>b \<in> set (module_elems m). prefix a b \<longrightarrow> a = b"
  "\<forall>rs \<in> set (module_elems m). prefix (butlast rs) [''templates'', ''tests''] \<and> rs \<noteq> []
       \<and> rs \<noteq> [''values.yaml'']"
  using module_names_distinct [of m] module_names_not_tests [of m]
  by (simp_all add: module_elems_def)

lemma values_place: "resolve w ValuesfileName = cwd_elems w @ [''values.yaml'']"
  by (simp add: resolve_rel split_names(9) [OF main_noslash] regular_def)

lemma add_module_steps:
  assumes valid: "validateChartName chartname = None"
    and abs: "IsAbs (cwd w)"
    and dirok: "node_at w (resolve w (Abs w dir)) = Some Directory"
    and nofile: "\<forall>d. node_at w (resolve w (Join [Abs w dir, chartname])) \<noteq> Some (RegularFile d)"
    and vals: "node_at w (resolve w ValuesfileName) \<noteq> None"
  shows "Create chartname dir w =
      (let cdir = Join [Abs w dir, chartname];
           w3 = called (Stat_call ValuesfileName) (called (Stat_call cdir) (called (Stat_call (Abs w dir)) w));
           w4 = snd (writeFiles (getFiles [] chartname) w3)
       in ((cdir, None), appendToValuesFile chartname w4))"
proof -
  have a: "Abs w dir \<noteq> []" using IsAbs_Abs [OF abs, of dir] by (auto simp: IsAbs_def)
  have c: "Join [Abs w dir, chartname] \<noteq> []"
    using Join_onto_abs [OF IsAbs_Abs [OF abs], of dir chartname w] by auto
  have v: "ValuesfileName \<noteq> []" by (simp add: ValuesfileName_def)
  have s1: "os_Stat (Abs w dir) w = (Inr True, called (Stat_call (Abs w dir)) w)"
    using a dirok by (simp add: os_Stat_def)
  obtain fi where s2: "os_Stat (Join [Abs w dir, chartname]) (called (Stat_call (Abs w dir)) w)
       = (fi, called (Stat_call (Join [Abs w dir, chartname])) (called (Stat_call (Abs w dir)) w))"
    and fi: "fi \<noteq> Inr False"
    using c nofile by (auto simp: os_Stat_def split: option.splits node.splits)
  obtain isdir where s3: "os_Stat ValuesfileName (called (Stat_call (Join [Abs w dir, chartname])) (called (Stat_call (Abs w dir)) w))
      = (Inr isdir, called (Stat_call ValuesfileName) (called (Stat_call (Join [Abs w dir, chartname])) (called (Stat_call (Abs w dir)) w)))"
  proof -
    from vals obtain n where n: "node_at w (resolve w ValuesfileName) = Some n" by auto
    show ?thesis
      by (cases n) (use that v n in \<open>auto simp: os_Stat_def\<close>)
  qed
  show ?thesis
    by (simp add: Create_def Let_def valid s1 s2 fi s3)
qed

lemma add_module_writes:
  assumes valid: "validateChartName chartname = None"
    and abs: "IsAbs (cwd w)"
    and dirok: "node_at w (resolve w (Abs w dir)) = Some Directory"
    and nofile: "\<forall>d. node_at w (resolve w (Join [Abs w dir, chartname])) \<noteq> Some (RegularFile d)"
    and here: "node_at w (cwd_elems w) = Some Directory"
    and old: "nodes w (cwd_elems w @ [''values.yaml'']) = Some (RegularFile old)"
    and okv: "cwd_elems w @ [''values.yaml''] \<notin> deny w"
    and free: "list_all (\<lambda>rs. writable w (cwd_elems w @ rs)) (module_elems chartname)"
  shows "\<exists>w'. Create chartname dir w = ((Join [Abs w dir, chartname], None), w')
      \<and> list_all (\<lambda>f. nodes w' (resolve w (path f)) = Some (RegularFile (content f)))
           (getFiles [] chartname)
      \<and> nodes w' (cwd_elems w @ [''values.yaml''])
           = Some (RegularFile (old @ transform defaultValues chartname))
      \<and> (\<forall>r. nodes w' r = nodes w r
            \<or> r \<in> (@) (cwd_elems w) ` set (module_elems chartname)
            \<or> r = cwd_elems w @ [''values.yaml'']
            \<or> (nodes w r = None \<and> nodes w' r = Some Directory
                \<and> prefix r (cwd_elems w @ [''templates'', ''tests''])))
      \<and> cwd w' = cwd w \<and> deny w' = deny w \<and> Log w' = Log w
      \<and> Stderr w' = Stderr w @ map (\<lambda>f. Warning_exists (path f))
            (filter (\<lambda>f. node_at w (resolve w (path f)) \<noteq> None) (getFiles [] chartname))"
proof -
  define cdir where "cdir = Join [Abs w dir, chartname]"
  define C where "C = cwd_elems w"
  define V where "V = C @ [''values.yaml'']"
  define elems where "elems = module_elems chartname"
  define files where "files = getFiles [] chartname"
  define w3 where "w3 = called (Stat_call ValuesfileName) (called (Stat_call cdir) (called (Stat_call (Abs w dir)) w))"
  have m: "CHR ''/'' \<notin> set chartname" using valid by (rule valid_noslash)
  have rv: "resolve w ValuesfileName = V" unfolding V_def C_def by (rule values_place)
  have vne: "V \<noteq> []" by (simp add: V_def)
  from old have vals: "node_at w (resolve w ValuesfileName) \<noteq> None"
    unfolding rv by (simp add: node_at_def V_def C_def)
  from free have wr: "\<forall>rs \<in> set elems. writable w (C @ rs)"
    by (simp add: C_def elems_def list_all_iff)
  have w3: "nodes w3 = nodes w" "deny w3 = deny w" "cwd w3 = cwd w" "Log w3 = Log w"
    "Stderr w3 = Stderr w" "node_at w3 = node_at w" "resolve w3 = resolve w"
    by (simp_all add: w3_def)
  have loc: "map (\<lambda>f. resolve w (path f)) files = map ((@) C) elems"
    and pl: "\<forall>f \<in> set files. placed w f"
    unfolding files_def elems_def C_def using planned_rel(1,2) [OF m] by blast+
  have tg: "(\<lambda>f. resolve w (path f)) ` set files = (@) C ` set elems"
    using arg_cong [OF loc, of set] by simp
  have pre1: "\<forall>f \<in> set files. placed w3 f \<and> writable w3 (resolve w3 (path f))"
  proof
    fix f assume f: "f \<in> set files"
    then have "resolve w (path f) \<in> (@) C ` set elems" using tg by blast
    with wr have "writable w (resolve w (path f))" by auto
    with pl f show "placed w3 f \<and> writable w3 (resolve w3 (path f))"
      by (simp add: w3 placed_def writable_def passable_def)
  qed
  have "distinct elems" unfolding elems_def by (rule elems_apart_module(1))
  then have pre2: "distinct (map (\<lambda>f. resolve w3 (path f)) files)"
    unfolding w3 loc by (simp add: distinct_map inj_on_def)
  have pre3: "\<forall>f \<in> set files. \<forall>g \<in> set files. prefix (resolve w3 (path f)) (resolve w3 (path g))
           \<longrightarrow> resolve w3 (path f) = resolve w3 (path g)"
  proof (intro ballI impI)
    fix f g assume "f \<in> set files" "g \<in> set files"
      and p: "prefix (resolve w3 (path f)) (resolve w3 (path g))"
    then obtain a b where "a \<in> set elems" "b \<in> set elems"
      "resolve w (path f) = C @ a" "resolve w (path g) = C @ b"
      using tg by blast
    with p elems_apart_module(2) [of chartname] show "resolve w3 (path f) = resolve w3 (path g)"
      by (simp add: w3 elems_def)
  qed
  from writeFiles_ok [OF pre1 pre2 pre3] obtain w4 where
    r1: "writeFiles files w3 = (None, w4)" and
    r2: "\<forall>f \<in> set files. nodes w4 (resolve w (path f)) = Some (RegularFile (content f))
            \<and> node_at w4 (butlast (resolve w (path f))) = Some Directory" and
    r3: "\<forall>r. r \<notin> (\<lambda>f. resolve w (path f)) ` set files \<longrightarrow> nodes w4 r = nodes w r
            \<or> (nodes w r = None \<and> nodes w4 r = Some Directory
                \<and> (\<exists>f \<in> set files. prefix r (butlast (resolve w (path f)))))" and
    r4: "cwd w4 = cwd w" "deny w4 = deny w" "Log w4 = Log w" and
    r5: "Stderr w4 = Stderr w @ map (\<lambda>f. Warning_exists (path f))
                                  (filter (\<lambda>f. node_at w (resolve w (path f)) \<noteq> None) files)"
    unfolding w3 by blast
  have res4: "resolve w4 = resolve w" using r4(1) by (rule resolve_cwd)
  have deep: "\<And>r. (\<exists>f \<in> set files. prefix r (butlast (resolve w (path f))))
      \<Longrightarrow> prefix r (C @ [''templates'', ''tests''])"
  proof -
    fix r assume "\<exists>f \<in> set files. prefix r (butlast (resolve w (path f)))"
    then obtain f where f: "f \<in> set files" and p: "prefix r (butlast (resolve w (path f)))" by blast
    from f tg obtain rs where rs: "rs \<in> set elems" and q: "resolve w (path f) = C @ rs" by blast
    from rs elems_apart_module(3) [of chartname] have "rs \<noteq> []" and "prefix (butlast rs) [''templates'', ''tests'']"
      by (simp_all add: elems_def)
    with p q have "prefix r (C @ butlast rs)" and "prefix (C @ butlast rs) (C @ [''templates'', ''tests''])"
      by (simp_all add: butlast_append)
    then show "prefix r (C @ [''templates'', ''tests''])" by (rule prefix_order.trans)
  qed
  have Vnot: "V \<notin> (\<lambda>f. resolve w (path f)) ` set files"
  proof
    assume "V \<in> (\<lambda>f. resolve w (path f)) ` set files"
    then obtain rs where "rs \<in> set elems" and "V = C @ rs" using tg by blast
    with elems_apart_module(3) [of chartname] show False by (auto simp: V_def elems_def)
  qed
  have Cnot: "C \<notin> (\<lambda>f. resolve w (path f)) ` set files"
  proof
    assume "C \<in> (\<lambda>f. resolve w (path f)) ` set files"
    then obtain rs where "rs \<in> set elems" and "C = C @ rs" using tg by blast
    with elems_apart_module(3) [of chartname] show False by (auto simp: elems_def)
  qed
  have V4: "nodes w4 V = Some (RegularFile old)"
    using r3 [rule_format, OF Vnot] old by (auto simp: V_def C_def)
  have C4: "node_at w4 C = Some Directory"
    using r3 [rule_format, OF Cnot] here by (auto simp: C_def node_at_def split: if_splits)
  have vn: "ValuesfileName \<noteq> []" by (simp add: ValuesfileName_def)
  have "V \<notin> deny w4" and "node_at w4 (butlast V) = Some Directory"
    using okv r4 C4 by (simp_all add: V_def C_def)
  then have "open_for_write w4 ValuesfileName = None"
    using V4 vne vn by (simp add: open_for_write_def res4 rv)
  then have app: "appendToValuesFile chartname w4 =
      called (Write_call (transform defaultValues chartname))
        ((called (OpenFile_call ValuesfileName) w4)
           \<lparr>nodes := (nodes w4)(V \<mapsto> RegularFile (old @ transform defaultValues chartname))\<rparr>)"
    using V4 by (simp add: appendToValuesFile_def os_OpenFile_append_def File_Write_def res4 rv)
  define w5 where "w5 = appendToValuesFile chartname w4"
  have w5: "nodes w5 = (nodes w4)(V \<mapsto> RegularFile (old @ transform defaultValues chartname))"
    "cwd w5 = cwd w" "deny w5 = deny w" "Log w5 = Log w" "Stderr w5 = Stderr w4"
    unfolding w5_def app using r4 by simp_all
  have result: "Create chartname dir w = ((cdir, None), w5)"
    unfolding add_module_steps [OF valid abs dirok nofile vals]
    using r1 by (simp add: Let_def cdir_def w3_def w5_def files_def)
  have files5: "list_all (\<lambda>f. nodes w5 (resolve w (path f)) = Some (RegularFile (content f))) files"
    unfolding list_all_iff
  proof
    fix f assume f: "f \<in> set files"
    with Vnot have "resolve w (path f) \<noteq> V" by auto
    with r2 f show "nodes w5 (resolve w (path f)) = Some (RegularFile (content f))"
      by (simp add: w5)
  qed
  have ch: "\<forall>r. nodes w5 r = nodes w r \<or> r \<in> (@) C ` set elems \<or> r = V
            \<or> (nodes w r = None \<and> nodes w5 r = Some Directory \<and> prefix r (C @ [''templates'', ''tests'']))"
  proof
    fix r
    show "nodes w5 r = nodes w r \<or> r \<in> (@) C ` set elems \<or> r = V
            \<or> (nodes w r = None \<and> nodes w5 r = Some Directory \<and> prefix r (C @ [''templates'', ''tests'']))"
    proof (cases "r \<in> (@) C ` set elems \<or> r = V")
      case True
      then show ?thesis by auto
    next
      case False
      then have nt: "r \<notin> (\<lambda>f. resolve w (path f)) ` set files" and rv: "r \<noteq> V" using tg by simp_all
      from r3 [rule_format, OF nt] deep [of r] rv show ?thesis by (auto simp: w5)
    qed
  qed
  from result files5 ch w5 r5 show ?thesis
    unfolding cdir_def [symmetric] C_def [symmetric] elems_def [symmetric] files_def [symmetric] V_def [symmetric]
    by (intro exI [of _ w5]) simp
qed

lemma calls_only_refl: "calls_only P w w"
  by (simp add: calls_only_def)

lemma calls_only_trans: "calls_only P w w1 \<Longrightarrow> calls_only P w1 w2 \<Longrightarrow> calls_only P w w2"
  by (auto simp: calls_only_def)

lemma calls_only_called: "P c \<Longrightarrow> calls_only P w (called c w)"
  by (simp add: calls_only_def)

lemma calls_only_same: "calls w' = calls w \<Longrightarrow> calls_only P w w'"
  by (simp add: calls_only_def)

lemma calls_only_Stat: "P (Stat_call p) \<Longrightarrow> calls_only P w (snd (os_Stat p w))"
  by (simp add: os_Stat_def calls_only_called)

lemma calls_only_MkdirAll:
  assumes "P (MkdirAll_call p)"
  shows "calls_only P w (snd (os_MkdirAll p w))"
proof (cases "p = []")
  case True
  with assms show ?thesis by (simp add: os_MkdirAll_def calls_only_called)
next
  case False
  obtain r w' where m: "mkdir_all (resolve w p) (called (MkdirAll_call p) w) = (r, w')"
    by (cases "mkdir_all (resolve w p) (called (MkdirAll_call p) w)")
  from mkdir_all_frame [OF m] have "calls w' = calls (called (MkdirAll_call p) w)" by simp
  then have "calls_only P (called (MkdirAll_call p) w) w'" by (rule calls_only_same)
  moreover have "calls_only P w (called (MkdirAll_call p) w)"
    using assms by (rule calls_only_called)
  ultimately have "calls_only P w w'"
    by (blast intro: calls_only_trans)
  with False m show ?thesis by (simp add: os_MkdirAll_def)
qed

lemma calls_only_WriteFile:
  "P (WriteFile_call name data) \<Longrightarrow> calls_only P w (snd (ioutil_WriteFile name data w))"
  by (auto simp: ioutil_WriteFile_def calls_only_def split: option.splits)

lemma calls_only_writeFile:
  assumes "P (MkdirAll_call (Dir name))" and "P (WriteFile_call name body)"
  shows "calls_only P w (snd (writeFile name body w))"
proof -
  obtain r w1 where m: "os_MkdirAll (Dir name) w = (r, w1)" by (cases "os_MkdirAll (Dir name) w")
  have "calls_only P w (snd (os_MkdirAll (Dir name) w))"
    using assms(1) by (rule calls_only_MkdirAll)
  then have 1: "calls_only P w w1" using m by simp
  show ?thesis
  proof (cases r)
    case None
    have "calls_only P w1 (snd (ioutil_WriteFile name body w1))"
      using assms(2) by (rule calls_only_WriteFile)
    with m 1 None show ?thesis
      by (auto simp: writeFile_def intro: calls_only_trans)
  next
    case (Some e)
    with m 1 show ?thesis by (simp add: writeFile_def)
  qed
qed

lemma calls_only_writeFiles:
  "\<forall>f \<in> set fs. P (Stat_call (path f)) \<and> P (MkdirAll_call (Dir (path f)))
       \<and> P (WriteFile_call (path f) (content f))
   \<Longrightarrow> calls_only P w (snd (writeFiles fs w))"
proof (induction fs arbitrary: w)
  case Nil
  then show ?case by (simp add: calls_only_refl)
next
  case (Cons f fs)
  define w1 where "w1 = snd (os_Stat (path f) w)"
  define w2 where "w2 = (if \<not> isl (fst (os_Stat (path f) w))
      then w1\<lparr>Stderr := Stderr w1 @ [Warning_exists (path f)]\<rparr> else w1)"
  define w3 where "w3 = snd (writeFile (path f) (content f) w2)"
  have 1: "calls_only P w w1" unfolding w1_def using Cons.prems by (intro calls_only_Stat) simp
  have 2: "calls_only P w1 w2" unfolding w2_def by (auto intro: calls_only_same)
  have 3: "calls_only P w2 w3" unfolding w3_def using Cons.prems by (intro calls_only_writeFile) simp_all
  have 4: "calls_only P w3 (snd (writeFiles fs w3))" using Cons.prems by (intro Cons.IH) simp
  have d: "snd (writeFiles (f # fs) w) = w3 \<or> snd (writeFiles (f # fs) w) = snd (writeFiles fs w3)"
    unfolding w3_def w2_def w1_def
    by (cases "os_Stat (path f) w") (auto simp: Let_def split: prod.splits option.splits)
  from 1 2 3 have a: "calls_only P w w3" by (blast intro: calls_only_trans)
  from a 4 have b: "calls_only P w (snd (writeFiles fs w3))" by (rule calls_only_trans)
  from d a b show ?case by metis
qed

lemma calls_only_append:
  "P (OpenFile_call ValuesfileName) \<Longrightarrow> P (Write_call (transform defaultValues m))
   \<Longrightarrow> calls_only P w (appendToValuesFile m w)"
  by (auto simp: appendToValuesFile_def os_OpenFile_append_def File_Write_def calls_only_def Let_def
      split: option.splits)

lemma calls_only_Create:
  assumes quiet: "\<And>p. P (Stat_call p) \<and> P (MkdirAll_call p) \<and> P (OpenFile_call p)"
    and new: "\<And>f. validateChartName chartname = None \<Longrightarrow>
      f \<in> set (getBasefiles (Join [Abs w dir, chartname]) ''main'' chartname
                @ getFiles (Join [Abs w dir, chartname]) ''main'')
      \<Longrightarrow> P (WriteFile_call (path f) (content f))"
    and add: "\<And>f. validateChartName chartname = None \<Longrightarrow> f \<in> set (getFiles [] chartname)
      \<Longrightarrow> P (WriteFile_call (path f) (content f))"
    and frag: "validateChartName chartname = None \<Longrightarrow> P (Write_call (transform defaultValues chartname))"
  shows "calls_only P w (snd (Create chartname dir w))"
proof (cases "validateChartName chartname")
  case (Some e)
  then show ?thesis by (simp add: Create_def calls_only_refl)
next
  case None
  define a where "a = Abs w dir"
  define cdir where "cdir = Join [a, chartname]"
  define w1 where "w1 = snd (os_Stat a w)"
  define w2 where "w2 = snd (os_Stat cdir w1)"
  define w3 where "w3 = snd (os_Stat ValuesfileName w2)"
  define wa where "wa = appendToValuesFile chartname (snd (writeFiles (getFiles [] chartname) w3))"
  define w5 where "w5 = snd (writeFiles (getFiles cdir ''main'') (snd (writeFiles (getBasefiles cdir ''main'' chartname) w3)))"
  define w6 where "w6 = snd (os_MkdirAll (Join [cdir, ChartsDir]) w5)"
  have 1: "calls_only P w w1" unfolding w1_def using quiet by (intro calls_only_Stat) simp
  have "calls_only P w1 w2" unfolding w2_def using quiet by (intro calls_only_Stat) simp
  with 1 have 2: "calls_only P w w2" by (rule calls_only_trans)
  have "calls_only P w2 w3" unfolding w3_def using quiet by (intro calls_only_Stat) simp
  with 2 have 3: "calls_only P w w3" by (rule calls_only_trans)
  have "calls_only P w3 (snd (writeFiles (getFiles [] chartname) w3))"
    using add [OF None] quiet by (intro calls_only_writeFiles) auto
  moreover have "calls_only P (snd (writeFiles (getFiles [] chartname) w3)) wa"
    unfolding wa_def using frag [OF None] quiet by (intro calls_only_append) auto
  ultimately have a: "calls_only P w wa" using 3 by (blast intro: calls_only_trans)
  have "calls_only P w3 (snd (writeFiles (getBasefiles cdir ''main'' chartname) w3))"
    using new [OF None] quiet unfolding cdir_def a_def by (intro calls_only_writeFiles) auto
  moreover have "calls_only P (snd (writeFiles (getBasefiles cdir ''main'' chartname) w3)) w5"
    unfolding w5_def using new [OF None] quiet unfolding cdir_def a_def
    by (intro calls_only_writeFiles) auto
  moreover have "calls_only P w5 w6" unfolding w6_def using quiet by (intro calls_only_MkdirAll) simp
  ultimately have 6: "calls_only P w w6" using 3 by (blast intro: calls_only_trans)
  have "snd (Create chartname dir w) \<in> {w1, w2, wa, w6}"
    unfolding w1_def w2_def w3_def wa_def w5_def w6_def cdir_def a_def
    by (simp add: Create_def None Let_def split: prod.splits sum.splits option.splits)
  with 1 2 a 6 show ?thesis by auto
qed

lemma no_lt_concat: "list_all (\<lambda>l. CHR ''<'' \<notin> set l) ls \<Longrightarrow> CHR ''<'' \<notin> set (concat ls)"
  by (auto simp: list_all_iff)

lemma marked_defaultValues: "marked defaultValues"
  unfolding defaultValues_def by (rule marked_concat) simp

lemma marked_defaultIngress: "marked defaultIngress"
  unfolding defaultIngress_def by (rule marked_concat) simp

lemma marked_defaultDeployment: "marked defaultDeployment"
  unfolding defaultDeployment_def by (rule marked_concat) simp

lemma marked_defaultService: "marked defaultService"
  unfolding defaultService_def by (rule marked_concat) simp

lemma marked_defaultServiceAccount: "marked defaultServiceAccount"
  unfolding defaultServiceAccount_def by (rule marked_concat) simp

lemma marked_defaultHorizontalPodAutoscaler: "marked defaultHorizontalPodAutoscaler"
  unfolding defaultHorizontalPodAutoscaler_def by (rule marked_concat) simp

lemma marked_defaultNotes: "marked defaultNotes"
  unfolding defaultNotes_def by (rule marked_concat) simp

lemma marked_defaultHelpers: "marked defaultHelpers"
  unfolding defaultHelpers_def by (rule marked_concat) simp

lemma marked_defaultTestConnection: "marked defaultTestConnection"
  unfolding defaultTestConnection_def by (rule marked_concat) simp

lemma no_lt_defaultChartfile: "CHR ''<'' \<notin> set defaultChartfile"
  unfolding defaultChartfile_def by (rule no_lt_concat) simp

lemma no_lt_defaultIgnore: "CHR ''<'' \<notin> set defaultIgnore"
  unfolding defaultIgnore_def by (rule no_lt_concat) simp

lemma templateBodies_marked: "body \<in> set templateBodies \<Longrightarrow> marked body"
  using marked_defaultValues marked_defaultIngress marked_defaultDeployment marked_defaultService
    marked_defaultServiceAccount marked_defaultHorizontalPodAutoscaler marked_defaultNotes
    marked_defaultHelpers marked_defaultTestConnection
  by (auto simp: templateBodies_def)

lemma set_Sprintf: "set (Sprintf fmt a) \<subseteq> set fmt \<union> set a"
  by (induction fmt a rule: Sprintf.induct) auto

lemma contents_resolved:
  assumes "list_all chartName_class m" and "list_all chartName_class n"
    and "f \<in> set (getBasefiles cdir m n @ getFiles cdir m)"
  shows "\<not> occurs ''<MODULE_NAME>'' (content f)"
proof -
  have "\<And>body. body \<in> set templateBodies \<Longrightarrow> \<not> occurs ''<MODULE_NAME>'' (transform body m)"
    using assms(1) by (intro transform_marked templateBodies_marked)
  then have t: "list_all (\<lambda>body. \<not> occurs ''<MODULE_NAME>'' (transform body m)) templateBodies"
    by (simp add: list_all_iff)
  have "CHR ''<'' \<notin> set (Sprintf defaultChartfile n)"
    using set_Sprintf [of defaultChartfile n] no_lt_defaultChartfile valid_no_lt [OF assms(2)] by auto
  then have c: "\<not> occurs ''<MODULE_NAME>'' (Sprintf defaultChartfile n)" by (rule no_lt_no_marker)
  have i: "\<not> occurs ''<MODULE_NAME>'' defaultIgnore"
    using no_lt_defaultIgnore by (rule no_lt_no_marker)
  from assms(3) t c i show ?thesis
    by (auto simp: getBasefiles_def getFiles_def templateBodies_def)
qed

lemma main_class: "list_all chartName_class ''main''"
  by (simp add: chartName_class_def)

text \<open>
  C6: for every template body that is transformed and every module name made of characters
  of the validator's class, the transformed body holds no occurrence of the marker
  \<open><MODULE_NAME>\<close>; and whatever the arguments and the file system, every byte sequence
  that \<open>Create\<close> hands to \<open>ioutil.WriteFile\<close> or to \<open>Write\<close> holds no occurrence of it.
\<close>

theorem placeholders_resolved:
  "(body \<in> set templateBodies \<and> list_all chartName_class module
      \<longrightarrow> \<not> occurs ''<MODULE_NAME>'' (transform body module))
   \<and> calls_only (data_only (\<lambda>d. \<not> occurs ''<MODULE_NAME>'' d)) w (snd (Create chartname dir w))"
proof
  show "body \<in> set templateBodies \<and> list_all chartName_class module
      \<longrightarrow> \<not> occurs ''<MODULE_NAME>'' (transform body module)"
    using transform_marked [OF templateBodies_marked] by blast
  show "calls_only (data_only (\<lambda>d. \<not> occurs ''<MODULE_NAME>'' d)) w (snd (Create chartname dir w))"
  proof (rule calls_only_Create)
    fix p
    show "data_only (\<lambda>d. \<not> occurs ''<MODULE_NAME>'' d) (Stat_call p)
        \<and> data_only (\<lambda>d. \<not> occurs ''<MODULE_NAME>'' d) (MkdirAll_call p)
        \<and> data_only (\<lambda>d. \<not> occurs ''<MODULE_NAME>'' d) (OpenFile_call p)"
      by (simp add: data_only_def)
  next
    fix f
    assume "validateChartName chartname = None"
      and "f \<in> set (getBasefiles (Join [Abs w dir, chartname]) ''main'' chartname
                    @ getFiles (Join [Abs w dir, chartname]) ''main'')"
    then have "\<not> occurs ''<MODULE_NAME>'' (content f)"
      by (intro contents_resolved [OF main_class valid_class])
    then show "data_only (\<lambda>d. \<not> occurs ''<MODULE_NAME>'' d) (WriteFile_call (path f) (content f))"
      by (simp add: data_only_def)
  next
    fix f
    assume v: "validateChartName chartname = None" and "f \<in> set (getFiles [] chartname)"
    then have "f \<in> set (getBasefiles [] chartname chartname @ getFiles [] chartname)" by simp
    then have "\<not> occurs ''<MODULE_NAME>'' (content f)"
      by (intro contents_resolved [OF valid_class [OF v] valid_class [OF v]])
    then show "data_only (\<lambda>d. \<not> occurs ''<MODULE_NAME>'' d) (WriteFile_call (path f) (content f))"
      by (simp add: data_only_def)
  next
    assume "validateChartName chartname = None"
    then have "\<not> occurs ''<MODULE_NAME>'' (transform defaultValues chartname)"
      by (intro transform_marked marked_defaultValues valid_class)
    then show "data_only (\<lambda>d. \<not> occurs ''<MODULE_NAME>'' d) (Write_call (transform defaultValues chartname))"
      by (simp add: data_only_def)
  qed
qed

theorem placeholders_resolved_witness:
  "\<not> occurs ''<MODULE_NAME>'' (transform defaultService ''cache'')
   \<and> calls_only (data_only (\<lambda>d. \<not> occurs ''<MODULE_NAME>'' d)) work_world
        (snd (Create ''demo'' ''/work'' work_world))"
  using placeholders_resolved [of defaultService "''cache''" work_world "''demo''" "''/work''"]
  by (simp add: templateBodies_def chartName_class_def)

lemma defaultValues_starts: "\<exists>rest. defaultValues = ''# Default values for %s.'' @ rest"
  unfolding defaultValues_def concat.simps by simp

lemma transform_defaultValues_prefix:
  "prefix ''# Default values for %s.'' (transform defaultValues m)"
proof -
  obtain rest where r: "defaultValues = ''# Default values for %s.'' @ rest"
    using defaultValues_starts by blast
  have "ReplaceAll (''# Default values for %s.'' @ rest) ''<MODULE_NAME>'' m
      = ''# Default values for %s.'' @ ReplaceAll rest ''<MODULE_NAME>'' m"
    by (rule ReplaceAll_copy) simp_all
  then show ?thesis unfolding transform_def r by (simp only: prefixI)
qed

lemma values_path_unique:
  fixes w :: world
  assumes D: "list_all regular D" and f: "f \<in> set (getBasefiles (CHR ''/'' # join_sep D) ''main'' n
        @ getFiles (CHR ''/'' # join_sep D) ''main'')"
    and p: "path f = Join [CHR ''/'' # join_sep D, ValuesfileName]"
  shows "content f = transform defaultValues ''main''"
proof -
  define files where "files = getBasefiles (CHR ''/'' # join_sep D) ''main'' n
        @ getFiles (CHR ''/'' # join_sep D) ''main''"
  define v where "v = \<lparr>path = Join [CHR ''/'' # join_sep D, ValuesfileName],
      content = transform defaultValues ''main''\<rparr>"
  have loc: "map (\<lambda>f. resolve w (path f)) files = map ((@) D) (base_elems @ module_elems ''main'')"
    unfolding files_def using planned_abs(1) [OF D main_noslash] by blast
  have "distinct (map ((@) D) (base_elems @ module_elems ''main''))"
    using elems_apart_main(1) by (simp only: distinct_map) (simp add: inj_on_def)
  then have "inj_on (\<lambda>f. resolve w (path f)) (set files)"
    unfolding loc [symmetric] by (simp add: distinct_map)
  moreover have "v \<in> set files" by (simp add: files_def v_def getBasefiles_def)
  moreover have "f \<in> set files" using f by (simp add: files_def)
  moreover have "resolve w (path f) = resolve w (path v)" using p by (simp add: v_def)
  ultimately have "f = v" by (meson inj_onD)
  then show ?thesis by (simp add: v_def)
qed

lemma module_paths_relative:
  assumes "CHR ''/'' \<notin> set m" and "f \<in> set (getFiles [] m)"
  shows "\<not> IsAbs (path f)"
proof -
  from assms(2) have "path f \<in> set (map path (getFiles [] m))" by simp
  then show ?thesis
    unfolding planned_rel(3) [OF assms(1)] by (auto simp: IsAbs_def)
qed

text \<open>
  C10: for every module name the transformed \<open>defaultValues\<close> starts with the text
  \<open># Default values for %s.\<close>, the verb unreplaced; and in every run of \<open>Create\<close> from an
  absolute working directory, the bytes written to \<open>values.yaml\<close> of the chart directory and
  the bytes of every \<open>Write\<close> (the appended fragment) start with it.
\<close>

theorem defaultValues_verb_kept:
  "prefix ''# Default values for %s.'' (transform defaultValues module)
   \<and> (IsAbs (cwd w) \<longrightarrow>
        calls_only (values_write (Join [Join [Abs w dir, chartname], ValuesfileName])) w
          (snd (Create chartname dir w)))"
proof (intro conjI impI)
  show "prefix ''# Default values for %s.'' (transform defaultValues module)"
    by (rule transform_defaultValues_prefix)
  assume abs: "IsAbs (cwd w)"
  define cdir where "cdir = Join [Abs w dir, chartname]"
  define D where "D = resolve w cdir"
  have cd: "cdir = CHR ''/'' # join_sep D"
    unfolding cdir_def D_def by (rule Join_onto_abs) (rule IsAbs_Abs [OF abs])
  have regD: "list_all regular D" unfolding D_def by (rule resolve_regular)
  have vabs: "IsAbs (Join [cdir, ValuesfileName])"
    unfolding cd using regD
    by (simp add: abs_file(1) split_names(9) [OF main_noslash] regular_def IsAbs_def)
  show "calls_only (values_write (Join [Join [Abs w dir, chartname], ValuesfileName])) w
          (snd (Create chartname dir w))"
    unfolding cdir_def [symmetric]
  proof (rule calls_only_Create [of _ chartname w dir, folded cdir_def])
    fix p
    show "values_write (Join [cdir, ValuesfileName]) (Stat_call p)
        \<and> values_write (Join [cdir, ValuesfileName]) (MkdirAll_call p)
        \<and> values_write (Join [cdir, ValuesfileName]) (OpenFile_call p)"
      by simp
  next
    fix f
    assume "f \<in> set (getBasefiles cdir ''main'' chartname @ getFiles cdir ''main'')"
    then show "values_write (Join [cdir, ValuesfileName]) (WriteFile_call (path f) (content f))"
      using values_path_unique [OF regD, of f chartname] transform_defaultValues_prefix
      unfolding cd by auto
  next
    fix f
    assume "validateChartName chartname = None" and "f \<in> set (getFiles [] chartname)"
    then have "\<not> IsAbs (path f)" by (intro module_paths_relative valid_noslash)
    with vabs show "values_write (Join [cdir, ValuesfileName]) (WriteFile_call (path f) (content f))"
      by auto
  next
    show "values_write (Join [cdir, ValuesfileName]) (Write_call (transform defaultValues chartname))"
      by (simp add: transform_defaultValues_prefix)
  qed
qed

theorem defaultValues_verb_kept_witness:
  "prefix ''# Default values for %s.'' (transform defaultValues ''cache'')
   \<and> calls_only (values_write (Join [Join [Abs work_world ''/work'', ''demo''], ValuesfileName]))
        work_world (snd (Create ''demo'' ''/work'' work_world))"
  using defaultValues_verb_kept [of "''cache''" work_world "''/work''" "''demo''"]
  by (simp add: work_world_def IsAbs_def)

lemmas path_eval = Abs_def Join_def Clean_def IsAbs_def Dir_def resolve_def
  transformModuleName_def moduleNameTemplate_def sep_def ChartfileName_def ValuesfileName_def
  TemplatesDir_def ChartsDir_def TemplatesTestsDir_def IgnorefileName_def IngressFileName_def
  DeploymentName_def ServiceName_def ServiceAccountName_def HorizontalPodAutoscalerName_def
  NotesName_def HelpersName_def TestConnectionName_def

lemmas os_eval = os_Stat_def node_at_def called_def os_MkdirAll_def mkdir_all.simps
  open_for_write_def ioutil_WriteFile_def os_OpenFile_append_def File_Write_def writeFile_def
  appendToValuesFile_def

lemmas name_eval = validateChartName_def maxChartNameLength_def chartName_MatchString_def
  chartName_class_def

subsection \<open>CreateFrom\<close>

text \<open>
  C7, as stated, has both markers gone from the chart handed to the saver. The chart-name
  marker \<open><CHARTNAME>\<close> of a starter chart is still there: \<open>transform\<close> replaces the
  module-name marker only.
\<close>

theorem CreateFrom_keeps_chartname_marker:
  "CreateFrom_chart (\<lambda>src. Inr starter_chart) Inr Inr () ''starter''
     = Inr \<lparr>Metadata = (),
            Templates = [\<lparr>Name = ''templates/svc.yaml'', Data = ''name: <CHARTNAME>-main''\<rparr>],
            Raw = [\<lparr>Name = ''values.yaml'', Data = ''main: <CHARTNAME>''\<rparr>],
            Values = ''main: <CHARTNAME>''\<rparr>
   \<and> occurs ''<CHARTNAME>'' ''name: <CHARTNAME>-main''
   \<and> occurs ''<CHARTNAME>'' ''main: <CHARTNAME>''"
  by (simp add: CreateFrom_chart_def starter_chart_def transform_def ValuesfileName_def)

text \<open>
  C7, amended: in the chart that \<open>CreateFrom\<close> hands to \<open>SaveDir\<close>, no template and no raw
  file named \<open>values.yaml\<close> holds an occurrence of the module-name marker \<open><MODULE_NAME>\<close>,
  whatever the source chart held; the chart-name marker is not rewritten.
\<close>

theorem CreateFrom_resolves_module_marker:
  "CreateFrom load marshal unmarshal SaveDir chartfile dest src =
     (case CreateFrom_chart load marshal unmarshal chartfile src of
        Inl err \<Rightarrow> Some err
      | Inr schart \<Rightarrow> map_option SaveError (SaveDir schart dest))
   \<and> (\<forall>schart. CreateFrom_chart load marshal unmarshal chartfile src = Inr schart \<longrightarrow>
         (\<forall>t \<in> set (Templates schart). \<not> occurs ''<MODULE_NAME>'' (Data t))
         \<and> (\<forall>f \<in> set (Raw schart). Name f = ValuesfileName \<longrightarrow> \<not> occurs ''<MODULE_NAME>'' (Data f)))"
  by (auto simp: CreateFrom_def CreateFrom_chart_def Let_def transform_main_no_marker
      split: sum.splits)

theorem CreateFrom_resolves_module_marker_witness:
  "CreateFrom_chart (\<lambda>src. Inr starter_chart) Inr Inr () ''starter''
     = Inr \<lparr>Metadata = (),
            Templates = [\<lparr>Name = ''templates/svc.yaml'', Data = ''name: <CHARTNAME>-main''\<rparr>],
            Raw = [\<lparr>Name = ''values.yaml'', Data = ''main: <CHARTNAME>''\<rparr>],
            Values = ''main: <CHARTNAME>''\<rparr>
   \<and> \<not> occurs ''<MODULE_NAME>'' ''name: <CHARTNAME>-main''
   \<and> \<not> occurs ''<MODULE_NAME>'' ''main: <CHARTNAME>''"
  using CreateFrom_resolves_module_marker [of "\<lambda>src. Inr starter_chart" Inr Inr "\<lambda>c d. None" "()" "''dest''" "''starter''"]
  by (simp add: CreateFrom_chart_def starter_chart_def transform_def ValuesfileName_def)

lemma module_layout_rel:
  assumes "CHR ''/'' \<notin> set m"
  shows "map (\<lambda>f. (resolve w (path f), content f)) (getFiles [] m) = module_layout (cwd_elems w) m"
  using planned_rel(1) [OF assms, of w]
  by (simp add: getFiles_def module_layout_def module_elems_def)

lemma new_unit_layout_abs:
  assumes "list_all regular D"
  shows "map (\<lambda>f. (resolve w (path f), content f))
           (getBasefiles (CHR ''/'' # join_sep D) ''main'' n @ getFiles (CHR ''/'' # join_sep D) ''main'')
         = new_unit_layout D n"
  using planned_abs(1) [OF assms main_noslash, of w n]
  by (simp add: getFiles_def getBasefiles_def new_unit_layout_def module_layout_def
      module_elems_def base_elems_def)

lemma layout_fst:
  "map fst (module_layout B m) = map ((@) B) (module_elems m)"
  "map fst (new_unit_layout B n) = map ((@) B) (base_elems @ module_elems ''main'')"
  by (simp_all add: module_layout_def new_unit_layout_def module_elems_def base_elems_def)

lemma list_all_map_pair:
  "list_all (\<lambda>f. nodes w' (k f) = Some (RegularFile (c f))) fs
   \<Longrightarrow> list_all (\<lambda>(q, body). nodes w' q = Some (RegularFile body)) (map (\<lambda>f. (k f, c f)) fs)"
  by (simp add: list_all_iff)

text \<open>
  C1: let the name be valid, the working directory absolute, \<open>dir\<close> a directory and the
  chart directory \<open>dir/chartname\<close> not a regular file.
  If \<open>values.yaml\<close> is a regular file of the working directory that may be written, and
  nothing obstructs the seven module files under \<open>templates\<close> of the working directory, then
  \<open>Create\<close> succeeds, these seven files hold the templates transformed with the requested
  name as module name, \<open>values.yaml\<close> holds its old content followed by the fragment for that
  name, and nothing else has changed but directories made for them under the working
  directory.
  If there is no \<open>values.yaml\<close> in the working directory and nothing obstructs the files under
  the chart directory, then \<open>Create\<close> succeeds, the eleven files of the chart, transformed with
  module name \<open>main\<close>, are under the chart directory, \<open>charts\<close> is a directory there, and
  nothing else has changed but directories made for them.
\<close>

theorem Create_two_modes:
  assumes valid: "validateChartName chartname = None"
    and abs: "IsAbs (cwd w)"
    and dirok: "node_at w (resolve w (Abs w dir)) = Some Directory"
    and nofile: "\<forall>d. node_at w (resolve w (Join [Abs w dir, chartname])) \<noteq> Some (RegularFile d)"
  shows "(node_at w (cwd_elems w) = Some Directory
          \<and> nodes w (cwd_elems w @ [''values.yaml'']) = Some (RegularFile old)
          \<and> cwd_elems w @ [''values.yaml''] \<notin> deny w
          \<and> list_all (\<lambda>rs. writable w (cwd_elems w @ rs)) (module_elems chartname)
         \<longrightarrow> (\<exists>w'. Create chartname dir w = ((Join [Abs w dir, chartname], None), w')
               \<and> list_all (\<lambda>(q, body). nodes w' q = Some (RegularFile body))
                    (module_layout (cwd_elems w) chartname)
               \<and> nodes w' (cwd_elems w @ [''values.yaml''])
                    = Some (RegularFile (old @ transform defaultValues chartname))
               \<and> (\<forall>r. nodes w' r = nodes w r
                     \<or> r \<in> fst ` set (module_layout (cwd_elems w) chartname)
                     \<or> r = cwd_elems w @ [''values.yaml'']
                     \<or> (nodes w r = None \<and> nodes w' r = Some Directory
                         \<and> prefix r (cwd_elems w @ [''templates'', ''tests''])))))
       \<and> (node_at w (resolve w ValuesfileName) = None
          \<and> unobstructed w (resolve w (Join [Abs w dir, chartname]))
         \<longrightarrow> (\<exists>w'. Create chartname dir w = ((Join [Abs w dir, chartname], None), w')
               \<and> list_all (\<lambda>(q, body). nodes w' q = Some (RegularFile body))
                    (new_unit_layout (resolve w (Join [Abs w dir, chartname])) chartname)
               \<and> node_at w' (resolve w (Join [Abs w dir, chartname]) @ [''charts'']) = Some Directory
               \<and> (\<forall>r. nodes w' r = nodes w r
                     \<or> r \<in> fst ` set (new_unit_layout (resolve w (Join [Abs w dir, chartname])) chartname)
                     \<or> (nodes w r = None \<and> nodes w' r = Some Directory
                         \<and> (r = resolve w (Join [Abs w dir, chartname]) @ [''charts'']
                             \<or> prefix r (resolve w (Join [Abs w dir, chartname]) @ [''templates'', ''tests'']))))))"
proof (intro conjI impI)
  assume a: "node_at w (cwd_elems w) = Some Directory
          \<and> nodes w (cwd_elems w @ [''values.yaml'']) = Some (RegularFile old)
          \<and> cwd_elems w @ [''values.yaml''] \<notin> deny w
          \<and> list_all (\<lambda>rs. writable w (cwd_elems w @ rs)) (module_elems chartname)"
  have m: "CHR ''/'' \<notin> set chartname" using valid by (rule valid_noslash)
  from a add_module_writes [OF valid abs dirok nofile, of old] obtain w' where
    r: "Create chartname dir w = ((Join [Abs w dir, chartname], None), w')" and
    fl: "list_all (\<lambda>f. nodes w' (resolve w (path f)) = Some (RegularFile (content f))) (getFiles [] chartname)" and
    vl: "nodes w' (cwd_elems w @ [''values.yaml'']) = Some (RegularFile (old @ transform defaultValues chartname))" and
    ch: "\<forall>r. nodes w' r = nodes w r
            \<or> r \<in> (@) (cwd_elems w) ` set (module_elems chartname)
            \<or> r = cwd_elems w @ [''values.yaml'']
            \<or> (nodes w r = None \<and> nodes w' r = Some Directory
                \<and> prefix r (cwd_elems w @ [''templates'', ''tests'']))"
    by blast
  have "list_all (\<lambda>(q, body). nodes w' q = Some (RegularFile body)) (module_layout (cwd_elems w) chartname)"
    using list_all_map_pair [OF fl] unfolding module_layout_rel [OF m] .
  moreover have "fst ` set (module_layout (cwd_elems w) chartname) = (@) (cwd_elems w) ` set (module_elems chartname)"
    using arg_cong [OF layout_fst(1), of set "cwd_elems w" chartname] by simp
  ultimately show "\<exists>w'. Create chartname dir w = ((Join [Abs w dir, chartname], None), w')
               \<and> list_all (\<lambda>(q, body). nodes w' q = Some (RegularFile body))
                    (module_layout (cwd_elems w) chartname)
               \<and> nodes w' (cwd_elems w @ [''values.yaml''])
                    = Some (RegularFile (old @ transform defaultValues chartname))
               \<and> (\<forall>r. nodes w' r = nodes w r
                     \<or> r \<in> fst ` set (module_layout (cwd_elems w) chartname)
                     \<or> r = cwd_elems w @ [''values.yaml'']
                     \<or> (nodes w r = None \<and> nodes w' r = Some Directory
                         \<and> prefix r (cwd_elems w @ [''templates'', ''tests''])))"
    using r vl ch by (intro exI [of _ w']) simp
next
  define cdir where "cdir = Join [Abs w dir, chartname]"
  define D where "D = resolve w cdir"
  assume b: "node_at w (resolve w ValuesfileName) = None
          \<and> unobstructed w (resolve w (Join [Abs w dir, chartname]))"
  have cd: "cdir = CHR ''/'' # join_sep D"
    unfolding cdir_def D_def by (rule Join_onto_abs) (rule IsAbs_Abs [OF abs])
  have regD: "list_all regular D" unfolding D_def by (rule resolve_regular)
  from b new_unit_scaffolds [OF valid abs dirok, folded cdir_def D_def] obtain w' where
    r: "Create chartname dir w = ((cdir, None), w')" and
    sc: "scaffolded w' cdir chartname" and
    ch: "\<forall>r. nodes w' r = nodes w r
            \<or> r \<in> (@) D ` set (base_elems @ module_elems ''main'')
            \<or> (nodes w r = None \<and> nodes w' r = Some Directory
                \<and> (r = D @ [''charts''] \<or> prefix r (D @ [''templates'', ''tests''])))" and
    fr: "cwd w' = cwd w"
    unfolding cdir_def [symmetric] D_def [symmetric] by blast
  have res: "resolve w' = resolve w" using fr by (rule resolve_cwd)
  from sc have fl: "list_all (\<lambda>f. nodes w' (resolve w (path f)) = Some (RegularFile (content f)))
        (getBasefiles cdir ''main'' chartname @ getFiles cdir ''main'')"
    and chd: "node_at w' (resolve w (Join [cdir, ChartsDir])) = Some Directory"
    by (simp_all add: scaffolded_def res list_all_iff)
  have "list_all (\<lambda>(q, body). nodes w' q = Some (RegularFile body)) (new_unit_layout D chartname)"
    using list_all_map_pair [OF fl] unfolding cd new_unit_layout_abs [OF regD] .
  moreover have "fst ` set (new_unit_layout D chartname) = (@) D ` set (base_elems @ module_elems ''main'')"
    using arg_cong [OF layout_fst(2), of set D chartname] by (simp add: image_Un)
  moreover have "node_at w' (D @ [''charts'']) = Some Directory"
    using chd charts_place(1) [OF regD, of w] unfolding cd by simp
  ultimately show "\<exists>w'. Create chartname dir w = ((Join [Abs w dir, chartname], None), w')
               \<and> list_all (\<lambda>(q, body). nodes w' q = Some (RegularFile body))
                    (new_unit_layout (resolve w (Join [Abs w dir, chartname])) chartname)
               \<and> node_at w' (resolve w (Join [Abs w dir, chartname]) @ [''charts'']) = Some Directory
               \<and> (\<forall>r. nodes w' r = nodes w r
                     \<or> r \<in> fst ` set (new_unit_layout (resolve w (Join [Abs w dir, chartname])) chartname)
                     \<or> (nodes w r = None \<and> nodes w' r = Some Directory
                         \<and> (r = resolve w (Join [Abs w dir, chartname]) @ [''charts'']
                             \<or> prefix r (resolve w (Join [Abs w dir, chartname]) @ [''templates'', ''tests'']))))"
    using r ch unfolding cdir_def [symmetric] D_def [symmetric] by (intro exI [of _ w']) simp
qed

lemma Abs_cwd: "cwd w' = cwd w \<Longrightarrow> Abs w' dir = Abs w dir"
  by (simp add: Abs_def)

lemma distinct_map_outer: "distinct (map (\<lambda>x. g (f x)) xs) \<Longrightarrow> distinct (map f xs)"
  by (induction xs) auto

text \<open>
  C5: let the name be valid, the working directory absolute, \<open>dir\<close> a directory, no
  \<open>values.yaml\<close> in the working directory before either run, and nothing in the way of the
  chart's files at the first run. Then both runs succeed with the chart directory as result,
  the second run finds each of the eleven planned files, at eleven different paths, with the
  content it is about to write, leaves every node of the file system as it was, and adds to
  \<open>Stderr\<close> exactly one overwrite warning for each of them, in the order of the plan, and
  nothing else.
\<close>

theorem Create_twice:
  assumes valid: "validateChartName chartname = None"
    and abs: "IsAbs (cwd w)"
    and dirok: "node_at w (resolve w (Abs w dir)) = Some Directory"
    and novalues: "node_at w (resolve w ValuesfileName) = None"
    and free: "unobstructed w (resolve w (Join [Abs w dir, chartname]))"
    and again: "node_at (snd (Create chartname dir w)) (resolve w ValuesfileName) = None"
  shows "\<exists>w1 w2. Create chartname dir w = ((Join [Abs w dir, chartname], None), w1)
      \<and> Create chartname dir w1 = ((Join [Abs w dir, chartname], None), w2)
      \<and> list_all (\<lambda>f. nodes w1 (resolve w1 (path f)) = Some (RegularFile (content f)))
           (getBasefiles (Join [Abs w dir, chartname]) ''main'' chartname
            @ getFiles (Join [Abs w dir, chartname]) ''main'')
      \<and> distinct (map path (getBasefiles (Join [Abs w dir, chartname]) ''main'' chartname
                             @ getFiles (Join [Abs w dir, chartname]) ''main''))
      \<and> length (getBasefiles (Join [Abs w dir, chartname]) ''main'' chartname
                 @ getFiles (Join [Abs w dir, chartname]) ''main'') = 11
      \<and> nodes w2 = nodes w1
      \<and> Stderr w2 = Stderr w1 @ map (\<lambda>f. Warning_exists (path f))
            (getBasefiles (Join [Abs w dir, chartname]) ''main'' chartname
             @ getFiles (Join [Abs w dir, chartname]) ''main'')"
proof -
  define cdir where "cdir = Join [Abs w dir, chartname]"
  define D where "D = resolve w cdir"
  define files where "files = getBasefiles cdir ''main'' chartname @ getFiles cdir ''main''"
  have cd: "cdir = CHR ''/'' # join_sep D"
    unfolding cdir_def D_def by (rule Join_onto_abs) (rule IsAbs_Abs [OF abs])
  have regD: "list_all regular D" unfolding D_def by (rule resolve_regular)
  from new_unit_scaffolds [OF valid abs dirok novalues free, folded cdir_def D_def files_def]
  obtain w1 where
    r1: "Create chartname dir w = ((cdir, None), w1)" and
    sc: "scaffolded w1 cdir chartname" and
    ch: "\<forall>r. nodes w1 r = nodes w r
            \<or> r \<in> (@) D ` set (base_elems @ module_elems ''main'')
            \<or> (nodes w r = None \<and> nodes w1 r = Some Directory
                \<and> (r = D @ [''charts''] \<or> prefix r (D @ [''templates'', ''tests''])))" and
    fr: "cwd w1 = cwd w" "deny w1 = deny w"
    by blast
  have res: "resolve w1 = resolve w" using fr(1) by (rule resolve_cwd)
  have ab: "Abs w1 dir = Abs w dir" using fr(1) by (rule Abs_cwd)
  have abs1: "IsAbs (cwd w1)" using abs fr by simp
  from free have wr: "\<forall>rs \<in> set (base_elems @ module_elems ''main''). writable w (D @ rs)"
    by (simp add: unobstructed_def D_def cdir_def list_all_iff)
  have dirok1: "node_at w1 (resolve w1 (Abs w1 dir)) = Some Directory"
  proof -
    define A where "A = resolve w (Abs w dir)"
    have "A \<notin> (@) D ` set (base_elems @ module_elems ''main'')"
    proof
      assume "A \<in> (@) D ` set (base_elems @ module_elems ''main'')"
      then obtain rs where rs: "rs \<in> set (base_elems @ module_elems ''main'')" and A: "A = D @ rs"
        by blast
      from wr rs have "writable w (D @ rs)" by blast
      then have "D @ rs \<noteq> []" and "nodes w (D @ rs) \<noteq> Some Directory" by (simp_all add: writable_def)
      with dirok show False unfolding A_def [symmetric] A by (auto simp: node_at_def split: if_splits)
    qed
    with ch [rule_format, of A] dirok show ?thesis
      unfolding res ab A_def [symmetric] by (auto simp: node_at_def split: if_splits)
  qed
  have novalues1: "node_at w1 (resolve w1 ValuesfileName) = None"
    using again r1 by (simp add: res)
  have sc1: "scaffolded w1 (Join [Abs w1 dir, chartname]) chartname"
    using sc by (simp add: ab cdir_def)
  from rerun_scaffolded [OF valid abs1 dirok1 novalues1 sc1] obtain w2 where
    r2: "Create chartname dir w1 = ((cdir, None), w2)" and
    same: "nodes w2 = nodes w1" and
    se: "Stderr w2 = Stderr w1 @ map (\<lambda>f. Warning_exists (path f)) files"
    unfolding ab cdir_def [symmetric] files_def [symmetric] by blast
  from sc have present: "list_all (\<lambda>f. nodes w1 (resolve w1 (path f)) = Some (RegularFile (content f))) files"
    by (simp add: scaffolded_def files_def list_all_iff)
  have "distinct (map ((@) D) (base_elems @ module_elems ''main''))"
    using elems_apart_main(1) by (simp only: distinct_map) (simp add: inj_on_def)
  then have "distinct (map (\<lambda>f. resolve w (path f)) files)"
    unfolding files_def cd planned_abs(1) [OF regD main_noslash] .
  then have dist: "distinct (map path files)" by (rule distinct_map_outer)
  have len: "length files = 11" by (simp add: files_def getBasefiles_def getFiles_def)
  from r1 r2 present dist len same se show ?thesis
    unfolding cdir_def [symmetric] files_def [symmetric] by blast
qed

subsection \<open>Two concrete runs\<close>

lemma demo_valid: "validateChartName ''demo'' = None" "validateChartName ''cache'' = None"
  by (simp_all add: name_eval)

lemma work_paths:
  "Abs work_world ''/work'' = ''/work''"
  "Join [''/work'', ''demo''] = ''/work/demo''"
  "resolve work_world ''/work'' = [''work'']"
  "resolve work_world ''/work/demo'' = [''work'', ''demo'']"
  "resolve work_world ValuesfileName = [''work'', ''values.yaml'']"
  "IsAbs (cwd work_world)"
  by (simp_all add: path_eval work_world_def)

lemma chart_paths:
  "Abs chart_world ''/work'' = ''/work''"
  "Join [''/work'', ''cache''] = ''/work/cache''"
  "resolve chart_world ''/work'' = [''work'']"
  "resolve chart_world ''/work/cache'' = [''work'', ''cache'']"
  "resolve chart_world ValuesfileName = [''work'', ''values.yaml'']"
  "cwd_elems chart_world = [''work'']"
  "IsAbs (cwd chart_world)"
  by (simp_all add: path_eval chart_world_def cwd_elems_def)

lemma work_unobstructed: "unobstructed work_world [''work'', ''demo'']"
  by (simp add: unobstructed_def passable_def writable_def base_elems_def module_elems_def
      node_at_def work_world_def)

lemma chart_writable:
  "list_all (\<lambda>rs. writable chart_world ([''work''] @ rs)) (module_elems ''cache'')"
  by (simp add: passable_def writable_def module_elems_def node_at_def chart_world_def)

lemma demo_run:
  "\<exists>w'. Create ''demo'' ''/work'' work_world = ((''/work/demo'', None), w')
     \<and> scaffolded w' ''/work/demo'' ''demo''
     \<and> (\<forall>r. nodes w' r = nodes work_world r
           \<or> r \<in> (@) [''work'', ''demo''] ` set (base_elems @ module_elems ''main'')
           \<or> (nodes work_world r = None \<and> nodes w' r = Some Directory
               \<and> (r = [''work'', ''demo''] @ [''charts'']
                   \<or> prefix r ([''work'', ''demo''] @ [''templates'', ''tests'']))))
     \<and> cwd w' = cwd work_world"
proof -
  have 1: "node_at work_world (resolve work_world (Abs work_world ''/work'')) = Some Directory"
    by (simp add: work_paths) (simp add: node_at_def work_world_def)
  have 2: "node_at work_world (resolve work_world ValuesfileName) = None"
    by (simp add: work_paths) (simp add: node_at_def work_world_def)
  have 3: "unobstructed work_world (resolve work_world (Join [Abs work_world ''/work'', ''demo'']))"
    by (simp add: work_paths work_unobstructed)
  from new_unit_scaffolds [OF demo_valid(1) work_paths(6) 1 2 3] show ?thesis
    unfolding work_paths by blast
qed

lemma demo_values_absent:
  "node_at (snd (Create ''demo'' ''/work'' work_world)) (resolve work_world ValuesfileName) = None"
proof -
  from demo_run obtain w' where
    r: "Create ''demo'' ''/work'' work_world = ((''/work/demo'', None), w')" and
    ch: "\<forall>r. nodes w' r = nodes work_world r
           \<or> r \<in> (@) [''work'', ''demo''] ` set (base_elems @ module_elems ''main'')
           \<or> (nodes work_world r = None \<and> nodes w' r = Some Directory
               \<and> (r = [''work'', ''demo''] @ [''charts'']
                   \<or> prefix r ([''work'', ''demo''] @ [''templates'', ''tests''])))"
    by blast
  have "nodes work_world [''work'', ''values.yaml''] = None" by (simp add: work_world_def)
  with ch [rule_format, of "[''work'', ''values.yaml'']"]
  have "nodes w' [''work'', ''values.yaml''] = None"
    by (auto simp: base_elems_def module_elems_def)
  with r show ?thesis by (simp add: work_paths node_at_def)
qed

lemma cache_run_pre:
  "node_at chart_world (resolve chart_world (Abs chart_world ''/work'')) = Some Directory"
  "\<forall>d. node_at chart_world (resolve chart_world (Join [Abs chart_world ''/work'', ''cache''])) \<noteq> Some (RegularFile d)"
  "node_at chart_world (resolve chart_world ValuesfileName) \<noteq> None"
  "node_at chart_world (cwd_elems chart_world) = Some Directory"
  "nodes chart_world (cwd_elems chart_world @ [''values.yaml'']) = Some (RegularFile ''main: {}'')"
  "cwd_elems chart_world @ [''values.yaml''] \<notin> deny chart_world"
  by (simp_all add: chart_paths) (simp_all add: node_at_def chart_world_def)

lemma cache_run_result: "fst (Create ''cache'' ''/work'' chart_world) = (''/work/cache'', None)"
  unfolding add_module_steps [OF demo_valid(2) chart_paths(7) cache_run_pre(1,2,3)]
  by (simp add: Let_def chart_paths)

subsection \<open>The returned path\<close>

text \<open>
  C8, as stated, has the add-module mode return the templates path relative to the working
  directory. From inside the chart at \<open>/work\<close>, \<open>Create\<close> for the module \<open>cache\<close> returns
  \<open>/work/cache\<close>, as it would for a new chart.
\<close>

theorem add_module_returns_cdir:
  "node_at chart_world (resolve chart_world ValuesfileName) = Some (RegularFile ''main: {}'')
   \<and> fst (Create ''cache'' ''/work'' chart_world) = (''/work/cache'', None)
   \<and> ''/work/cache'' \<noteq> TemplatesDir
   \<and> IsAbs ''/work/cache''"
  using cache_run_result
  by (simp add: chart_paths TemplatesDir_def IsAbs_def) (simp add: node_at_def chart_world_def)

text \<open>
  C8, amended: on success, in new-unit mode and in add-module mode alike, \<open>Create\<close> returns
  the chart directory path, \<open>chartname\<close> joined to the absolute \<open>dir\<close>.
\<close>

theorem Create_returns_cdir:
  "Create chartname dir w = ((p, None), w') \<Longrightarrow> p = Join [Abs w dir, chartname]"
  by (auto simp: Create_def Let_def split: option.splits prod.splits sum.splits if_splits)

theorem Create_returns_cdir_witness:
  "fst (Create ''demo'' ''/work'' work_world) = (''/work/demo'', None)
   \<and> fst (Create ''cache'' ''/work'' chart_world) = (''/work/cache'', None)
   \<and> Join [Abs work_world ''/work'', ''demo''] = ''/work/demo''
   \<and> Join [Abs chart_world ''/work'', ''cache''] = ''/work/cache''"
proof -
  from demo_run obtain w1 where 1: "Create ''demo'' ''/work'' work_world = ((''/work/demo'', None), w1)"
    by blast
  obtain w2 where 2: "Create ''cache'' ''/work'' chart_world = ((''/work/cache'', None), w2)"
    using cache_run_result by (cases "Create ''cache'' ''/work'' chart_world") auto
  from Create_returns_cdir [OF 1] Create_returns_cdir [OF 2] 1 2 show ?thesis by simp
qed

end
